theory Spec2Isabelle
  imports Main
begin

section \<open>SQL DML resolver (edb/pgsql/resolver/command.py)\<close>

text \<open>
  A shallow embedding of the INSERT half of the SQL resolver.  Python exceptions are
  values of type \<open>error\<close> returned on the left of a sum; objects whose identity the
  code relies on (the \<open>InsertStmt\<close> nodes that key \<open>ctx.compiled_dml\<close>, the IR
  mutating statements that mark CTEs) carry an explicit identifier.  \<open>resolve_CopyStmt\<close>
  is left out; of it only \<open>_pull_columns_from_table\<close>, which it shares with INSERT,
  is embedded.
\<close>

subsection \<open>Errors\<close>

type_synonym span = "nat option"

datatype pgext_code = ERROR_FEATURE_NOT_SUPPORTED | ERROR_DATA_EXCEPTION

text \<open>
  \<open>QueryError msg span pgext_code\<close> is \<open>errors.QueryError\<close>, the only user-facing
  error; the others are the uncaught Python exceptions of failed assertions, list
  indexing, dictionary lookups and \<open>raise NotImplementedError\<close>.
\<close>

datatype error =
    QueryError string span "pgext_code option"
  | AssertionError string
  | IndexError
  | KeyError
  | NotImplementedError

subsection \<open>Tables and columns (context.Table, context.Column)\<close>

datatype column_kind = ColumnByName string | ColumnKindOther nat

record column =
  col_name :: string
  col_hidden :: bool
  col_kind :: column_kind

record table =
  tab_schema_id :: "nat option"
  tab_columns :: "column list"
  tab_alias :: "string option"
  tab_reference_as :: "string option"

subsection \<open>Iterables and their truth value\<close>

text \<open>
  \<open>_pull_columns_from_table\<close> tests its \<open>Optional[Iterable[...]]\<close> argument with
  \<open>not col_names\<close>.  A list is false when empty; a generator object (what both
  callers pass) is always true.
\<close>

datatype 'a iterable = PyList "'a list" | PyGenerator "'a list"

fun items :: "'a iterable \<Rightarrow> 'a list" where
  "items (PyList xs) = xs"
| "items (PyGenerator xs) = xs"

fun truthy :: "'a iterable option \<Rightarrow> bool" where
  "truthy None = False"
| "truthy (Some (PyList xs)) = (xs \<noteq> [])"
| "truthy (Some (PyGenerator xs)) = True"

subsection \<open>\<open>_pull_columns_from_table\<close>\<close>

text \<open>
  The dictionary comprehension \<open>{col.name: col for col in table.columns}\<close>: a later
  column replaces an earlier one of the same name.
\<close>

definition col_map_of :: "column list \<Rightarrow> (string \<rightharpoonup> column)" where
  "col_map_of cs = foldl (\<lambda>m c. m(col_name c \<mapsto> c)) Map.empty cs"

text \<open>The loop \<open>for name, span in col_names\<close>, with \<open>res\<close> as accumulator.\<close>

fun pull_named ::
  "(string \<rightharpoonup> column) \<Rightarrow> (string \<times> span) list \<Rightarrow> column list \<Rightarrow> error + column list" where
  "pull_named col_map [] res = Inr res"
| "pull_named col_map ((name, sp) # rest) res =
     (case col_map name of
        None \<Rightarrow> Inl (QueryError (''column '' @ name @ '' does not exist'') sp None)
      | Some col \<Rightarrow> pull_named col_map rest (res @ [col]))"

definition pull_columns_from_table ::
  "table \<Rightarrow> (string \<times> span) iterable option \<Rightarrow> error + column list" where
  "pull_columns_from_table tab col_names =
     (if \<not> truthy col_names then Inr (filter (\<lambda>c. \<not> col_hidden c) (tab_columns tab))
      else pull_named (col_map_of (tab_columns tab)) (items (the col_names)) [])"

subsection \<open>Path identities and aspects\<close>

datatype aspect = IDENTITY | VALUE | SERIALIZED | ITERATOR

text \<open>
  Modelled from the spec: \<open>irast.PathId\<close> is not part of the resolver's sources.  A
  path id names the type it starts from, the pointers traversed from there, whether it
  denotes the pointer itself or its target, and a namespace.  \<open>rptr_name\<close> is the name of
  the last pointer traversed, absent for a path with no traversal step.
\<close>

datatype path_id = PathId
  (pid_typename: string) (pid_ptrs: "string list") (pid_is_ptr_path: bool)
  (pid_namespace: "string list")

definition from_type :: "string \<Rightarrow> path_id" where
  "from_type typename = PathId typename [] False []"

definition path_extend :: "path_id \<Rightarrow> string \<Rightarrow> path_id" where
  "path_extend p ptr = PathId (pid_typename p) (pid_ptrs p @ [ptr]) False (pid_namespace p)"

definition tgt_path :: "path_id \<Rightarrow> path_id" where
  "tgt_path p = PathId (pid_typename p) (pid_ptrs p) False (pid_namespace p)"

definition ptr_path :: "path_id \<Rightarrow> path_id" where
  "ptr_path p = PathId (pid_typename p) (pid_ptrs p) True (pid_namespace p)"

definition rptr_name :: "path_id \<Rightarrow> string option" where
  "rptr_name p = (if pid_ptrs p = [] then None else Some (last (pid_ptrs p)))"

subsection \<open>SQL syntax trees (pgast)\<close>

datatype expr =
    Keyword string
  | NumericConstant string
  | StringConstant string
  | NullConstant
  | ParamRef nat
  | ColumnRef "string list" bool
  | FuncCall "string list" "expr list" bool
  | TypeCast expr "string list"
  | ImplicitRowExpr "expr list"

datatype res_target = ResTarget (rt_name: "string option") (rt_val: expr)

datatype insert_target = InsertTarget (it_name: string) (it_span: span)

text \<open>
  A dictionary is an association list in insertion order; \<open>dict_set\<close> is
  \<open>d[k] = v\<close> (a key already present keeps its position).
\<close>

fun dict_set :: "('k \<times> 'v) list \<Rightarrow> 'k \<Rightarrow> 'v \<Rightarrow> ('k \<times> 'v) list" where
  "dict_set [] k v = [(k, v)]"
| "dict_set ((k', v') # d) k v = (if k' = k then (k, v) # d else (k', v') # dict_set d k v)"

datatype relation = Relation
  (rel_name: string) (rel_path_outputs: "((path_id \<times> aspect) \<times> expr) list")

datatype base_relation = BaseRelation relation | OtherRelation

type_synonym ir_node = nat

text \<open>
  \<open>node_id\<close> stands for the identity of the Python object: pgast nodes are compared
  and hashed by identity.  \<open>for_dml_stmt\<close> is the marker of the IR mutating statement a
  compiled CTE was generated for; a CTE built without it has none.
\<close>

datatype query =
    SelectStmt
      (ctes: "cte list option")
      (path_outputs: "((path_id \<times> aspect) \<times> expr) list")
      (sel_values: "expr list")
      (limit_count: "expr option")
      (target_list: "res_target list")
      (from_clause: "range_var list")
      (q_span: span)
  | InsertStmt
      (node_id: nat)
      (ctes: "cte list option")
      (path_outputs: "((path_id \<times> aspect) \<times> expr) list")
      (ins_relation: "range_var option")
      (cols: "insert_target list option")
      (select_stmt: "query option")
      (returning_list: "res_target list option")
      (q_span: span)
  | DMLQuery
      (node_id: nat)
      (ctes: "cte list option")
      (path_outputs: "((path_id \<times> aspect) \<times> expr) list")
      (q_span: span)
and cte = CommonTableExpr
      (cte_name: string) (cte_query: query) (for_dml_stmt: "ir_node option")
and range_var =
    RelRangeVar (rvar_relation: base_relation) (rvar_aliasname: "string option")
  | RangeSubselect (subquery: query) (rvar_aliasname: "string option")

datatype base = Query query | OtherBase

text \<open>\<open>pgast.SelectStmt()\<close> with every field at its default.\<close>

definition SelectStmt0 :: query where
  "SelectStmt0 = SelectStmt None [] [] None [] [] None"

fun set_ctes :: "query \<Rightarrow> cte list option \<Rightarrow> query" where
  "set_ctes (SelectStmt c po v l t f s) c' = SelectStmt c' po v l t f s"
| "set_ctes (InsertStmt n c po r cs ss rl s) c' = InsertStmt n c' po r cs ss rl s"
| "set_ctes (DMLQuery n c po s) c' = DMLQuery n c' po s"

fun set_values :: "query \<Rightarrow> expr list \<Rightarrow> query" where
  "set_values (SelectStmt c po v l t f s) v' = SelectStmt c po v' l t f s"
| "set_values q v' = q"

fun is_SelectStmt :: "query \<Rightarrow> bool" where
  "is_SelectStmt (SelectStmt c po v l t f s) = True"
| "is_SelectStmt q = False"

fun is_InsertStmt :: "query \<Rightarrow> bool" where
  "is_InsertStmt (InsertStmt n c po r cs ss rl s) = True"
| "is_InsertStmt q = False"

text \<open>Python's truth value of an \<open>Optional[List]\<close>: false for \<open>None\<close> and for \<open>[]\<close>.\<close>

fun nonempty :: "'a list option \<Rightarrow> bool" where
  "nonempty None = False"
| "nonempty (Some xs) = (xs \<noteq> [])"

fun opt_list :: "'a list option \<Rightarrow> 'a list" where
  "opt_list None = []"
| "opt_list (Some xs) = xs"

subsection \<open>\<open>_has_at_most_one_row\<close>\<close>

fun has_at_most_one_row :: "query option \<Rightarrow> bool" where
  "has_at_most_one_row (Some (SelectStmt c po v l t f s)) =
     ((v \<noteq> [] \<and> length v = 1) \<or> l = Some (NumericConstant ''1''))"
| "has_at_most_one_row q = False"

subsection \<open>\<open>_preprocess_insert_value\<close>\<close>

definition is_default :: "expr \<Rightarrow> bool" where
  "is_default e = (e = Keyword ''DEFAULT'')"

text \<open>\<open>assert isinstance(row, pgast.ImplicitRowExpr)\<close> followed by \<open>row.args\<close>.\<close>

fun row_args :: "expr \<Rightarrow> error + expr list" where
  "row_args (ImplicitRowExpr args) = Inr args"
| "row_args e = Inl (AssertionError [])"

text \<open>
  The first loop: the positions at which some row holds \<open>DEFAULT\<close>.  The Python set
  is a list here; \<open>removal_order\<close> is \<open>sorted(default_columns, reverse=True)\<close>.
\<close>

fun default_columns :: "expr list \<Rightarrow> error + nat list" where
  "default_columns [] = Inr []"
| "default_columns (row # rows) =
     (case row_args row of
        Inl e \<Rightarrow> Inl e
      | Inr args \<Rightarrow>
          (case default_columns rows of
             Inl e \<Rightarrow> Inl e
           | Inr ds \<Rightarrow> Inr (filter (\<lambda>i. is_default (args ! i)) [0..<length args] @ ds)))"

definition removal_order :: "nat list \<Rightarrow> nat list" where
  "removal_order ds = rev (sort (remdups ds))"

text \<open>\<open>del xs[i]\<close> for an index in range.\<close>

definition del_at :: "nat \<Rightarrow> 'a list \<Rightarrow> 'a list" where
  "del_at i xs = take i xs @ drop (Suc i) xs"

definition default_error :: "span \<Rightarrow> error" where
  "default_error sp =
     QueryError ''DEFAULT keyword is supported only when used for a column in all rows''
       sp (Some ERROR_FEATURE_NOT_SUPPORTED)"

text \<open>
  The inner loop \<open>for r_index, row in enumerate(value_query.values)\<close> for one column
  \<open>to_remove\<close>: the first row that is too short raises IndexError, the first that does
  not hold \<open>DEFAULT\<close> there raises the query error.
\<close>

fun remove_in_rows :: "nat \<Rightarrow> span \<Rightarrow> expr list \<Rightarrow> error + expr list" where
  "remove_in_rows to_remove sp [] = Inr []"
| "remove_in_rows to_remove sp (row # rows) =
     (case row_args row of
        Inl e \<Rightarrow> Inl e
      | Inr args \<Rightarrow>
          if length args \<le> to_remove then Inl IndexError
          else if \<not> is_default (args ! to_remove) then Inl (default_error sp)
          else (case remove_in_rows to_remove sp rows of
                  Inl e \<Rightarrow> Inl e
                | Inr rows' \<Rightarrow> Inr (ImplicitRowExpr (del_at to_remove args) # rows')))"

text \<open>The outer loop over the columns to remove, in the order given.\<close>

fun remove_defaults ::
  "nat list \<Rightarrow> span \<Rightarrow> column list \<Rightarrow> expr list \<Rightarrow> error + (column list \<times> expr list)" where
  "remove_defaults [] sp expected_columns rows = Inr (expected_columns, rows)"
| "remove_defaults (to_remove # rest) sp expected_columns rows =
     (if length expected_columns \<le> to_remove then Inl IndexError
      else (case remove_in_rows to_remove sp rows of
              Inl e \<Rightarrow> Inl e
            | Inr rows' \<Rightarrow> remove_defaults rest sp (del_at to_remove expected_columns) rows'))"

text \<open>The test for \<open>VALUES (), (), ..., ()\<close> and the query that replaces it.\<close>

fun is_empty_row_values :: "expr list \<Rightarrow> bool" where
  "is_empty_row_values (ImplicitRowExpr args # rows) = (args = [])"
| "is_empty_row_values rows = False"

definition null_rows_select :: "expr list \<Rightarrow> query" where
  "null_rows_select rows =
     SelectStmt None [] [] None []
       [RangeSubselect
          (SelectStmt None [] (map (\<lambda>_. ImplicitRowExpr [NullConstant]) rows) None [] [] None)
          (Some ''_'')]
       None"

text \<open>\<open>assert not value_query.ctes; value_query.ctes = value_ctes\<close>.\<close>

definition attach_ctes :: "query \<Rightarrow> cte list option \<Rightarrow> error + query" where
  "attach_ctes value_query value_ctes =
     (if nonempty (ctes value_query) then Inl (AssertionError [])
      else Inr (set_ctes value_query value_ctes))"

text \<open>
  The result is \<open>(value_query, expected_columns)\<close> as the source returns them, and in
  third place the state in which the call leaves the object it was given
  (\<open>stmt.select_stmt\<close>), which the function updates in place.
\<close>

fun preprocess_insert_value ::
  "query option \<Rightarrow> cte list option \<Rightarrow> column list
     \<Rightarrow> error + (query \<times> column list \<times> query option)" where
  "preprocess_insert_value None value_ctes expected_columns =
     Inr (SelectStmt None [] [] None [] [] None, [], None)"
| "preprocess_insert_value (Some value_query) value_ctes expected_columns =
     (if is_SelectStmt value_query \<and> sel_values value_query \<noteq> [] then
        (case default_columns (sel_values value_query) of
           Inl e \<Rightarrow> Inl e
         | Inr ds \<Rightarrow>
             (case remove_defaults (removal_order ds) (q_span value_query)
                     expected_columns (sel_values value_query) of
                Inl e \<Rightarrow> Inl e
              | Inr (expected_columns', rows') \<Rightarrow>
                  if is_empty_row_values rows' then
                    (case attach_ctes (null_rows_select rows') value_ctes of
                       Inl e \<Rightarrow> Inl e
                     | Inr q \<Rightarrow> Inr (q, expected_columns', Some (set_values value_query rows')))
                  else
                    (case attach_ctes (set_values value_query rows') value_ctes of
                       Inl e \<Rightarrow> Inl e
                     | Inr q \<Rightarrow> Inr (q, expected_columns', Some q))))
      else
        (case attach_ctes value_query value_ctes of
           Inl e \<Rightarrow> Inl e
         | Inr q \<Rightarrow> Inr (q, expected_columns, Some q)))"

subsection \<open>The object schema, as far as the resolver reads it\<close>

datatype schema_cardinality = SchemaCardinality_One | SchemaCardinality_Many

text \<open>
  A pointer (link or property) with what the resolver asks of it: its short name, the
  names of its source and target types (\<open>get_source\<close>, \<open>get_target\<close>; absent when the
  schema has none, or when the source is not an object type), its cardinality and the
  pointers defined on it (link properties, \<open>maybe_get_ptr\<close>).
\<close>

datatype pointer = Pointer
  (ptr_shortname: string) (ptr_source: "string option") (ptr_target: "string option")
  (ptr_cardinality: schema_cardinality) (ptr_pointers: "pointer list")

datatype schema_obj =
    ObjectType (obj_name: string) (obj_pointers: "pointer list")
  | Link pointer
  | Property pointer
  | OtherSchemaObject

fun find_ptr :: "pointer list \<Rightarrow> string \<Rightarrow> pointer option" where
  "find_ptr [] n = None"
| "find_ptr (p # ps) n = (if ptr_shortname p = n then Some p else find_ptr ps n)"

subsection \<open>Object-query syntax trees (qlast)\<close>

datatype shape_op = ASSIGN | APPEND

datatype ql_expr =
    IRAnchor string
  | ObjectRef string
  | Ptr string "string option"
  | Path "ql_expr list" bool
  | QlTypeName ql_expr
  | QlTypeCast ql_expr ql_expr
  | ShapeElement ql_expr "shape_op option" "ql_expr option"
  | Shape "ql_expr option" "ql_expr list"
  | BinOp ql_expr string ql_expr
  | InsertQuery ql_expr "ql_expr list"
  | UpdateQuery ql_expr ql_expr "ql_expr list"
  | ForQuery ql_expr string ql_expr
  | DetachedExpr ql_expr
  | AliasedExpr string ql_expr
  | SelectQuery "ql_expr list" ql_expr

fun is_ForQuery :: "ql_expr \<Rightarrow> bool" where
  "is_ForQuery (ForQuery i a r) = True"
| "is_ForQuery e = False"

fun is_InsertQuery :: "ql_expr \<Rightarrow> bool" where
  "is_InsertQuery (InsertQuery s sh) = True"
| "is_InsertQuery e = False"

fun is_UpdateQuery :: "ql_expr \<Rightarrow> bool" where
  "is_UpdateQuery (UpdateQuery s w sh) = True"
| "is_UpdateQuery e = False"

subsection \<open>Resolver context and the records of a DML statement\<close>

record compiled_dml =
  value_cte_name :: string
  value_relation_input :: query
  value_columns :: "(string \<times> bool) list"
  value_iterator_name :: string
  output_ctes :: "cte list"
  output_relation_name :: string
  output_namespace :: "(string \<times> expr) list"

record preprocessed_dml =
  pp_input :: query
  ql_stmt :: ql_expr
  ql_returning_shape :: "ql_expr list"
  ql_singletons :: "path_id list"
  ql_anchors :: "(string \<times> path_id) list"
  external_rels :: "(path_id \<times> relation \<times> string list) list"
  subject_columns :: "(string \<times> string) list"
  early_result :: compiled_dml

text \<open>
  The part of \<open>ResolverContextLevel\<close> the DML code reads and writes.  The alias
  generator is a counter; \<open>compiled_dml\<close> is a dictionary keyed by the identity of the
  statement.
\<close>

record ctx =
  schema :: "(nat \<times> schema_obj) list"
  alias_counter :: nat
  subquery_depth :: int
  ctx_compiled_dml :: "(nat \<times> compiled_dml) list"
  ctes_buffer :: "cte list"

text \<open>
  \<open>ctx.alias_generator.get(hint)\<close>: the name for a hint and a counter value is left
  open (\<open>mk\<close>), the counter advances.
\<close>

definition alias_get ::
  "(string \<Rightarrow> nat \<Rightarrow> string) \<Rightarrow> string \<Rightarrow> ctx \<Rightarrow> string \<times> ctx" where
  "alias_get mk hint c = (mk hint (alias_counter c), c\<lparr>alias_counter := Suc (alias_counter c)\<rparr>)"

subsection \<open>\<open>_get_pointer_for_column\<close> and \<open>_construct_insert_element_for_ptr\<close>\<close>

definition endswith_id :: "string \<Rightarrow> bool" where
  "endswith_id n = (3 \<le> length n \<and> drop (length n - 3) n = ''_id'')"

fun get_pointer_for_column :: "column \<Rightarrow> schema_obj \<Rightarrow> error + (pointer \<times> string \<times> bool)" where
  "get_pointer_for_column col (Link p) =
     (if col_name col = ''source'' \<or> col_name col = ''target'' then Inr (p, col_name col, False)
      else
        (let (ptr_name, is_link) =
               (if endswith_id (col_name col)
                then (take (length (col_name col) - 3) (col_name col), True)
                else (col_name col, False))
         in case find_ptr (ptr_pointers p) ptr_name of
              None \<Rightarrow> Inl (AssertionError [])
            | Some ptr \<Rightarrow> Inr (ptr, ptr_name, is_link)))"
| "get_pointer_for_column col (Property p) =
     (if col_name col = ''source'' \<or> col_name col = ''target'' then Inr (p, col_name col, False)
      else Inl (AssertionError []))"
| "get_pointer_for_column col (ObjectType n ptrs) =
     (let (ptr_name, is_link) =
            (if endswith_id (col_name col)
             then (take (length (col_name col) - 3) (col_name col), True)
             else (col_name col, False))
      in case find_ptr ptrs ptr_name of
           None \<Rightarrow> Inl (AssertionError [])
         | Some ptr \<Rightarrow> Inr (ptr, ptr_name, is_link))"
| "get_pointer_for_column col OtherSchemaObject = Inl (AssertionError [])"

text \<open>\<open>s_utils.name_to_ast_ref\<close>: a reference to a schema object by name.\<close>

definition name_to_ast_ref :: "string \<Rightarrow> ql_expr" where
  "name_to_ast_ref n = ObjectRef n"

definition construct_insert_element_for_ptr ::
  "ql_expr \<Rightarrow> string \<Rightarrow> pointer \<Rightarrow> bool \<Rightarrow> error + ql_expr" where
  "construct_insert_element_for_ptr source_ql ptr_name ptr is_link =
     (if is_link then
        (case ptr_target ptr of
           None \<Rightarrow> Inl (AssertionError [])
         | Some ptr_target_name \<Rightarrow>
             Inr (ShapeElement (Path [Ptr ptr_name None] False) (Some ASSIGN)
                    (Some (QlTypeCast (QlTypeName (name_to_ast_ref ptr_target_name))
                             (Path [source_ql, Ptr ptr_name None, Ptr ''id'' None] False)))))
      else
        Inr (ShapeElement (Path [Ptr ptr_name None] False) (Some ASSIGN)
               (Some (Path [source_ql, Ptr ptr_name None] False))))"

text \<open>\<open>_get_ptr_id\<close>: the path of a pointer below a source path.\<close>

definition get_ptr_id :: "path_id \<Rightarrow> pointer \<Rightarrow> path_id" where
  "get_ptr_id source_id ptr = path_extend source_id (ptr_shortname ptr)"

subsection \<open>\<open>_preprocess_insert_object_stmt\<close>\<close>

text \<open>
  The loop over the expected columns: the value columns, the path outputs of the phantom
  value relation and the insert shape, in that order.
\<close>

fun object_columns ::
  "schema_obj \<Rightarrow> path_id \<Rightarrow> ql_expr \<Rightarrow> column list
     \<Rightarrow> (string \<times> bool) list \<times> ((path_id \<times> aspect) \<times> expr) list \<times> ql_expr list
     \<Rightarrow> error + ((string \<times> bool) list \<times> ((path_id \<times> aspect) \<times> expr) list \<times> ql_expr list)" where
  "object_columns sub value_id value_ql [] acc = Inr acc"
| "object_columns sub value_id value_ql (expected_col # rest) (vcs, po, shape) =
     (case get_pointer_for_column expected_col sub of
        Inl e \<Rightarrow> Inl e
      | Inr (ptr, ptr_name, is_link) \<Rightarrow>
          (let ptr_id = get_ptr_id value_id ptr;
               output_var = ColumnRef [ptr_name] True;
               po' = (if is_link
                      then dict_set (dict_set po (ptr_id, IDENTITY) output_var)
                             (ptr_id, VALUE) output_var
                      else dict_set po (ptr_id, VALUE) output_var)
           in case construct_insert_element_for_ptr value_ql ptr_name ptr is_link of
                Inl e \<Rightarrow> Inl e
              | Inr el \<Rightarrow>
                  object_columns sub value_id value_ql rest
                    (vcs @ [(ptr_name, is_link)], po', shape @ [el])))"

text \<open>The returning shape: one element per visible column of the subject table.\<close>

fun object_returning_shape :: "schema_obj \<Rightarrow> column list \<Rightarrow> error + ql_expr list" where
  "object_returning_shape sub [] = Inr []"
| "object_returning_shape sub (col # rest) =
     (if col_hidden col then object_returning_shape sub rest
      else (case get_pointer_for_column col sub of
              Inl e \<Rightarrow> Inl e
            | Inr (ptr, ptr_name, is_link) \<Rightarrow>
                (case object_returning_shape sub rest of
                   Inl e \<Rightarrow> Inl e
                 | Inr els \<Rightarrow>
                     Inr (ShapeElement (Path [Ptr ptr_name None] False) None None # els))))"

definition preprocess_insert_object_stmt ::
  "(string \<Rightarrow> nat \<Rightarrow> string) \<Rightarrow> query \<Rightarrow> schema_obj \<Rightarrow> table \<Rightarrow> column list \<Rightarrow> ctx
     \<Rightarrow> error + (preprocessed_dml \<times> ctx)" where
  "preprocess_insert_object_stmt mk stmt sub sub_table expected_columns c =
     (case preprocess_insert_value (select_stmt stmt) (ctes stmt) expected_columns of
        Inl e \<Rightarrow> Inl e
      | Inr (value_relation, expected_columns', select_stmt') \<Rightarrow>
          (let is_value_single = has_at_most_one_row select_stmt';
               (value_name, c1) = alias_get mk ''ins_val'' c;
               (iterator_name, c2) = alias_get mk ''ins_iter'' c1;
               value_id = from_type value_name;
               value_ql = (if is_value_single then IRAnchor value_name
                           else ObjectRef iterator_name);
               (value_cte_name, c3) = alias_get mk ''ins_value'' c2
           in case object_columns sub value_id value_ql expected_columns' ([], [], []) of
                Inl e \<Rightarrow> Inl e
              | Inr (value_columns', po, insert_shape) \<Rightarrow>
                  (let (value_iterator, c4) = alias_get mk ''iter'' c3;
                       output_var = ColumnRef [value_iterator] False;
                       po' = dict_set (dict_set po (value_id, ITERATOR) output_var)
                               (value_id, VALUE) output_var;
                       value_rel = Relation value_cte_name po';
                       insert_ql = InsertQuery (name_to_ast_ref (obj_name sub)) insert_shape;
                       ql = (if \<not> is_value_single
                             then ForQuery (Path [IRAnchor value_name] False) iterator_name
                                    insert_ql
                             else insert_ql)
                   in case (if nonempty (returning_list stmt)
                            then object_returning_shape sub (tab_columns sub_table)
                            else Inr []) of
                        Inl e \<Rightarrow> Inl e
                      | Inr returning_shape \<Rightarrow>
                          Inr (\<lparr>pp_input = stmt,
                                ql_stmt = ql,
                                ql_returning_shape = returning_shape,
                                ql_singletons = [value_id],
                                ql_anchors = [(value_name, value_id)],
                                external_rels =
                                  [(value_id, value_rel, [''source'', ''identity''])],
                                subject_columns = [],
                                early_result =
                                  \<lparr>value_cte_name = value_cte_name,
                                   value_relation_input = value_relation,
                                   value_columns = value_columns',
                                   value_iterator_name = value_iterator,
                                   output_ctes = [],
                                   output_relation_name = [],
                                   output_namespace = []\<rparr>\<rparr>, c4))))"

subsection \<open>\<open>_preprocess_insert_pointer_stmt\<close>\<close>

text \<open>
  The loop over the expected columns of a link or property table.  \<open>sub_is_link\<close> is
  \<open>isinstance(sub, s_links.Link)\<close>, \<open>p\<close> the pointer.
\<close>

fun pointer_columns ::
  "bool \<Rightarrow> pointer \<Rightarrow> path_id \<Rightarrow> path_id \<Rightarrow> column list
     \<Rightarrow> (string \<times> bool) list \<times> ((path_id \<times> aspect) \<times> expr) list
     \<Rightarrow> error + ((string \<times> bool) list \<times> ((path_id \<times> aspect) \<times> expr) list)" where
  "pointer_columns sub_is_link p source_id value_id [] acc = Inr acc"
| "pointer_columns sub_is_link p source_id value_id (expected_col # rest) (vcs, po) =
     (if col_name expected_col = ''source'' then
        (let var = ColumnRef [''source''] True
         in pointer_columns sub_is_link p source_id value_id rest
              (vcs @ [(''source'', True)],
               dict_set (dict_set po (source_id, VALUE) var) (source_id, IDENTITY) var))
      else if col_name expected_col = ''target'' then
        (let ptr_id = tgt_path value_id;
             var = ColumnRef [''target''] True
         in pointer_columns sub_is_link p source_id value_id rest
              (vcs @ [(''target'', sub_is_link)],
               dict_set (dict_set po (ptr_id, VALUE) var) (ptr_id, IDENTITY) var))
      else if \<not> sub_is_link then Inl (AssertionError [])
      else
        (case find_ptr (ptr_pointers p) (col_name expected_col) of
           None \<Rightarrow> Inl (AssertionError [])
         | Some ptr \<Rightarrow>
             (let ptr_id = get_ptr_id (ptr_path value_id) ptr;
                  var = ColumnRef [col_name expected_col] True
              in pointer_columns sub_is_link p source_id value_id rest
                   (vcs @ [(col_name expected_col, False)],
                    dict_set po (ptr_id, VALUE) var))))"

definition source_required :: "span \<Rightarrow> error" where
  "source_required sp =
     QueryError ''column source is required when inserting into link tables'' sp None"

definition target_required :: "span \<Rightarrow> error" where
  "target_required sp =
     QueryError ''column target is required when inserting into link tables'' sp None"

definition pointer_ql_stmt ::
  "bool \<Rightarrow> pointer \<Rightarrow> string \<Rightarrow> string \<Rightarrow> ql_expr \<Rightarrow> (string \<times> bool) list \<Rightarrow> ql_expr" where
  "pointer_ql_stmt sub_is_link p sub_source_name sub_target_name value_ql vcs =
     (let sub_name = ptr_shortname p;
          ql_sub_source_ref = name_to_ast_ref sub_source_name;
          ql_sub_target_ref = name_to_ast_ref sub_target_name;
          ql_ptr_val =
            (if sub_is_link then
               Shape (Some (QlTypeCast (QlTypeName ql_sub_target_ref)
                              (Path [value_ql, Ptr sub_name None] False)))
                 (map (\<lambda>(ptr_name, _).
                         ShapeElement (Path [Ptr ptr_name (Some ''property'')] False) None
                           (Some (Path [value_ql, Ptr sub_name None,
                                        Ptr ptr_name (Some ''property'')] False)))
                    (filter (\<lambda>(ptr_name, _). ptr_name \<noteq> ''source'' \<and> ptr_name \<noteq> ''target'')
                       vcs))
             else Path [value_ql, Ptr sub_name None] False)
      in UpdateQuery (Path [ql_sub_source_ref] False)
           (BinOp (Path [ql_sub_source_ref] False) ''='' (Path [value_ql] False))
           [ShapeElement (Path [Ptr sub_name None] False)
              (Some (if ptr_cardinality p = SchemaCardinality_Many then APPEND else ASSIGN))
              (Some ql_ptr_val)])"

definition pointer_returning_shape :: "string \<Rightarrow> column list \<Rightarrow> ql_expr list" where
  "pointer_returning_shape sub_name columns =
     map (\<lambda>column.
            ShapeElement (Path [Ptr (col_name column) None] False) None
              (Some (Path [Ptr sub_name None, Ptr (col_name column) (Some ''property'')] True)))
       (filter (\<lambda>column. \<not> col_hidden column \<and> col_name column \<noteq> ''source''
                           \<and> col_name column \<noteq> ''target'') columns)"

definition preprocess_insert_pointer_stmt ::
  "(string \<Rightarrow> nat \<Rightarrow> string) \<Rightarrow> query \<Rightarrow> bool \<Rightarrow> pointer \<Rightarrow> table \<Rightarrow> column list \<Rightarrow> ctx
     \<Rightarrow> error + (preprocessed_dml \<times> ctx)" where
  "preprocess_insert_pointer_stmt mk stmt sub_is_link p sub_table expected_columns c =
     (if \<not> list_ex (\<lambda>col. col_name col = ''source'') expected_columns
      then Inl (source_required (q_span stmt))
      else if \<not> list_ex (\<lambda>col. col_name col = ''target'') expected_columns
      then Inl (target_required (q_span stmt))
      else
        (case ptr_source p of
           None \<Rightarrow> Inl (AssertionError [])
         | Some sub_source_name \<Rightarrow>
        (case ptr_target p of
           None \<Rightarrow> Inl (AssertionError [])
         | Some sub_target_name \<Rightarrow>
        (case preprocess_insert_value (select_stmt stmt) (ctes stmt) expected_columns of
           Inl e \<Rightarrow> Inl e
         | Inr (value_relation, expected_columns', select_stmt') \<Rightarrow>
             (let is_value_single = has_at_most_one_row select_stmt';
                  (value_name, c1) = alias_get mk ''ins_val'' c;
                  (iterator_name, c2) = alias_get mk ''ins_iter'' c1;
                  source_id = from_type value_name;
                  value_id = path_extend source_id (ptr_shortname p);
                  value_ql = (if is_value_single then IRAnchor value_name
                              else ObjectRef iterator_name);
                  (value_cte_name, c3) = alias_get mk ''ins_value'' c2
              in case pointer_columns sub_is_link p source_id value_id expected_columns'
                        ([], []) of
                   Inl e \<Rightarrow> Inl e
                 | Inr (value_columns', po) \<Rightarrow>
                     (let (value_iterator, c4) = alias_get mk ''iter'' c3;
                          var = ColumnRef [value_iterator] False;
                          po' = dict_set (dict_set po (source_id, ITERATOR) var)
                                  (value_id, ITERATOR) var;
                          value_rel = Relation value_cte_name po';
                          update_ql = pointer_ql_stmt sub_is_link p sub_source_name
                                        sub_target_name value_ql value_columns';
                          ql = (if \<not> is_value_single
                                then ForQuery (Path [IRAnchor value_name] False) iterator_name
                                       update_ql
                                else update_ql);
                          returning_shape =
                            (if nonempty (returning_list stmt)
                             then pointer_returning_shape (ptr_shortname p)
                                    (tab_columns sub_table)
                             else [])
                      in Inr (\<lparr>pp_input = stmt,
                               ql_stmt = ql,
                               ql_returning_shape = returning_shape,
                               ql_singletons = [source_id],
                               ql_anchors = [(value_name, source_id)],
                               external_rels =
                                 [(source_id, value_rel, [''source'', ''identity''])],
                               subject_columns = [],
                               early_result =
                                 \<lparr>value_cte_name = value_cte_name,
                                  value_relation_input = value_relation,
                                  value_columns = value_columns',
                                  value_iterator_name = value_iterator,
                                  output_ctes = [],
                                  output_relation_name = [],
                                  output_namespace = []\<rparr>\<rparr>, c4)))))))"

subsection \<open>The object-query compiler's intermediate representation\<close>

text \<open>
  What \<open>_merge_and_prepare_external_rels\<close> reads of the compiled IR: the result shape
  of the top-level select, each element with the name of its binding (absent when its
  path has no pointer) and its expression; an expression is a mutating statement (with
  its identity and the namespace of its result path), a select or pointer wrapper
  around another expression, or something else.
\<close>

datatype ir_expr =
    MutatingStmt ir_node "string list"
  | IrSelectStmt ir_expr
  | IrPointer ir_expr
  | IrOther

datatype ir_statement = IrStatement "(string option \<times> ir_expr) list" | IrStatementOther

subsection \<open>External collaborators\<close>

text \<open>
  Code outside the resolver's DML module, taken as parameters: the alias generator's
  naming, the table resolver for the subject of an INSERT, the two stages of the
  object-query compiler, the creation of a child context (\<open>ctx.child()\<close>), the
  resolution of the value relation in it, the projection of a column kind, the
  resolution of one RETURNING target and \<open>pg_res_rel.extract_ctes_from_ctx\<close>.
\<close>

record externals =
  ext_alias :: "string \<Rightarrow> nat \<Rightarrow> string"
  ext_resolve_subject :: "relation \<Rightarrow> ctx \<Rightarrow> error + table"
  ext_compile_ast_to_ir ::
    "ql_expr \<Rightarrow> path_id list \<Rightarrow> (string \<times> path_id) list \<Rightarrow> error + ir_statement"
  ext_compile_ir_to_sql_tree ::
    "ir_statement \<Rightarrow> (path_id \<times> relation \<times> string list) list \<Rightarrow> error + base"
  ext_child :: "ctx \<Rightarrow> ctx"
  ext_resolve_relation :: "query \<Rightarrow> ctx \<Rightarrow> error + (base \<times> table \<times> ctx)"
  ext_resolve_column_kind :: "table \<Rightarrow> column_kind \<Rightarrow> expr"
  ext_resolve_ResTarget :: "res_target \<Rightarrow> table \<Rightarrow> error + (res_target list \<times> column list)"
  ext_extract_ctes_from_ctx :: "ctx \<Rightarrow> cte list \<times> ctx"

subsection \<open>\<open>_preprocess_insert_stmt\<close>\<close>

text \<open>The pairs \<open>(column.name, ptr_name)\<close> of the visible columns, for RETURNING.\<close>

fun returning_subject_columns ::
  "schema_obj \<Rightarrow> column list \<Rightarrow> error + (string \<times> string) list" where
  "returning_subject_columns sub [] = Inr []"
| "returning_subject_columns sub (column # rest) =
     (if col_hidden column then returning_subject_columns sub rest
      else (case get_pointer_for_column column sub of
              Inl e \<Rightarrow> Inl e
            | Inr (ptr, ptr_name, is_link) \<Rightarrow>
                (case returning_subject_columns sub rest of
                   Inl e \<Rightarrow> Inl e
                 | Inr scs \<Rightarrow> Inr ((col_name column, ptr_name) # scs))))"

text \<open>
  The column list handed to \<open>_pull_columns_from_table\<close>: a generator over
  \<open>stmt.cols\<close> when that is a non-empty list, otherwise \<open>None\<close>.
\<close>

definition insert_col_names :: "insert_target list option \<Rightarrow> (string \<times> span) iterable option" where
  "insert_col_names cs =
     (if nonempty cs then Some (PyGenerator (map (\<lambda>c. (it_name c, it_span c)) (opt_list cs)))
      else None)"

text \<open>The dispatch on the kind of the subject.\<close>

fun preprocess_subject ::
  "(string \<Rightarrow> nat \<Rightarrow> string) \<Rightarrow> query \<Rightarrow> schema_obj \<Rightarrow> table \<Rightarrow> column list \<Rightarrow> ctx
     \<Rightarrow> error + (preprocessed_dml \<times> ctx)" where
  "preprocess_subject mk stmt (ObjectType n ptrs) sub_table expected_columns c =
     preprocess_insert_object_stmt mk stmt (ObjectType n ptrs) sub_table expected_columns c"
| "preprocess_subject mk stmt (Link p) sub_table expected_columns c =
     preprocess_insert_pointer_stmt mk stmt True p sub_table expected_columns c"
| "preprocess_subject mk stmt (Property p) sub_table expected_columns c =
     preprocess_insert_pointer_stmt mk stmt False p sub_table expected_columns c"
| "preprocess_subject mk stmt OtherSchemaObject sub_table expected_columns c =
     Inl NotImplementedError"

text \<open>
  The two assertions on \<open>stmt.relation\<close>, giving the relation to resolve.
\<close>

fun subject_relation :: "range_var option \<Rightarrow> error + relation" where
  "subject_relation (Some (RelRangeVar (BaseRelation rel) a)) = Inr rel"
| "subject_relation r = Inl (AssertionError [])"

definition preprocess_insert_stmt ::
  "externals \<Rightarrow> query \<Rightarrow> ctx \<Rightarrow> error + (preprocessed_dml \<times> ctx)" where
  "preprocess_insert_stmt ext stmt c =
     (case subject_relation (ins_relation stmt) of
        Inl e \<Rightarrow> Inl e
      | Inr rel \<Rightarrow>
     (case ext_resolve_subject ext rel c of
        Inl e \<Rightarrow> Inl e
      | Inr sub_table \<Rightarrow>
     (case tab_schema_id sub_table of
        None \<Rightarrow> Inl (AssertionError [])
      | Some sid \<Rightarrow>
     (case map_of (schema c) sid of
        None \<Rightarrow> Inl KeyError
      | Some sub \<Rightarrow>
     (case pull_columns_from_table sub_table (insert_col_names (cols stmt)) of
        Inl e \<Rightarrow> Inl e
      | Inr expected_columns \<Rightarrow>
     (case preprocess_subject (ext_alias ext) stmt sub sub_table expected_columns c of
        Inl e \<Rightarrow> Inl e
      | Inr (res, c') \<Rightarrow>
          if nonempty (returning_list stmt) then
            (case returning_subject_columns sub (tab_columns sub_table) of
               Inl e \<Rightarrow> Inl e
             | Inr scs \<Rightarrow> Inr (res\<lparr>subject_columns := subject_columns res @ scs\<rparr>, c'))
          else Inr (res, c')))))))"

subsection \<open>\<open>_collect_dml_stmts\<close>\<close>

fun collect_dml_stmts :: "base \<Rightarrow> query list" where
  "collect_dml_stmts OtherBase = []"
| "collect_dml_stmts (Query stmt) =
     filter is_InsertStmt (map cte_query (opt_list (ctes stmt)))
       @ (if is_InsertStmt stmt then [stmt] else [])"

subsection \<open>\<open>_merge_and_prepare_external_rels\<close>\<close>

text \<open>Decimal digits of a number, for the names \<open>dml_0\<close>, \<open>dml_1\<close>, ...\<close>

fun string_of_nat :: "nat \<Rightarrow> string" where
  "string_of_nat n =
     (if n < 10 then [''0123456789'' ! n]
      else string_of_nat (n div 10) @ [''0123456789'' ! (n mod 10)])"

text \<open>The descent to the mutating statement of a shape element.\<close>

fun find_mutating :: "ir_expr \<Rightarrow> error + (ir_node \<times> string list)" where
  "find_mutating (MutatingStmt n ns) = Inr (n, ns)"
| "find_mutating (IrSelectStmt e) = find_mutating e"
| "find_mutating (IrPointer e) = find_mutating e"
| "find_mutating IrOther = Inl NotImplementedError"

text \<open>\<open>shape_elements_by_name\<close>: elements without a name are skipped.\<close>

fun shape_elements_by_name ::
  "(string option \<times> ir_expr) list \<Rightarrow> (string \<times> ir_expr) list \<Rightarrow> (string \<times> ir_expr) list" where
  "shape_elements_by_name [] d = d"
| "shape_elements_by_name ((None, e) # rest) d = shape_elements_by_name rest d"
| "shape_elements_by_name ((Some n, e) # rest) d = shape_elements_by_name rest (dict_set d n e)"

definition replace_namespace :: "path_id \<Rightarrow> string list \<Rightarrow> path_id" where
  "replace_namespace p ns = PathId (pid_typename p) (pid_ptrs p) (pid_is_ptr_path p) ns"

text \<open>
  The path outputs of an external relation, with each key added again under the
  namespace of the statement.  (The source also clears the namespace of the key's
  prefix; a path id here has a single namespace.)
\<close>

definition rewrite_outputs ::
  "string list \<Rightarrow> ((path_id \<times> aspect) \<times> expr) list \<Rightarrow> ((path_id \<times> aspect) \<times> expr) list" where
  "rewrite_outputs ns po =
     foldl (\<lambda>d ((out_id, out_asp), out). dict_set d (replace_namespace out_id ns, out_asp) out)
       po po"

fun merge_stmts ::
  "(string \<times> ir_expr) list \<Rightarrow> (preprocessed_dml \<times> string) list
     \<Rightarrow> (path_id \<times> relation \<times> string list) list \<times> ir_node list
     \<Rightarrow> error + ((path_id \<times> relation \<times> string list) list \<times> ir_node list)" where
  "merge_stmts by_name [] acc = Inr acc"
| "merge_stmts by_name ((stmt, name) # rest) (rels, ir_stmts) =
     (case map_of by_name name of
        None \<Rightarrow> Inl KeyError
      | Some element \<Rightarrow>
          (case find_mutating element of
             Inl e \<Rightarrow> Inl e
           | Inr (node, subject_namespace) \<Rightarrow>
               merge_stmts by_name rest
                 (foldl (\<lambda>d (rel_id, rel, aspects).
                           dict_set d rel_id
                             (Relation (rel_name rel)
                                (rewrite_outputs subject_namespace (rel_path_outputs rel)),
                              aspects))
                    rels (external_rels stmt),
                  ir_stmts @ [node])))"

definition merge_and_prepare_external_rels ::
  "ir_statement \<Rightarrow> preprocessed_dml list \<Rightarrow> string list
     \<Rightarrow> error + ((path_id \<times> relation \<times> string list) list \<times> ir_node list)" where
  "merge_and_prepare_external_rels ir_stmt stmts stmt_names =
     (case ir_stmt of
        IrStatementOther \<Rightarrow> Inl (AssertionError [])
      | IrStatement ir_shape \<Rightarrow>
          if ir_shape = [] then Inl (AssertionError [])
          else merge_stmts (shape_elements_by_name ir_shape []) (zip stmts stmt_names) ([], []))"

subsection \<open>\<open>_compile_preprocessed_dml\<close>\<close>

text \<open>
  The inner \<open>while len(ctes) > 0\<close> loop for one statement whose compiled mutating node
  is \<open>ir_mutating_stmt\<close>: the CTEs taken for the statement and those left.
\<close>

fun take_stmt_ctes :: "ir_node \<Rightarrow> cte list \<Rightarrow> bool \<Rightarrow> cte list \<Rightarrow> cte list \<times> cte list" where
  "take_stmt_ctes ir_mutating_stmt [] found_it stmt_ctes = (stmt_ctes, [])"
| "take_stmt_ctes ir_mutating_stmt (c # cs) found_it stmt_ctes =
     (let matches = (for_dml_stmt c = Some ir_mutating_stmt)
      in if \<not> matches \<and> found_it then (stmt_ctes, c # cs)
         else take_stmt_ctes ir_mutating_stmt cs (found_it \<or> matches) (stmt_ctes @ [c]))"

text \<open>
  \<open>ptr_map\<close>: from the name of a path's last pointer (\<open>id\<close> for a path without one) and
  an aspect to the output expression; a later entry replaces an earlier one.
\<close>

definition ptr_map_of ::
  "((path_id \<times> aspect) \<times> expr) list \<Rightarrow> (string \<times> aspect \<rightharpoonup> expr)" where
  "ptr_map_of po =
     foldl (\<lambda>m ((ptr_id, asp), output_var).
              m((case rptr_name ptr_id of None \<Rightarrow> ''id'' | Some n \<Rightarrow> n, asp) \<mapsto> output_var))
       Map.empty po"

text \<open>The value found for one pointer name, before the assertion.\<close>

definition resolve_output :: "(string \<times> aspect \<rightharpoonup> expr) \<Rightarrow> string \<Rightarrow> expr option" where
  "resolve_output ptr_map ptr_name =
     (let val = ptr_map (ptr_name, SERIALIZED);
          val = (if val = None then ptr_map (ptr_name, VALUE) else val);
          val = (if val = None then ptr_map (ptr_name, IDENTITY) else val);
          val = (if ptr_name = ''source'' \<or> ptr_name = ''target''
                 then Some (ColumnRef [ptr_name] False) else val)
      in val)"

fun build_output_namespace ::
  "(string \<times> aspect \<rightharpoonup> expr) \<Rightarrow> (string \<times> string) list \<Rightarrow> (string \<times> expr) list
     \<Rightarrow> error + (string \<times> expr) list" where
  "build_output_namespace ptr_map [] ns = Inr ns"
| "build_output_namespace ptr_map ((column_name, ptr_name) # rest) ns =
     (case resolve_output ptr_map ptr_name of
        None \<Rightarrow> Inl (AssertionError (ptr_name @ '' was in shape, but not in path_namespace''))
      | Some val \<Rightarrow> build_output_namespace ptr_map rest (dict_set ns column_name val))"

text \<open>
  The loop \<open>for stmt, ir_mutating_stmt in zip(stmts, ir_stmts)\<close>, with the CTEs not yet
  consumed and the \<open>result\<close> dictionary as state.
\<close>

fun partition_ctes ::
  "(preprocessed_dml \<times> ir_node) list \<Rightarrow> cte list \<Rightarrow> (nat \<times> compiled_dml) list
     \<Rightarrow> error + ((nat \<times> compiled_dml) list \<times> cte list)" where
  "partition_ctes [] remaining result = Inr (result, remaining)"
| "partition_ctes ((stmt, ir_mutating_stmt) # rest) remaining result =
     (case take_stmt_ctes ir_mutating_stmt remaining False [] of
        (stmt_ctes, remaining') \<Rightarrow>
          if stmt_ctes = [] then Inl IndexError
          else
            (case build_output_namespace
                    (ptr_map_of (path_outputs (cte_query (last stmt_ctes))))
                    (subject_columns stmt) [] of
               Inl e \<Rightarrow> Inl e
             | Inr ns \<Rightarrow>
                 partition_ctes rest remaining'
                   (dict_set result (node_id (pp_input stmt))
                      \<lparr>value_cte_name = value_cte_name (early_result stmt),
                       value_relation_input = value_relation_input (early_result stmt),
                       value_columns = value_columns (early_result stmt),
                       value_iterator_name = value_iterator_name (early_result stmt),
                       output_ctes = stmt_ctes,
                       output_relation_name = cte_name (last stmt_ctes),
                       output_namespace = ns\<rparr>)))"

text \<open>
  The body of the \<open>try\<close> block: both compiler stages around
  \<open>_merge_and_prepare_external_rels\<close>.  The context gives the stages the schema and
  the alias generator only; they are parameters here, so the context is not passed on.
\<close>

definition compile_merged ::
  "externals \<Rightarrow> ql_expr \<Rightarrow> path_id list \<Rightarrow> (string \<times> path_id) list \<Rightarrow> preprocessed_dml list
     \<Rightarrow> string list \<Rightarrow> error + (base \<times> ir_node list)" where
  "compile_merged ext ql singletons anchors stmts names =
     (case ext_compile_ast_to_ir ext ql singletons anchors of
        Inl e \<Rightarrow> Inl e
      | Inr ir_stmt \<Rightarrow>
          (case merge_and_prepare_external_rels ir_stmt stmts names of
             Inl e \<Rightarrow> Inl e
           | Inr (rels, ir_stmts) \<Rightarrow>
               (case ext_compile_ir_to_sql_tree ext ir_stmt rels of
                  Inl e \<Rightarrow> Inl e
                | Inr sql_ast \<Rightarrow> Inr (sql_ast, ir_stmts))))"

text \<open>\<open>except errors.QueryError as e\<close>: the message is kept, the code replaced.\<close>

fun reclassify :: "error \<Rightarrow> error" where
  "reclassify (QueryError msg sp code) = QueryError msg None (Some ERROR_DATA_EXCEPTION)"
| "reclassify e = e"

definition merged_ql_stmt :: "preprocessed_dml list \<Rightarrow> string list \<Rightarrow> ql_expr" where
  "merged_ql_stmt stmts names =
     SelectQuery
       (map (\<lambda>(stmt, name). AliasedExpr name (DetachedExpr (ql_stmt stmt))) (zip stmts names))
       (Shape None
          (map (\<lambda>(stmt, name).
                  ShapeElement (Path [Ptr name None] False) None
                    (Some (Shape (Some (Path [ObjectRef name] False))
                             (ql_returning_shape stmt))))
             (zip stmts names)))"

definition compile_preprocessed_dml ::
  "externals \<Rightarrow> preprocessed_dml list \<Rightarrow> error + ((nat \<times> compiled_dml) list \<times> cte list)" where
  "compile_preprocessed_dml ext stmts =
     (let singletons = remdups (concat (map ql_singletons stmts));
          anchors = foldl (\<lambda>d (k, v). dict_set d k v) [] (concat (map ql_anchors stmts));
          names = map (\<lambda>index. ''dml_'' @ string_of_nat index) [0..<length stmts];
          ql = merged_ql_stmt stmts names
      in case compile_merged ext ql singletons anchors stmts names of
           Inl e \<Rightarrow> Inl (reclassify e)
         | Inr (OtherBase, ir_stmts) \<Rightarrow> Inl (AssertionError [])
         | Inr (Query sql_ast, ir_stmts) \<Rightarrow>
             if \<not> nonempty (ctes sql_ast) then Inl (AssertionError [])
             else partition_ctes (zip stmts ir_stmts) (opt_list (ctes sql_ast)) [])"

subsection \<open>\<open>compile_dml\<close>\<close>

text \<open>The list comprehension \<open>[_preprocess_insert_stmt(s, ctx=ctx) for s in ...]\<close>.\<close>

fun preprocess_all ::
  "externals \<Rightarrow> query list \<Rightarrow> ctx \<Rightarrow> error + (preprocessed_dml list \<times> ctx)" where
  "preprocess_all ext [] c = Inr ([], c)"
| "preprocess_all ext (s # rest) c =
     (case preprocess_insert_stmt ext s c of
        Inl e \<Rightarrow> Inl e
      | Inr (p, c') \<Rightarrow>
          (case preprocess_all ext rest c' of
             Inl e \<Rightarrow> Inl e
           | Inr (ps, c'') \<Rightarrow> Inr (p # ps, c'')))"

definition compile_dml :: "externals \<Rightarrow> base \<Rightarrow> ctx \<Rightarrow> error + (cte list \<times> ctx)" where
  "compile_dml ext stmt c =
     (let dml_stmts_sql = collect_dml_stmts stmt
      in if length dml_stmts_sql = 0 then Inr ([], c)
         else
           (case preprocess_all ext dml_stmts_sql c of
              Inl e \<Rightarrow> Inl e
            | Inr (stmts, c') \<Rightarrow>
                (case compile_preprocessed_dml ext stmts of
                   Inl e \<Rightarrow> Inl e
                 | Inr (compiled, remaining) \<Rightarrow>
                     Inr (remaining, c'\<lparr>ctx_compiled_dml := compiled\<rparr>))))"

subsection \<open>\<open>_resolve_returning_rows\<close>\<close>

text \<open>The loop \<open>for t in returning_list\<close>, resolving each target against the table.\<close>

fun resolve_targets ::
  "externals \<Rightarrow> table \<Rightarrow> res_target list \<Rightarrow> res_target list \<times> column list
     \<Rightarrow> error + (res_target list \<times> column list)" where
  "resolve_targets ext tab [] acc = Inr acc"
| "resolve_targets ext tab (t # rest) (targets, columns) =
     (case ext_resolve_ResTarget ext t tab of
        Inl e \<Rightarrow> Inl e
      | Inr (ts, cs) \<Rightarrow> resolve_targets ext tab rest (targets @ ts, columns @ cs))"

definition empty_table :: table where
  "empty_table =
     \<lparr>tab_schema_id = None, tab_columns = [], tab_alias = None, tab_reference_as = None\<rparr>"

definition resolve_returning_rows ::
  "externals \<Rightarrow> res_target list \<Rightarrow> string \<Rightarrow> (string \<times> expr) list \<Rightarrow> string option \<Rightarrow> ctx
     \<Rightarrow> error + (query \<times> table \<times> ctx)" where
  "resolve_returning_rows ext returning output_rel_name output_ns subject_alias c =
     (let (inserted_rvar_name, c1) = alias_get (ext_alias ext) ''ins'' c;
          inserted_query =
            SelectStmt None [] [] None
              (map (\<lambda>(column_name, val). ResTarget (Some column_name) val) output_ns)
              [RelRangeVar (BaseRelation (Relation output_rel_name [])) None] None;
          inserted_table =
            \<lparr>tab_schema_id = None,
             tab_columns =
               map (\<lambda>(column_name, val).
                      \<lparr>col_name = column_name, col_hidden = False,
                       col_kind = ColumnByName column_name\<rparr>) output_ns,
             tab_alias = subject_alias,
             tab_reference_as = Some inserted_rvar_name\<rparr>
      in case resolve_targets ext inserted_table returning ([], []) of
           Inl e \<Rightarrow> Inl e
         | Inr (targets, columns) \<Rightarrow>
             Inr (SelectStmt None [] [] None targets
                    [RangeSubselect inserted_query (Some inserted_rvar_name)] None,
                  empty_table\<lparr>tab_columns := columns\<rparr>, c1))"

subsection \<open>\<open>resolve_InsertStmt\<close>\<close>

definition dml_depth_error :: "span \<Rightarrow> error" where
  "dml_depth_error sp =
     QueryError
       ''WITH clause containing a data-modifying statement must be at the top level''
       sp (Some ERROR_FEATURE_NOT_SUPPORTED)"

fun join_names :: "string list \<Rightarrow> string" where
  "join_names [] = []"
| "join_names [n] = n"
| "join_names (n # ns) = n @ '', '' @ join_names ns"

definition column_count_error :: "compiled_dml \<Rightarrow> table \<Rightarrow> error" where
  "column_count_error compiled val_table =
     QueryError
       (''INSERT expected '' @ string_of_nat (length (value_columns compiled))
          @ '' columns, but got '' @ string_of_nat (length (tab_columns val_table))
          @ '' (expecting '' @ join_names (map fst (value_columns compiled)) @ '')'')
       (q_span (value_relation_input compiled)) None"

text \<open>
  The projection over the resolved value relation: one target per value column, cast to
  \<open>uuid\<close> for a link, and the iterator column.
\<close>

definition value_target_list :: "externals \<Rightarrow> compiled_dml \<Rightarrow> table \<Rightarrow> ctx \<Rightarrow> res_target list" where
  "value_target_list ext compiled val_table c =
     map (\<lambda>(val_col, (ptr_name, cast_to_uuid)).
            (let val_col_pg = ext_resolve_column_kind ext val_table (col_kind val_col)
             in ResTarget (Some ptr_name)
                  (if cast_to_uuid then TypeCast val_col_pg [''uuid''] else val_col_pg)))
       (zip (tab_columns val_table) (value_columns compiled))
     @ [ResTarget (Some (value_iterator_name compiled))
          (FuncCall [''edgedb'', ''uuid_generate_v4''] [] False)]"

text \<open>The two results synthesized for a statement without RETURNING.\<close>

definition count_query :: "string \<Rightarrow> query" where
  "count_query output_rel_name =
     SelectStmt None [] [] None [ResTarget None (FuncCall [''count''] [] True)]
       [RelRangeVar (BaseRelation (Relation output_rel_name [])) None] None"

text \<open>
  Modelled from the spec: \<open>pg_res_rel.extract_ctes_from_ctx\<close> is defined in another
  module.  The spec has the resolver "attach whatever CTEs are currently buffered in the
  resolution context"; taking them empties the buffer, as \<open>resolve_CopyStmt\<close> does when
  it pulls the buffer into its query.  \<open>resolve_InsertStmt\<close> below takes the helper
  as a parameter; this definition is one value for it.
\<close>

definition extract_ctes_from_ctx :: "ctx \<Rightarrow> cte list \<times> ctx" where
  "extract_ctes_from_ctx c = (ctes_buffer c, c\<lparr>ctes_buffer := []\<rparr>)"

text \<open>
  The value relation is resolved in a child context whose depth is lowered by one; of
  the child's final state the parent keeps the alias counter, which both share.
\<close>

definition resolve_InsertStmt ::
  "externals \<Rightarrow> query \<Rightarrow> ctx \<Rightarrow> error + (query \<times> table \<times> ctx)" where
  "resolve_InsertStmt ext stmt c =
     (case ins_relation stmt of
        None \<Rightarrow> Inl (AssertionError [])
      | Some subject_rvar \<Rightarrow>
     (if 2 \<le> subquery_depth c then Inl (dml_depth_error (q_span stmt))
      else
     (case map_of (ctx_compiled_dml c) (node_id stmt) of
        None \<Rightarrow> Inl KeyError
      | Some compiled \<Rightarrow>
     (case ext_resolve_relation ext (value_relation_input compiled)
             ((ext_child ext c)\<lparr>subquery_depth := subquery_depth (ext_child ext c) - 1\<rparr>) of
        Inl e \<Rightarrow> Inl e
      | Inr (val_rel, val_table, sctx) \<Rightarrow>
     (let c1 = c\<lparr>alias_counter := alias_counter sctx\<rparr>
      in if length (value_columns compiled) \<noteq> length (tab_columns val_table)
         then Inl (column_count_error compiled val_table)
         else
     (case val_rel of
        OtherBase \<Rightarrow> Inl (AssertionError [])
      | Query val_query \<Rightarrow>
     (let targets = value_target_list ext compiled val_table c1;
          c2 = (if nonempty (ctes val_query)
                then c1\<lparr>ctes_buffer := ctes_buffer c1 @ opt_list (ctes val_query)\<rparr> else c1);
          val_query' = (if nonempty (ctes val_query) then set_ctes val_query None
                        else val_query);
          value_cte = CommonTableExpr (value_cte_name compiled)
                        (SelectStmt None [] [] None targets [RangeSubselect val_query' None]
                           None)
                        None;
          c3 = c2\<lparr>ctes_buffer := ctes_buffer c2 @ [value_cte] @ output_ctes compiled\<rparr>
      in case (if nonempty (returning_list stmt)
               then resolve_returning_rows ext (opt_list (returning_list stmt))
                      (output_relation_name compiled) (output_namespace compiled)
                      (rvar_aliasname subject_rvar) c3
               else Inr (if subquery_depth c3 = 0
                         then count_query (output_relation_name compiled)
                         else SelectStmt0,
                         empty_table, c3)) of
           Inl e \<Rightarrow> Inl e
         | Inr (res_query, res_table, c4) \<Rightarrow>
             (let res_ctes = (if \<not> nonempty (ctes res_query) then [] else opt_list (ctes res_query));
                  (extracted, c5) = ext_extract_ctes_from_ctx ext c4
              in Inr (set_ctes res_query (Some (res_ctes @ extracted)), res_table, c5)))))))))"

subsection \<open>\<open>resolve_DMLQuery\<close>\<close>

definition resolve_DMLQuery :: "query \<Rightarrow> error + (query \<times> table \<times> ctx)" where
  "resolve_DMLQuery q =
     Inl (QueryError ''DML queries (UPDATE/DELETE) are not supported'' (q_span q)
            (Some ERROR_FEATURE_NOT_SUPPORTED))"

section \<open>The partition of the compiled CTEs, in the words of the spec\<close>

text \<open>
  The spec describes the partition as a pure function of the ordered CTE list and one
  marker per statement, in statement order, to the groups and the leftover: each
  statement takes the CTEs that precede the first CTE carrying its marker, and then the
  maximal run of CTEs that carry it.  This definition is compared with the loop of
  \<open>_compile_preprocessed_dml\<close> below.
\<close>

fun cte_runs :: "ir_node list \<Rightarrow> cte list \<Rightarrow> cte list list \<times> cte list" where
  "cte_runs [] cs = ([], cs)"
| "cte_runs (node # nodes) cs =
     (let preceding = takeWhile (\<lambda>c. for_dml_stmt c \<noteq> Some node) cs;
          own = takeWhile (\<lambda>c. for_dml_stmt c = Some node)
                  (dropWhile (\<lambda>c. for_dml_stmt c \<noteq> Some node) cs);
          remaining = dropWhile (\<lambda>c. for_dml_stmt c = Some node)
                        (dropWhile (\<lambda>c. for_dml_stmt c \<noteq> Some node) cs);
          (groups, leftover) = cte_runs nodes remaining
      in ((preceding @ own) # groups, leftover))"

section \<open>The INSERT statements of a query tree\<close>

text \<open>
  Every \<open>InsertStmt\<close> node reachable in a statement: the statement itself, and those in
  its CTEs, in its row source and in the subqueries of its FROM clause, at any depth.
\<close>

fun query_inserts :: "query \<Rightarrow> query list"
  and cte_inserts :: "cte \<Rightarrow> query list"
  and rvar_inserts :: "range_var \<Rightarrow> query list" where
  "query_inserts (SelectStmt c po v l t f s) =
     (case c of None \<Rightarrow> [] | Some cs \<Rightarrow> concat (map cte_inserts cs))
       @ concat (map rvar_inserts f)"
| "query_inserts (InsertStmt n c po r cs ss rl s) =
     (case c of None \<Rightarrow> [] | Some cs \<Rightarrow> concat (map cte_inserts cs))
       @ (case ss of None \<Rightarrow> [] | Some q \<Rightarrow> query_inserts q)
       @ [InsertStmt n c po r cs ss rl s]"
| "query_inserts (DMLQuery n c po s) =
     (case c of None \<Rightarrow> [] | Some cs \<Rightarrow> concat (map cte_inserts cs))"
| "cte_inserts (CommonTableExpr n q m) = query_inserts q"
| "rvar_inserts (RelRangeVar r a) = []"
| "rvar_inserts (RangeSubselect q a) = query_inserts q"

fun all_insert_stmts :: "base \<Rightarrow> query list" where
  "all_insert_stmts OtherBase = []"
| "all_insert_stmts (Query q) = query_inserts q"

section \<open>Reading a synthetic statement\<close>

text \<open>
  The pointer a column of an object type stands for, as \<open>_get_pointer_for_column\<close>
  names it; the pointer a shape element assigns; the shape of the \<open>InsertQuery\<close> of a
  synthetic statement, below the \<open>ForQuery\<close> if there is one.
\<close>

definition column_ptr_name :: "column \<Rightarrow> string" where
  "column_ptr_name col =
     (if endswith_id (col_name col) then take (length (col_name col) - 3) (col_name col)
      else col_name col)"

fun assigned_ptr :: "ql_expr \<Rightarrow> string" where
  "assigned_ptr (ShapeElement (Path [Ptr n t] partial) operation compexpr) = n"
| "assigned_ptr e = []"

fun insert_shape_of :: "ql_expr \<Rightarrow> ql_expr list" where
  "insert_shape_of (InsertQuery subject shape) = shape"
| "insert_shape_of (ForQuery iterator iterator_alias result) = insert_shape_of result"
| "insert_shape_of e = []"

section \<open>Concrete inputs\<close>

text \<open>A table with a hidden system column and two visible ones.\<close>

definition movie_table :: table where
  "movie_table =
     \<lparr>tab_schema_id = Some 1,
      tab_columns =
        [\<lparr>col_name = ''id'', col_hidden = True, col_kind = ColumnByName ''id''\<rparr>,
         \<lparr>col_name = ''title'', col_hidden = False, col_kind = ColumnByName ''title''\<rparr>,
         \<lparr>col_name = ''director_id'', col_hidden = False,
          col_kind = ColumnByName ''director_id''\<rparr>],
      tab_alias = None, tab_reference_as = None\<rparr>"

text \<open>The link table \<open>Movie.actors\<close> with its link property \<open>role\<close>.\<close>

definition actors_link :: pointer where
  "actors_link =
     Pointer ''actors'' (Some ''default::Movie'') (Some ''default::Person'')
       SchemaCardinality_Many
       [Pointer ''role'' None (Some ''std::str'') SchemaCardinality_One []]"

definition actors_table :: table where
  "actors_table =
     \<lparr>tab_schema_id = Some 2,
      tab_columns =
        [\<lparr>col_name = ''source'', col_hidden = False, col_kind = ColumnByName ''source''\<rparr>,
         \<lparr>col_name = ''target'', col_hidden = False, col_kind = ColumnByName ''target''\<rparr>,
         \<lparr>col_name = ''role'', col_hidden = False, col_kind = ColumnByName ''role''\<rparr>],
      tab_alias = None, tab_reference_as = None\<rparr>"

definition movie_type :: schema_obj where
  "movie_type =
     ObjectType ''default::Movie''
       [Pointer ''id'' (Some ''default::Movie'') (Some ''std::uuid'') SchemaCardinality_One [],
        Pointer ''title'' (Some ''default::Movie'') (Some ''std::str'') SchemaCardinality_One [],
        Pointer ''director'' (Some ''default::Movie'') (Some ''default::Person'')
          SchemaCardinality_One []]"

definition movie_schema :: "(nat \<times> schema_obj) list" where
  "movie_schema = [(1, movie_type), (2, Link actors_link)]"

text \<open>
  A compiled result for two statements: the CTEs of the first, a CTE of no statement,
  the CTE of the second and a trailing CTE of no statement.
\<close>

definition demo_ir :: ir_statement where
  "demo_ir =
     IrStatement
       [(Some ''dml_0'', IrSelectStmt (MutatingStmt 10 [''ns~1''])),
        (Some ''dml_1'', IrPointer (IrSelectStmt (MutatingStmt 11 [''ns~2''])))]"

definition demo_cte :: "string \<Rightarrow> ir_node option \<Rightarrow> cte" where
  "demo_cte n marker =
     CommonTableExpr n
       (SelectStmt None
          [((PathId ''default::Movie'' [] False [], VALUE), ColumnRef [''id_col''] False),
           ((PathId ''default::Movie'' [''title''] False [], VALUE),
            ColumnRef [''title_col''] False),
           ((PathId ''default::Movie'' [''director''] False [], IDENTITY),
            ColumnRef [''director_ident''] False),
           ((PathId ''default::Movie'' [''director''] False [], SERIALIZED),
            ColumnRef [''director_ser''] False)]
          [] None [] [] None)
       marker"

definition demo_ctes :: "cte list" where
  "demo_ctes =
     [demo_cte ''ins_contents'' (Some 10), demo_cte ''ins'' (Some 10),
      demo_cte ''trigger'' None, demo_cte ''ins2'' (Some 11), demo_cte ''after_all'' None]"

definition demo_sql :: query where
  "demo_sql = SelectStmt (Some demo_ctes) [] [] None [] [] None"

definition one_column_table :: table where
  "one_column_table =
     \<lparr>tab_schema_id = None,
      tab_columns =
        [\<lparr>col_name = ''column1'', col_hidden = False, col_kind = ColumnByName ''column1''\<rparr>],
      tab_alias = None, tab_reference_as = None\<rparr>"

text \<open>Collaborators for the concrete inputs.\<close>

definition demo_ext :: externals where
  "demo_ext =
     \<lparr>ext_alias = (\<lambda>hint n. hint @ ''~'' @ string_of_nat n),
      ext_resolve_subject =
        (\<lambda>rel c. if rel_name rel = ''Movie'' then Inr movie_table
                  else if rel_name rel = ''Movie.actors'' then Inr actors_table
                  else Inl (QueryError ''unknown table'' None None)),
      ext_compile_ast_to_ir = (\<lambda>ql singletons anchors. Inr demo_ir),
      ext_compile_ir_to_sql_tree = (\<lambda>ir rels. Inr (Query demo_sql)),
      ext_child = (\<lambda>c. c\<lparr>subquery_depth := subquery_depth c + 1, ctes_buffer := []\<rparr>),
      ext_resolve_relation = (\<lambda>q c. Inr (Query q, one_column_table, c)),
      ext_resolve_column_kind =
        (\<lambda>tab k. case k of ColumnByName n \<Rightarrow> ColumnRef [n] False
                    | ColumnKindOther i \<Rightarrow> NullConstant),
      ext_resolve_ResTarget = (\<lambda>t tab. Inr ([t], [])),
      ext_extract_ctes_from_ctx = extract_ctes_from_ctx\<rparr>"

definition demo_ctx :: ctx where
  "demo_ctx =
     \<lparr>schema = movie_schema, alias_counter = 0, subquery_depth = 0,
      ctx_compiled_dml = [], ctes_buffer = []\<rparr>"

text \<open>\<open>INSERT INTO "Movie.actors" (target, role) VALUES ($1, 'Lead')\<close>\<close>

definition insert_actors_no_source :: query where
  "insert_actors_no_source =
     InsertStmt 1 None []
       (Some (RelRangeVar (BaseRelation (Relation ''Movie.actors'' [])) None))
       (Some [InsertTarget ''target'' (Some 28), InsertTarget ''role'' (Some 36)])
       (Some (SelectStmt None []
                [ImplicitRowExpr [ParamRef 1, StringConstant ''Lead'']] None [] [] (Some 42)))
       None (Some 0)"

text \<open>\<open>INSERT INTO "Movie" (title) VALUES ('Up')\<close>, node 2.\<close>

definition insert_movie_one :: query where
  "insert_movie_one =
     InsertStmt 2 None []
       (Some (RelRangeVar (BaseRelation (Relation ''Movie'' [])) None))
       (Some [InsertTarget ''title'' (Some 20)])
       (Some (SelectStmt None [] [ImplicitRowExpr [StringConstant ''Up'']] None [] []
                (Some 27)))
       None (Some 0)"

text \<open>\<open>INSERT INTO "Movie" (title) VALUES ('Cars'), ('Coco')\<close>, node 3.\<close>

definition insert_movie_two :: query where
  "insert_movie_two =
     InsertStmt 3 None []
       (Some (RelRangeVar (BaseRelation (Relation ''Movie'' [])) None))
       (Some [InsertTarget ''title'' (Some 20)])
       (Some (SelectStmt None []
                [ImplicitRowExpr [StringConstant ''Cars''],
                 ImplicitRowExpr [StringConstant ''Coco'']] None [] [] (Some 27)))
       None (Some 0)"

text \<open>A compiled entry for \<open>insert_movie_one\<close>, and a context that holds it.\<close>

definition demo_compiled :: compiled_dml where
  "demo_compiled =
     \<lparr>value_cte_name = ''ins_value~2'',
      value_relation_input =
        SelectStmt None [] [ImplicitRowExpr [StringConstant ''Up'']] None [] [] (Some 27),
      value_columns = [(''title'', False)],
      value_iterator_name = ''iter~3'',
      output_ctes = [demo_cte ''ins_contents'' (Some 10), demo_cte ''ins'' (Some 10)],
      output_relation_name = ''ins'',
      output_namespace = []\<rparr>"

definition demo_ctx_compiled :: ctx where
  "demo_ctx_compiled =
     \<lparr>schema = movie_schema, alias_counter = 4, subquery_depth = 0,
      ctx_compiled_dml = [(2, demo_compiled)], ctes_buffer = []\<rparr>"

text \<open>
  \<open>INSERT INTO "Movie" (title) VALUES ('Up', DEFAULT), ('Cars', 'x')\<close>: the row source,
  with more values in each row than there are columns named.
\<close>

definition values_wide :: query where
  "values_wide =
     SelectStmt None []
       [ImplicitRowExpr [StringConstant ''Up'', Keyword ''DEFAULT''],
        ImplicitRowExpr [StringConstant ''Cars'', StringConstant ''x'']]
       None [] [] (Some 27)"

definition title_column :: column where
  "title_column =
     \<lparr>col_name = ''title'', col_hidden = False, col_kind = ColumnByName ''title''\<rparr>"

definition director_column :: column where
  "director_column =
     \<lparr>col_name = ''director_id'', col_hidden = False,
      col_kind = ColumnByName ''director_id''\<rparr>"

text \<open>The rows \<open>('Up', DEFAULT), ('Cars', DEFAULT)\<close> and \<open>('Up', DEFAULT), ('Cars', 'x')\<close>.\<close>

definition rows_all_default :: "expr list list" where
  "rows_all_default =
     [[StringConstant ''Up'', Keyword ''DEFAULT''],
      [StringConstant ''Cars'', Keyword ''DEFAULT'']]"

definition rows_mixed_default :: "expr list list" where
  "rows_mixed_default =
     [[StringConstant ''Up'', Keyword ''DEFAULT''],
      [StringConstant ''Cars'', StringConstant ''x'']]"

text \<open>\<open>INSERT INTO "Movie" (title) VALUES ('Up', DEFAULT), ('Cars', 'x')\<close>, node 4.\<close>

definition insert_movie_wide :: query where
  "insert_movie_wide =
     InsertStmt 4 None []
       (Some (RelRangeVar (BaseRelation (Relation ''Movie'' [])) None))
       (Some [InsertTarget ''title'' (Some 20)])
       (Some values_wide) None (Some 0)"

text \<open>The row source \<open>VALUES ('Up')\<close> and a CTE list of one CTE.\<close>

definition values_one :: query where
  "values_one =
     SelectStmt None [] [ImplicitRowExpr [StringConstant ''Up'']] None [] [] (Some 27)"

definition one_cte :: "cte list" where
  "one_cte = [CommonTableExpr ''w'' (SelectStmt None [] [] None [] [] None) None]"

text \<open>
  \<open>INSERT INTO "Movie.actors" (source, target, role) VALUES ($1, $2, 'Lead') RETURNING
  target\<close>, node 5, and a final CTE whose path outputs hold a path ending in a pointer
  named \<open>target\<close> and the link property \<open>role\<close>.
\<close>

definition insert_actors_returning :: query where
  "insert_actors_returning =
     InsertStmt 5 None []
       (Some (RelRangeVar (BaseRelation (Relation ''Movie.actors'' [])) None))
       (Some [InsertTarget ''source'' (Some 28), InsertTarget ''target'' (Some 36),
              InsertTarget ''role'' (Some 44)])
       (Some (SelectStmt None []
                [ImplicitRowExpr [ParamRef 1, ParamRef 2, StringConstant ''Lead'']]
                None [] [] (Some 50)))
       (Some [ResTarget None (ColumnRef [''target''] False)]) (Some 0)"

definition link_cte :: cte where
  "link_cte =
     CommonTableExpr ''upd''
       (SelectStmt None
          [((PathId ''default::Movie'' [''target''] False [], VALUE),
            ColumnRef [''target_value''] False),
           ((PathId ''default::Movie'' [''actors'', ''role''] True [], VALUE),
            ColumnRef [''role_value''] False)]
          [] None [] [] None)
       (Some 10)"

text \<open>The record \<open>_preprocess_insert_stmt\<close> builds for \<open>insert_actors_returning\<close>.\<close>

definition returning_pp :: preprocessed_dml where
  "returning_pp = fst (projr (preprocess_insert_stmt demo_ext insert_actors_returning demo_ctx))"

text \<open>
  The records \<open>_preprocess_insert_stmt\<close> builds for \<open>insert_movie_one\<close> and
  \<open>insert_movie_two\<close>.
\<close>

definition movie_one_pp :: preprocessed_dml where
  "movie_one_pp = fst (projr (preprocess_insert_stmt demo_ext insert_movie_one demo_ctx))"

definition movie_two_pp :: preprocessed_dml where
  "movie_two_pp = fst (projr (preprocess_insert_stmt demo_ext insert_movie_two demo_ctx))"

text \<open>
  \<open>WITH a AS (WITH b AS (INSERT INTO "Movie" (title) VALUES ('Up')) SELECT) SELECT\<close>:
  an INSERT two levels of WITH below the top-level statement.
\<close>

definition nested_insert_query :: base where
  "nested_insert_query =
     Query (SelectStmt
              (Some [CommonTableExpr ''a''
                       (SelectStmt (Some [CommonTableExpr ''b'' insert_movie_one None])
                          [] [] None [] [] None)
                       None])
              [] [] None [] [] None)"

text \<open>
  \<open>WITH a AS (INSERT INTO "Movie" (title) VALUES ('Up'))
  INSERT INTO "Movie" (title) VALUES ('Cars'), ('Coco')\<close>, node 3.
\<close>

definition two_inserts_query :: base where
  "two_inserts_query =
     Query (InsertStmt 3 (Some [CommonTableExpr ''a'' insert_movie_one None]) []
              (Some (RelRangeVar (BaseRelation (Relation ''Movie'' [])) None))
              (Some [InsertTarget ''title'' (Some 20)])
              (Some (SelectStmt None []
                       [ImplicitRowExpr [StringConstant ''Cars''],
                        ImplicitRowExpr [StringConstant ''Coco'']] None [] [] (Some 27)))
              None (Some 0))"

text \<open>
  \<open>INSERT INTO "Movie" (title) VALUES ('Up', 'y'), ('Cars', 'x')\<close>, node 6: as wide as
  \<open>insert_movie_wide\<close>, without \<open>DEFAULT\<close>.  The resolver of the value relation
  reports a table of two columns for it.
\<close>

definition values_wide_plain :: query where
  "values_wide_plain =
     SelectStmt None []
       [ImplicitRowExpr [StringConstant ''Up'', StringConstant ''y''],
        ImplicitRowExpr [StringConstant ''Cars'', StringConstant ''x'']]
       None [] [] (Some 27)"

definition insert_movie_wide_plain :: query where
  "insert_movie_wide_plain =
     InsertStmt 6 None []
       (Some (RelRangeVar (BaseRelation (Relation ''Movie'' [])) None))
       (Some [InsertTarget ''title'' (Some 20)])
       (Some values_wide_plain) None (Some 0)"

definition two_column_table :: table where
  "two_column_table =
     \<lparr>tab_schema_id = None,
      tab_columns =
        [\<lparr>col_name = ''column1'', col_hidden = False, col_kind = ColumnByName ''column1''\<rparr>,
         \<lparr>col_name = ''column2'', col_hidden = False, col_kind = ColumnByName ''column2''\<rparr>],
      tab_alias = None, tab_reference_as = None\<rparr>"

definition wide_ext :: externals where
  "wide_ext = demo_ext\<lparr>ext_resolve_relation := (\<lambda>q c. Inr (Query q, two_column_table, c))\<rparr>"

text \<open>
  \<open>INSERT INTO "Movie" (title, director_id) VALUES ('Up', DEFAULT), ('Cars', DEFAULT)\<close>,
  node 7.
\<close>

definition insert_movie_defaults :: query where
  "insert_movie_defaults =
     InsertStmt 7 None []
       (Some (RelRangeVar (BaseRelation (Relation ''Movie'' [])) None))
       (Some [InsertTarget ''title'' (Some 20), InsertTarget ''director_id'' (Some 27)])
       (Some (SelectStmt None [] (map ImplicitRowExpr rows_all_default) None [] [] (Some 40)))
       None (Some 0)"

section \<open>Verified properties\<close>

subsection \<open>Column selection\<close>

lemma col_map_of_snoc: "col_map_of (cs @ [c]) = (col_map_of cs)(col_name c \<mapsto> c)"
  by (simp add: col_map_of_def)

lemma col_map_of_lookup:
  "col_map_of cs n =
     (if n \<in> col_name ` set cs then Some (last (filter (\<lambda>c. col_name c = n) cs)) else None)"
proof (induction cs rule: rev_induct)
  case Nil
  show ?case by (simp add: col_map_of_def)
next
  case (snoc c cs)
  show ?case
    unfolding col_map_of_snoc using snoc.IH by auto
qed

lemma pull_named_all:
  "fst ` set names \<subseteq> dom m \<Longrightarrow>
   pull_named m names res = Inr (res @ map (\<lambda>(n, sp). the (m n)) names)"
proof (induction names arbitrary: res)
  case Nil
  show ?case by simp
next
  case (Cons a names)
  obtain n sp where a: "a = (n, sp)" by (cases a)
  from Cons.prems a obtain col where col: "m n = Some col" by auto
  from Cons.prems have "fst ` set names \<subseteq> dom m" by auto
  from Cons.IH[OF this, of "res @ [col]"] show ?case
    by (simp add: a col)
qed

lemma pull_named_missing:
  "fst ` set pre \<subseteq> dom m \<Longrightarrow> m n = None \<Longrightarrow>
   pull_named m (pre @ (n, sp) # post) res =
     Inl (QueryError (''column '' @ n @ '' does not exist'') sp None)"
proof (induction pre arbitrary: res)
  case Nil
  then show ?case by simp
next
  case (Cons a pre)
  obtain k s where a: "a = (k, s)" by (cases a)
  from Cons.prems a obtain col where col: "m k = Some col" by auto
  from Cons.prems have "fst ` set pre \<subseteq> dom m" by auto
  from Cons.IH[OF this Cons.prems(2), of "res @ [col]"] show ?case
    by (simp add: a col)
qed

lemma dom_col_map_of: "dom (col_map_of cs) = col_name ` set cs"
  by (auto simp: col_map_of_lookup dom_def split: if_splits)

text \<open>
  C10.  Without a column list (\<open>None\<close>, or an empty list, which Python takes for
  false) \<open>_pull_columns_from_table\<close> returns the columns that are not hidden, in table
  order.  With a column list whose names all exist it returns, for each name in the
  order given, the table's column of that name (the last one, should two share it),
  hidden or not.  With a column list whose first unknown name is \<open>n\<close>, it raises the
  query error \<open>column n does not exist\<close> with that entry's span.
\<close>

theorem pull_columns_from_table_spec:
  "(\<not> truthy col_names \<longrightarrow>
      pull_columns_from_table tab col_names =
        Inr (filter (\<lambda>c. \<not> col_hidden c) (tab_columns tab)))
   \<and> (truthy col_names \<and> fst ` set (items (the col_names)) \<subseteq> col_name ` set (tab_columns tab) \<longrightarrow>
        (\<exists>res. pull_columns_from_table tab col_names = Inr res
           \<and> map col_name res = map fst (items (the col_names))
           \<and> res = map (\<lambda>(n, sp). last (filter (\<lambda>c. col_name c = n) (tab_columns tab)))
                     (items (the col_names))))
   \<and> (truthy col_names \<and> items (the col_names) = pre @ (n, sp) # post
        \<and> fst ` set pre \<subseteq> col_name ` set (tab_columns tab)
        \<and> n \<notin> col_name ` set (tab_columns tab) \<longrightarrow>
        pull_columns_from_table tab col_names =
          Inl (QueryError (''column '' @ n @ '' does not exist'') sp None))"
proof (intro conjI impI)
  assume "\<not> truthy col_names"
  then show "pull_columns_from_table tab col_names =
        Inr (filter (\<lambda>c. \<not> col_hidden c) (tab_columns tab))"
    by (simp add: pull_columns_from_table_def)
next
  let ?cs = "tab_columns tab"
  let ?names = "items (the col_names)"
  assume h: "truthy col_names \<and> fst ` set ?names \<subseteq> col_name ` set ?cs"
  then have sub: "fst ` set ?names \<subseteq> dom (col_map_of ?cs)"
    by (simp add: dom_col_map_of)
  have eq: "pull_columns_from_table tab col_names =
          Inr (map (\<lambda>(n, sp). the (col_map_of ?cs n)) ?names)"
    using h pull_named_all[OF sub, of "[]"] by (simp add: pull_columns_from_table_def)
  have m: "map (\<lambda>(n, sp). the (col_map_of ?cs n)) ?names
         = map (\<lambda>(n, sp). last (filter (\<lambda>c. col_name c = n) ?cs)) ?names"
    using h by (auto simp: col_map_of_lookup)
  have nm: "map col_name (map (\<lambda>(n, sp). last (filter (\<lambda>c. col_name c = n) ?cs)) ?names)
          = map fst ?names"
  proof (rule nth_equalityI)
    show "length (map col_name (map (\<lambda>(n, sp). last (filter (\<lambda>c. col_name c = n) ?cs)) ?names))
        = length (map fst ?names)" by simp
  next
    fix i assume "i < length (map col_name (map (\<lambda>(n, sp). last (filter (\<lambda>c. col_name c = n) ?cs)) ?names))"
    then have i: "i < length ?names" by simp
    obtain k s where ks: "?names ! i = (k, s)" by (cases "?names ! i")
    from i ks have "(k, s) \<in> set ?names" by (metis nth_mem)
    then have "k \<in> col_name ` set ?cs" using h by force
    then have ne: "filter (\<lambda>c. col_name c = k) ?cs \<noteq> []"
      by (auto simp: filter_empty_conv)
    then have "last (filter (\<lambda>c. col_name c = k) ?cs) \<in> set (filter (\<lambda>c. col_name c = k) ?cs)"
      by (rule last_in_set)
    then have "col_name (last (filter (\<lambda>c. col_name c = k) ?cs)) = k" by simp
    with i ks show "map col_name (map (\<lambda>(n, sp). last (filter (\<lambda>c. col_name c = n) ?cs)) ?names) ! i
        = map fst ?names ! i" by simp
  qed
  show "\<exists>res. pull_columns_from_table tab col_names = Inr res
           \<and> map col_name res = map fst ?names
           \<and> res = map (\<lambda>(n, sp). last (filter (\<lambda>c. col_name c = n) ?cs)) ?names"
    using eq m nm by simp
next
  let ?cs = "tab_columns tab"
  assume h: "truthy col_names \<and> items (the col_names) = pre @ (n, sp) # post
        \<and> fst ` set pre \<subseteq> col_name ` set ?cs \<and> n \<notin> col_name ` set ?cs"
  then have sub: "fst ` set pre \<subseteq> dom (col_map_of ?cs)"
    by (simp add: dom_col_map_of)
  from h have none: "col_map_of ?cs n = None" by (simp add: col_map_of_lookup)
  show "pull_columns_from_table tab col_names =
          Inl (QueryError (''column '' @ n @ '' does not exist'') sp None)"
    using h pull_named_missing[OF sub none, of sp post "[]"]
    by (simp add: pull_columns_from_table_def)
qed

text \<open>C10 at the table \<open>movie_table\<close>: no list, a list naming a hidden column, an unknown name.\<close>

theorem pull_columns_from_table_witness:
  "pull_columns_from_table movie_table None
     = Inr [\<lparr>col_name = ''title'', col_hidden = False, col_kind = ColumnByName ''title''\<rparr>,
            \<lparr>col_name = ''director_id'', col_hidden = False,
             col_kind = ColumnByName ''director_id''\<rparr>]
   \<and> pull_columns_from_table movie_table
         (Some (PyGenerator [(''title'', None), (''id'', None)]))
     = Inr [\<lparr>col_name = ''title'', col_hidden = False, col_kind = ColumnByName ''title''\<rparr>,
            \<lparr>col_name = ''id'', col_hidden = True, col_kind = ColumnByName ''id''\<rparr>]
   \<and> pull_columns_from_table movie_table
         (Some (PyGenerator [(''title'', None), (''year'', Some 7), (''x'', None)]))
     = Inl (QueryError ''column year does not exist'' (Some 7) None)"
  using pull_columns_from_table_spec[of None movie_table]
    pull_columns_from_table_spec
      [of "Some (PyGenerator [(''title'', None), (''id'', None)])" movie_table]
    pull_columns_from_table_spec
      [of "Some (PyGenerator [(''title'', None), (''year'', Some 7), (''x'', None)])"
          movie_table "[(''title'', None)]" "''year''" "Some 7" "[(''x'', None)]"]
  by (simp add: movie_table_def)

subsection \<open>Link tables need \<open>source\<close> and \<open>target\<close>\<close>

lemma preprocess_all_first_failure:
  "preprocess_all ext before c = Inr (ps, cb) \<Longrightarrow> preprocess_insert_stmt ext s cb = Inl e \<Longrightarrow>
   preprocess_all ext (before @ s # rest) c = Inl e"
proof (induction before arbitrary: c ps)
  case Nil
  then show ?case by simp
next
  case (Cons a before)
  from Cons.prems(1) obtain p c2 ps1 where
    a: "preprocess_insert_stmt ext a c = Inr (p, c2)" and
    r: "preprocess_all ext before c2 = Inr (ps1, cb)"
    by (auto split: sum.splits)
  from Cons.IH[OF r Cons.prems(2)] a show ?case by simp
qed

lemma compile_dml_preprocess_failure:
  "preprocess_all ext (collect_dml_stmts top_stmt) c = Inl e \<Longrightarrow> compile_dml ext top_stmt c = Inl e"
  by (cases "collect_dml_stmts top_stmt") (simp_all add: compile_dml_def)

lemma preprocess_insert_stmt_compilers:
  "preprocess_insert_stmt
     (ext\<lparr>ext_compile_ast_to_ir := f, ext_compile_ir_to_sql_tree := g\<rparr>) s c
   = preprocess_insert_stmt ext s c"
  by (simp add: preprocess_insert_stmt_def cong: sum.case_cong option.case_cong)

lemma preprocess_all_compilers:
  "preprocess_all (ext\<lparr>ext_compile_ast_to_ir := f, ext_compile_ir_to_sql_tree := g\<rparr>) ss c
   = preprocess_all ext ss c"
  by (induction ss arbitrary: c)
    (simp_all add: preprocess_insert_stmt_compilers split: sum.splits prod.splits)

lemma pointer_stmt_missing:
  "\<not> list_ex (\<lambda>col. col_name col = ''source'') expected_columns
     \<or> \<not> list_ex (\<lambda>col. col_name col = ''target'') expected_columns \<Longrightarrow>
   preprocess_insert_pointer_stmt mk s is_link p sub_table expected_columns c =
     Inl (QueryError
            (''column ''
               @ (if \<not> list_ex (\<lambda>col. col_name col = ''source'') expected_columns
                  then ''source'' else ''target'')
               @ '' is required when inserting into link tables'')
            (q_span s) None)"
  by (auto simp: preprocess_insert_pointer_stmt_def source_required_def target_required_def)

text \<open>
  C5.  Let \<open>s\<close> be one of the statements \<open>compile_dml\<close> collects, those before it
  preprocessed without error, its subject a link or property table, and let its expected
  columns (the explicit column list, or the visible columns without one) lack
  \<open>source\<close> or lack \<open>target\<close>.  Then \<open>_preprocess_insert_pointer_stmt\<close> and
  \<open>_preprocess_insert_stmt\<close> raise the query error \<open>column source is required when
  inserting into link tables\<close> (\<open>source\<close> checked first, else the same for
  \<open>target\<close>), and \<open>compile_dml\<close> raises it whatever the two stages of the object-query
  compiler would do: they are not reached.
\<close>

theorem link_insert_requires_source_and_target:
  assumes stmts: "collect_dml_stmts top_stmt = before @ s # rest"
    and before: "preprocess_all ext before c = Inr (ps, cb)"
    and rel: "subject_relation (ins_relation s) = Inr rel"
    and tab: "ext_resolve_subject ext rel cb = Inr sub_table"
    and sid: "tab_schema_id sub_table = Some sid"
    and sub: "map_of (schema cb) sid = Some sub"
    and kind: "sub = Link p \<or> sub = Property p"
    and expected: "pull_columns_from_table sub_table (insert_col_names (cols s))
                     = Inr expected_columns"
    and missing: "\<not> list_ex (\<lambda>col. col_name col = ''source'') expected_columns
                    \<or> \<not> list_ex (\<lambda>col. col_name col = ''target'') expected_columns"
    and err: "err = QueryError
            (''column ''
               @ (if \<not> list_ex (\<lambda>col. col_name col = ''source'') expected_columns
                  then ''source'' else ''target'')
               @ '' is required when inserting into link tables'')
            (q_span s) None"
  shows "preprocess_insert_pointer_stmt mk s is_link p sub_table expected_columns cb = Inl err
       \<and> preprocess_insert_stmt ext s cb = Inl err
       \<and> compile_dml (ext\<lparr>ext_compile_ast_to_ir := f, ext_compile_ir_to_sql_tree := g\<rparr>) top_stmt c
           = Inl err"
proof -
  have p: "\<And>mk is_link. preprocess_insert_pointer_stmt mk s is_link p sub_table expected_columns cb = Inl err"
    using pointer_stmt_missing[OF missing] err by simp
  have s: "preprocess_insert_stmt ext s cb = Inl err"
    using kind rel tab sid sub expected p by (auto simp: preprocess_insert_stmt_def)
  have "preprocess_all ext (collect_dml_stmts top_stmt) c = Inl err"
    unfolding stmts by (rule preprocess_all_first_failure[OF before s])
  then have "preprocess_all (ext\<lparr>ext_compile_ast_to_ir := f, ext_compile_ir_to_sql_tree := g\<rparr>)
               (collect_dml_stmts top_stmt) c = Inl err"
    by (simp add: preprocess_all_compilers)
  then have "compile_dml (ext\<lparr>ext_compile_ast_to_ir := f, ext_compile_ir_to_sql_tree := g\<rparr>) top_stmt c
           = Inl err"
    by (rule compile_dml_preprocess_failure)
  with p s show ?thesis by simp
qed

text \<open>C5 at \<open>INSERT INTO "Movie.actors" (target, role) VALUES ($1, 'Lead')\<close>.\<close>

theorem link_insert_requires_source_and_target_witness:
  "compile_dml
     (demo_ext\<lparr>ext_compile_ast_to_ir := (\<lambda>ql singletons anchors. Inl KeyError),
               ext_compile_ir_to_sql_tree := (\<lambda>ir rels. Inl KeyError)\<rparr>)
     (Query insert_actors_no_source) demo_ctx
   = Inl (QueryError ''column source is required when inserting into link tables''
            (Some 0) None)"
  using link_insert_requires_source_and_target
    [where top_stmt = "Query insert_actors_no_source" and before = "[]"
       and s = insert_actors_no_source and rest = "[]" and ext = demo_ext
       and c = demo_ctx and ps = "[]" and cb = demo_ctx
       and rel = "Relation ''Movie.actors'' []" and sub_table = actors_table
       and sid = 2 and sub = "Link actors_link" and p = actors_link
       and expected_columns =
         "[\<lparr>col_name = ''target'', col_hidden = False, col_kind = ColumnByName ''target''\<rparr>,
           \<lparr>col_name = ''role'', col_hidden = False, col_kind = ColumnByName ''role''\<rparr>]"
       and err = "QueryError ''column source is required when inserting into link tables''
                    (Some 0) None"
       and f = "\<lambda>ql singletons anchors. Inl KeyError"
       and g = "\<lambda>ir rels. Inl KeyError"]
  by (simp add: insert_actors_no_source_def demo_ext_def demo_ctx_def actors_table_def
        movie_schema_def insert_col_names_def pull_columns_from_table_def col_map_of_def)

subsection \<open>The iteration wrapper of an object-type insert\<close>

lemma remove_in_rows_length:
  "remove_in_rows i sp rows = Inr rows' \<Longrightarrow> length rows' = length rows"
  by (induction rows arbitrary: rows') (auto split: sum.splits if_splits)

lemma remove_defaults_length:
  "remove_defaults is sp ecs rows = Inr (ecs', rows') \<Longrightarrow> length rows' = length rows"
proof (induction "is" arbitrary: ecs rows)
  case Nil
  then show ?case by simp
next
  case (Cons i "is")
  from Cons.prems obtain rows1 where
    r: "remove_in_rows i sp rows = Inr rows1" and
    d: "remove_defaults is sp (del_at i ecs) rows1 = Inr (ecs', rows')"
    by (auto split: sum.splits if_splits)
  from Cons.IH[OF d] remove_in_rows_length[OF r] show ?case by simp
qed

lemma has_at_most_one_row_set_ctes:
  "has_at_most_one_row (Some (set_ctes q cs)) = has_at_most_one_row (Some q)"
  by (cases q) simp_all

lemma has_at_most_one_row_set_values:
  "length rows' = length (sel_values q) \<Longrightarrow>
   has_at_most_one_row (Some (set_values q rows')) = has_at_most_one_row (Some q)"
  by (cases q) auto

text \<open>
  The in-place updates of the normalizer leave the row count and the LIMIT of the
  statement's row source as they were.
\<close>

lemma preprocess_insert_value_same_multiplicity:
  assumes "preprocess_insert_value q value_ctes ecs = Inr (v, ecs', q')"
  shows "has_at_most_one_row q' = has_at_most_one_row q"
proof (cases q)
  case None
  with assms show ?thesis by simp
next
  case (Some vq)
  show ?thesis
  proof (cases "is_SelectStmt vq \<and> sel_values vq \<noteq> []")
    case False
    with assms Some show ?thesis
      by (auto simp: attach_ctes_def has_at_most_one_row_set_ctes split: sum.splits if_splits)
  next
    case True
    with assms Some obtain ds ecs1 rows1 where
      dc: "default_columns (sel_values vq) = Inr ds" and
      rd: "remove_defaults (removal_order ds) (q_span vq) ecs (sel_values vq) = Inr (ecs1, rows1)"
      by (auto split: sum.splits if_splits)
    have len: "length rows1 = length (sel_values vq)"
      by (rule remove_defaults_length[OF rd])
    from assms Some True dc rd show ?thesis
      by (auto simp: attach_ctes_def has_at_most_one_row_set_ctes
            has_at_most_one_row_set_values[OF len] split: sum.splits if_splits)
  qed
qed

lemma has_at_most_one_row_iff:
  "has_at_most_one_row q \<longleftrightarrow>
     (\<exists>c po v l t f s. q = Some (SelectStmt c po v l t f s)
        \<and> (length v = 1 \<or> l = Some (NumericConstant ''1'')))"
proof (cases q)
  case None
  then show ?thesis by simp
next
  case (Some vq)
  then show ?thesis by (cases vq) auto
qed

lemma object_stmt_wrapper:
  assumes "preprocess_insert_object_stmt mk stmt sub sub_table ecs c = Inr (res, c')"
  shows "(has_at_most_one_row (select_stmt stmt) \<longrightarrow> is_InsertQuery (ql_stmt res))
       \<and> (\<not> has_at_most_one_row (select_stmt stmt) \<longrightarrow>
            (\<exists>it al body. ql_stmt res = ForQuery it al body \<and> is_InsertQuery body))"
proof -
  from assms obtain v ecs1 q1 where
    pv: "preprocess_insert_value (select_stmt stmt) (ctes stmt) ecs = Inr (v, ecs1, q1)"
    by (auto simp: preprocess_insert_object_stmt_def split: sum.splits)
  have m: "has_at_most_one_row q1 = has_at_most_one_row (select_stmt stmt)"
    by (rule preprocess_insert_value_same_multiplicity[OF pv])
  from assms pv m show ?thesis
    by (auto simp: preprocess_insert_object_stmt_def alias_get_def Let_def
          split: sum.splits prod.splits if_splits)
qed

text \<open>
  C4.  For an INSERT whose subject is an object type and whose preprocessing succeeds:
  the row source is single-row exactly when it is a \<open>SelectStmt\<close> with one VALUES row
  or with the numeric constant \<open>1\<close> as LIMIT; the synthetic statement is the bare
  \<open>InsertQuery\<close> when the row source is single-row, and a \<open>ForQuery\<close> around the
  \<open>InsertQuery\<close> when it is not.
\<close>

theorem object_insert_for_wrapper:
  assumes rel: "subject_relation (ins_relation stmt) = Inr rel"
    and tab: "ext_resolve_subject ext rel c = Inr sub_table"
    and sid: "tab_schema_id sub_table = Some sid"
    and sub: "map_of (schema c) sid = Some (ObjectType n ptrs)"
    and ok: "preprocess_insert_stmt ext stmt c = Inr (res, c')"
    and single: "single \<longleftrightarrow>
       (\<exists>cs po v l t f s. select_stmt stmt = Some (SelectStmt cs po v l t f s)
          \<and> (length v = 1 \<or> l = Some (NumericConstant ''1'')))"
  shows "(single \<longleftrightarrow> has_at_most_one_row (select_stmt stmt))
       \<and> (is_ForQuery (ql_stmt res) \<longleftrightarrow> \<not> single)
       \<and> (single \<longrightarrow> is_InsertQuery (ql_stmt res))
       \<and> (\<not> single \<longrightarrow>
            (\<exists>it al body. ql_stmt res = ForQuery it al body \<and> is_InsertQuery body))"
proof -
  have s: "single \<longleftrightarrow> has_at_most_one_row (select_stmt stmt)"
    using single has_at_most_one_row_iff[of "select_stmt stmt"] by simp
  from ok rel tab sid sub obtain ecs res0 where
    o: "preprocess_insert_object_stmt (ext_alias ext) stmt (ObjectType n ptrs) sub_table ecs c
          = Inr (res0, c')"
    and r: "ql_stmt res = ql_stmt res0"
    by (auto simp: preprocess_insert_stmt_def split: sum.splits if_splits)
  from object_stmt_wrapper[OF o] r s
  have a: "single \<longrightarrow> is_InsertQuery (ql_stmt res)"
    and b: "\<not> single \<longrightarrow> (\<exists>it al body. ql_stmt res = ForQuery it al body \<and> is_InsertQuery body)"
    by simp_all
  have "is_ForQuery (ql_stmt res) \<longleftrightarrow> \<not> single"
  proof (cases single)
    case True
    with a have "is_InsertQuery (ql_stmt res)" by simp
    then have "\<not> is_ForQuery (ql_stmt res)" by (cases "ql_stmt res") simp_all
    with True show ?thesis by simp
  next
    case False
    with b show ?thesis by auto
  qed
  with s a b show ?thesis by simp
qed

text \<open>
  C4 at \<open>INSERT INTO "Movie" (title) VALUES ('Up')\<close> and at the same with two rows.
\<close>

theorem object_insert_for_wrapper_witness:
  "(\<exists>res c'. preprocess_insert_stmt demo_ext insert_movie_one demo_ctx = Inr (res, c')
      \<and> is_InsertQuery (ql_stmt res))
   \<and> (\<exists>res c'. preprocess_insert_stmt demo_ext insert_movie_two demo_ctx = Inr (res, c')
      \<and> is_ForQuery (ql_stmt res))"
proof -
  have one: "\<exists>res c'. preprocess_insert_stmt demo_ext insert_movie_one demo_ctx = Inr (res, c')"
    by (simp add: insert_movie_one_def demo_ext_def demo_ctx_def movie_table_def
          movie_schema_def movie_type_def insert_col_names_def pull_columns_from_table_def
          col_map_of_def preprocess_insert_stmt_def preprocess_insert_object_stmt_def
          is_default_def removal_order_def attach_ctes_def alias_get_def endswith_id_def
          construct_insert_element_for_ptr_def Let_def get_ptr_id_def from_type_def
          path_extend_def)
  have two: "\<exists>res c'. preprocess_insert_stmt demo_ext insert_movie_two demo_ctx = Inr (res, c')"
    by (simp add: insert_movie_two_def demo_ext_def demo_ctx_def movie_table_def
          movie_schema_def movie_type_def insert_col_names_def pull_columns_from_table_def
          col_map_of_def preprocess_insert_stmt_def preprocess_insert_object_stmt_def
          is_default_def removal_order_def attach_ctes_def alias_get_def endswith_id_def
          construct_insert_element_for_ptr_def Let_def get_ptr_id_def from_type_def
          path_extend_def)
  from one obtain r1 c1 where
    r1: "preprocess_insert_stmt demo_ext insert_movie_one demo_ctx = Inr (r1, c1)" by blast
  from two obtain r2 c2 where
    r2: "preprocess_insert_stmt demo_ext insert_movie_two demo_ctx = Inr (r2, c2)" by blast
  have "is_InsertQuery (ql_stmt r1)"
    using object_insert_for_wrapper
      [where stmt = insert_movie_one and ext = demo_ext and c = demo_ctx
         and rel = "Relation ''Movie'' []" and sub_table = movie_table and sid = 1
         and n = "''default::Movie''" and single = True, OF _ _ _ _ r1]
    by (simp add: insert_movie_one_def demo_ext_def demo_ctx_def movie_table_def
          movie_schema_def movie_type_def)
  moreover have "is_ForQuery (ql_stmt r2)"
    using object_insert_for_wrapper
      [where stmt = insert_movie_two and ext = demo_ext and c = demo_ctx
         and rel = "Relation ''Movie'' []" and sub_table = movie_table and sid = 1
         and n = "''default::Movie''" and single = False, OF _ _ _ _ r2]
    by (simp add: insert_movie_two_def demo_ext_def demo_ctx_def movie_table_def
          movie_schema_def movie_type_def)
  ultimately show ?thesis using r1 r2 by blast
qed

subsection \<open>Data-modifying statements nested too deep\<close>

lemma resolve_targets_error:
  "resolve_targets ext tab ts acc = Inl e \<Longrightarrow> \<exists>t. ext_resolve_ResTarget ext t tab = Inl e"
proof (induction ts arbitrary: acc)
  case Nil
  then show ?case by simp
next
  case (Cons t ts)
  obtain a b where acc: "acc = (a, b)" by (cases acc)
  show ?case
  proof (cases "ext_resolve_ResTarget ext t tab")
    case (Inl e')
    with Cons.prems acc show ?thesis by auto
  next
    case (Inr r)
    with Cons.prems acc Cons.IH show ?thesis by (auto split: prod.splits)
  qed
qed

lemma resolve_returning_rows_error:
  "resolve_returning_rows ext rl n ns a c = Inl e \<Longrightarrow>
   \<exists>t tab. ext_resolve_ResTarget ext t tab = Inl e"
  using resolve_targets_error[of ext _ rl "([], [])" e]
  by (auto simp: resolve_returning_rows_def alias_get_def Let_def
        split: sum.splits prod.splits) blast

text \<open>
  C6.  For an \<open>InsertStmt\<close> with a target relation: at subquery depth 2 or more
  \<open>resolve_InsertStmt\<close> raises the query error classified as feature-not-supported,
  whatever \<open>ctx.compiled_dml\<close> holds and whatever the resolver of the value relation
  would do.  At depth 0 or 1 the check lets the statement pass: a statement without
  entry in \<open>ctx.compiled_dml\<close> raises \<open>KeyError\<close>, and the function raises that query
  error only if a resolver it calls does.
\<close>

theorem nested_dml_rejected:
  assumes rel: "ins_relation stmt \<noteq> None"
    and derr: "derr = QueryError
        ''WITH clause containing a data-modifying statement must be at the top level''
        (q_span stmt) (Some ERROR_FEATURE_NOT_SUPPORTED)"
  shows "(2 \<le> subquery_depth c \<longrightarrow> resolve_InsertStmt ext stmt c = Inl derr)
       \<and> (subquery_depth c < 2 \<and> map_of (ctx_compiled_dml c) (node_id stmt) = None \<longrightarrow>
            resolve_InsertStmt ext stmt c = Inl KeyError)
       \<and> (subquery_depth c < 2
            \<and> (\<forall>q cx. ext_resolve_relation ext q cx \<noteq> Inl derr)
            \<and> (\<forall>t tab. ext_resolve_ResTarget ext t tab \<noteq> Inl derr) \<longrightarrow>
            resolve_InsertStmt ext stmt c \<noteq> Inl derr)"
proof (intro conjI impI)
  assume "2 \<le> subquery_depth c"
  with rel derr show "resolve_InsertStmt ext stmt c = Inl derr"
    by (auto simp: resolve_InsertStmt_def dml_depth_error_def)
next
  assume "subquery_depth c < 2 \<and> map_of (ctx_compiled_dml c) (node_id stmt) = None"
  with rel show "resolve_InsertStmt ext stmt c = Inl KeyError"
    by (auto simp: resolve_InsertStmt_def)
next
  assume h: "subquery_depth c < 2
            \<and> (\<forall>q cx. ext_resolve_relation ext q cx \<noteq> Inl derr)
            \<and> (\<forall>t tab. ext_resolve_ResTarget ext t tab \<noteq> Inl derr)"
  show "resolve_InsertStmt ext stmt c \<noteq> Inl derr"
  proof
    assume r: "resolve_InsertStmt ext stmt c = Inl derr"
    from h have rr: "\<And>rl n ns a cx. resolve_returning_rows ext rl n ns a cx \<noteq> Inl derr"
      using resolve_returning_rows_error by blast
    from r h rel rr show False
      by (auto simp: resolve_InsertStmt_def Let_def column_count_error_def derr
            split: option.splits sum.splits if_splits prod.splits base.splits)
  qed
qed

text \<open>
  C6 at \<open>INSERT INTO "Movie" (title) VALUES ('Up')\<close>, visited at depth 2 and at depth 1
  with an empty \<open>ctx.compiled_dml\<close>.
\<close>

theorem nested_dml_rejected_witness:
  "resolve_InsertStmt demo_ext insert_movie_one (demo_ctx\<lparr>subquery_depth := 2\<rparr>)
     = Inl (QueryError
        ''WITH clause containing a data-modifying statement must be at the top level''
        (Some 0) (Some ERROR_FEATURE_NOT_SUPPORTED))
   \<and> resolve_InsertStmt demo_ext insert_movie_one (demo_ctx\<lparr>subquery_depth := 1\<rparr>)
     = Inl KeyError
   \<and> resolve_InsertStmt demo_ext insert_movie_one (demo_ctx\<lparr>subquery_depth := 1\<rparr>)
     \<noteq> Inl (QueryError
        ''WITH clause containing a data-modifying statement must be at the top level''
        (Some 0) (Some ERROR_FEATURE_NOT_SUPPORTED))"
  using nested_dml_rejected
      [where stmt = insert_movie_one and c = "demo_ctx\<lparr>subquery_depth := 2\<rparr>"
         and ext = demo_ext, OF _ refl]
    nested_dml_rejected
      [where stmt = insert_movie_one and c = "demo_ctx\<lparr>subquery_depth := 1\<rparr>"
         and ext = demo_ext, OF _ refl]
  by (simp add: insert_movie_one_def demo_ctx_def demo_ext_def)

subsection \<open>The result of an INSERT without RETURNING\<close>

text \<open>
  C7.  Let \<open>resolve_InsertStmt\<close> succeed on a statement without RETURNING whose
  compiled entry is \<open>compiled\<close> and whose value relation resolved to \<open>val_query\<close>.
  Apart from its CTEs, the result is \<open>SELECT count(*) FROM output_relation_name\<close> at
  depth 0 and the empty \<open>SelectStmt()\<close> at any other depth.  In both cases its CTE list
  is what \<open>extract_ctes_from_ctx\<close> returns for the context whose buffer holds, after
  what was buffered before, the CTEs of the value relation, the value CTE and the
  compiled output CTEs; with the helper as the spec describes it, that is the whole
  buffer.
\<close>

theorem insert_without_returning:
  assumes ok: "resolve_InsertStmt ext stmt c = Inr (res_query, res_table, c')"
    and noret: "\<not> nonempty (returning_list stmt)"
    and entry: "map_of (ctx_compiled_dml c) (node_id stmt) = Some compiled"
    and val: "ext_resolve_relation ext (value_relation_input compiled)
                ((ext_child ext c)\<lparr>subquery_depth := subquery_depth (ext_child ext c) - 1\<rparr>)
              = Inr (Query val_query, val_table, sctx)"
    and value_cte: "value_cte =
       CommonTableExpr (value_cte_name compiled)
         (SelectStmt None [] [] None
            (value_target_list ext compiled val_table (c\<lparr>alias_counter := alias_counter sctx\<rparr>))
            [RangeSubselect
               (if nonempty (ctes val_query) then set_ctes val_query None else val_query) None]
            None)
         None"
    and buffered: "buffered =
       ctes_buffer c @ opt_list (ctes val_query) @ [value_cte] @ output_ctes compiled"
  shows "(subquery_depth c = 0 \<longrightarrow>
            set_ctes res_query None =
              SelectStmt None [] [] None [ResTarget None (FuncCall [''count''] [] True)]
                [RelRangeVar (BaseRelation (Relation (output_relation_name compiled) [])) None]
                None)
       \<and> (subquery_depth c \<noteq> 0 \<longrightarrow>
            set_ctes res_query None = SelectStmt None [] [] None [] [] None)
       \<and> ctes res_query =
            Some (fst (ext_extract_ctes_from_ctx ext
                         (c\<lparr>alias_counter := alias_counter sctx, ctes_buffer := buffered\<rparr>)))
       \<and> (ext_extract_ctes_from_ctx ext = extract_ctes_from_ctx \<longrightarrow>
            ctes res_query = Some buffered)"
proof -
  from ok noret entry val obtain extracted cz where
    ex: "ext_extract_ctes_from_ctx ext
           (c\<lparr>alias_counter := alias_counter sctx, ctes_buffer := buffered\<rparr>) = (extracted, cz)"
    and rq: "res_query =
       set_ctes (if subquery_depth c = 0 then count_query (output_relation_name compiled)
                 else SelectStmt0) (Some extracted)"
    unfolding resolve_InsertStmt_def Let_def
    by (cases "ctes val_query")
      (auto simp: value_cte buffered count_query_def SelectStmt0_def
        split: option.splits if_splits prod.splits)
  from rq have 1: "subquery_depth c = 0 \<longrightarrow>
            set_ctes res_query None =
              SelectStmt None [] [] None [ResTarget None (FuncCall [''count''] [] True)]
                [RelRangeVar (BaseRelation (Relation (output_relation_name compiled) [])) None]
                None"
    by (simp add: count_query_def)
  from rq have 2: "subquery_depth c \<noteq> 0 \<longrightarrow>
            set_ctes res_query None = SelectStmt None [] [] None [] [] None"
    by (simp add: SelectStmt0_def)
  from rq ex have 3: "ctes res_query =
            Some (fst (ext_extract_ctes_from_ctx ext
                         (c\<lparr>alias_counter := alias_counter sctx, ctes_buffer := buffered\<rparr>)))"
    by (simp add: count_query_def SelectStmt0_def)
  from 3 have 4: "ext_extract_ctes_from_ctx ext = extract_ctes_from_ctx \<longrightarrow>
            ctes res_query = Some buffered"
    by (simp add: extract_ctes_from_ctx_def)
  from 1 2 3 4 show ?thesis by simp
qed

text \<open>
  C7 at \<open>INSERT INTO "Movie" (title) VALUES ('Up')\<close> with its compiled entry, at depth
  0 and at depth 1.
\<close>

theorem insert_without_returning_witness:
  "(\<exists>q t c'. resolve_InsertStmt demo_ext insert_movie_one demo_ctx_compiled = Inr (q, t, c')
      \<and> set_ctes q None =
          SelectStmt None [] [] None [ResTarget None (FuncCall [''count''] [] True)]
            [RelRangeVar (BaseRelation (Relation ''ins'' [])) None] None
      \<and> map cte_name (opt_list (ctes q)) = [''ins_value~2'', ''ins_contents'', ''ins''])
   \<and> (\<exists>q t c'. resolve_InsertStmt demo_ext insert_movie_one
                    (demo_ctx_compiled\<lparr>subquery_depth := 1\<rparr>) = Inr (q, t, c')
      \<and> set_ctes q None = SelectStmt None [] [] None [] [] None
      \<and> map cte_name (opt_list (ctes q)) = [''ins_value~2'', ''ins_contents'', ''ins''])"
proof -
  have r0: "\<exists>q t c'. resolve_InsertStmt demo_ext insert_movie_one demo_ctx_compiled
              = Inr (q, t, c')"
    by (simp add: resolve_InsertStmt_def insert_movie_one_def demo_ext_def
          demo_ctx_compiled_def demo_compiled_def one_column_table_def Let_def
          extract_ctes_from_ctx_def)
  have r1: "\<exists>q t c'. resolve_InsertStmt demo_ext insert_movie_one
              (demo_ctx_compiled\<lparr>subquery_depth := 1\<rparr>) = Inr (q, t, c')"
    by (simp add: resolve_InsertStmt_def insert_movie_one_def demo_ext_def
          demo_ctx_compiled_def demo_compiled_def one_column_table_def Let_def
          extract_ctes_from_ctx_def)
  from r0 obtain q0 t0 c0 where
    q0: "resolve_InsertStmt demo_ext insert_movie_one demo_ctx_compiled = Inr (q0, t0, c0)"
    by blast
  from r1 obtain q1 t1 c1 where
    q1: "resolve_InsertStmt demo_ext insert_movie_one
           (demo_ctx_compiled\<lparr>subquery_depth := 1\<rparr>) = Inr (q1, t1, c1)"
    by blast
  have e: "ext_extract_ctes_from_ctx demo_ext = extract_ctes_from_ctx"
    by (simp add: demo_ext_def)
  have w0: "set_ctes q0 None =
          SelectStmt None [] [] None [ResTarget None (FuncCall [''count''] [] True)]
            [RelRangeVar (BaseRelation (Relation ''ins'' [])) None] None
      \<and> map cte_name (opt_list (ctes q0)) = [''ins_value~2'', ''ins_contents'', ''ins'']"
    using insert_without_returning
      [OF q0, where compiled = demo_compiled
         and val_query = "value_relation_input demo_compiled"
         and val_table = one_column_table
         and sctx = "demo_ctx_compiled\<lparr>subquery_depth := 0, ctes_buffer := []\<rparr>",
       OF _ _ _ refl refl] e
    by (simp add: insert_movie_one_def demo_ext_def demo_ctx_compiled_def demo_compiled_def
          demo_cte_def extract_ctes_from_ctx_def)
  have w1: "set_ctes q1 None = SelectStmt None [] [] None [] [] None
      \<and> map cte_name (opt_list (ctes q1)) = [''ins_value~2'', ''ins_contents'', ''ins'']"
    using insert_without_returning
      [OF q1, where compiled = demo_compiled
         and val_query = "value_relation_input demo_compiled"
         and val_table = one_column_table
         and sctx = "demo_ctx_compiled\<lparr>subquery_depth := 1, ctes_buffer := []\<rparr>",
       OF _ _ _ refl refl] e
    by (simp add: insert_movie_one_def demo_ext_def demo_ctx_compiled_def demo_compiled_def
          demo_cte_def extract_ctes_from_ctx_def)
  from q0 q1 w0 w1 show ?thesis by simp
qed

subsection \<open>DEFAULT in a VALUES list\<close>

lemma nths_del_at:
  assumes i: "i < length xs" and S: "\<forall>j\<in>S. j < i"
  shows "nths (del_at i xs) (- S) = nths xs (- insert i S)"
proof -
  let ?l = "take i xs" and ?r = "drop (Suc i) xs"
  have xs: "xs = ?l @ (xs ! i) # ?r"
    using i by (simp add: id_take_nth_drop)
  have lt: "length ?l = i" using i by simp
  have A: "{j. j + length ?l \<in> - S} = UNIV" using S lt by auto
  have B: "{j. Suc j \<in> {j. j + length ?l \<in> - insert i S}} = UNIV" using S lt by auto
  have Z: "0 \<notin> {j. j + length ?l \<in> - insert i S}" using lt by simp
  have C: "nths ?l (- S) = nths ?l (- insert i S)"
    unfolding nths_def by (rule arg_cong[where f = "map fst"], rule filter_cong)
      (auto simp: set_zip)
  have "nths (?l @ ?r) (- S) = nths ?l (- S) @ nths ?r {j. j + length ?l \<in> - S}"
    by (rule nths_append)
  then have D: "nths (del_at i xs) (- S) = nths ?l (- S) @ ?r"
    unfolding A del_at_def by (simp add: nths_all)
  have "nths (?l @ (xs ! i) # ?r) (- insert i S)
      = nths ?l (- insert i S) @ nths ((xs ! i) # ?r) {j. j + length ?l \<in> - insert i S}"
    by (rule nths_append)
  also have "nths ((xs ! i) # ?r) {j. j + length ?l \<in> - insert i S} = ?r"
    unfolding nths_Cons B using Z by (simp add: nths_all)
  finally have "nths xs (- insert i S) = nths ?l (- insert i S) @ ?r"
    using xs by simp
  with C D show ?thesis by simp
qed

lemma default_columns_rows:
  "\<exists>ds. default_columns (map ImplicitRowExpr argss) = Inr ds
      \<and> set ds = {i. \<exists>args\<in>set argss. i < length args \<and> is_default (args ! i)}"
proof (induction argss)
  case Nil
  show ?case by simp
next
  case (Cons a argss)
  then obtain ds where ds: "default_columns (map ImplicitRowExpr argss) = Inr ds"
    and s: "set ds = {i. \<exists>args\<in>set argss. i < length args \<and> is_default (args ! i)}"
    by blast
  show ?case using ds s by auto
qed

lemma removal_order_sorted: "sorted_wrt (>) (removal_order ds)"
proof -
  have "sorted_wrt (<) (sort (remdups ds))"
    by (simp add: strict_sorted_iff)
  then show ?thesis
    unfolding removal_order_def sorted_wrt_rev by simp
qed

lemma set_removal_order: "set (removal_order ds) = set ds"
  by (simp add: removal_order_def)

lemma remove_in_rows_all_default:
  "\<forall>args\<in>set argss. i < length args \<and> is_default (args ! i) \<Longrightarrow>
   remove_in_rows i sp (map ImplicitRowExpr argss)
     = Inr (map ImplicitRowExpr (map (del_at i) argss))"
  by (induction argss) simp_all

lemma remove_in_rows_not_default:
  "\<forall>args\<in>set argss. i < length args \<Longrightarrow>
   \<exists>args\<in>set argss. \<not> is_default (args ! i) \<Longrightarrow>
   remove_in_rows i sp (map ImplicitRowExpr argss) = Inl (default_error sp)"
proof (induction argss)
  case Nil
  then show ?case by simp
next
  case (Cons a argss)
  show ?case
  proof (cases "is_default (a ! i)")
    case False
    with Cons.prems show ?thesis by simp
  next
    case True
    with Cons.prems have "\<exists>args\<in>set argss. \<not> is_default (args ! i)" by auto
    with Cons.IH Cons.prems True show ?thesis by simp
  qed
qed

lemma del_at_nth_below: "j < i \<Longrightarrow> i < length xs \<Longrightarrow> del_at i xs ! j = xs ! j"
  by (simp add: del_at_def nth_append)

lemma length_del_at: "i < length xs \<Longrightarrow> length (del_at i xs) = length xs - 1"
  by (simp add: del_at_def)

text \<open>
  The removal loop on indices in descending order, all within the expected columns and
  within every row: it succeeds when every row holds \<open>DEFAULT\<close> at each of them, and
  then deletes exactly these positions.
\<close>

lemma remove_defaults_all_default:
  assumes "sorted_wrt (>) is"
    and "\<forall>i\<in>set is. i < length ecs"
    and "\<forall>i\<in>set is. \<forall>args\<in>set argss. i < length args \<and> is_default (args ! i)"
  shows "remove_defaults is sp ecs (map ImplicitRowExpr argss)
       = Inr (nths ecs (- set is),
              map ImplicitRowExpr (map (\<lambda>args. nths args (- set is)) argss))"
  using assms
proof (induction "is" arbitrary: ecs argss)
  case Nil
  show ?case by (simp add: nths_all)
next
  case (Cons i "is")
  have lt: "\<forall>j\<in>set is. j < i" using Cons.prems(1) by auto
  have i_ecs: "i < length ecs" using Cons.prems(2) by simp
  have i_rows: "\<forall>args\<in>set argss. i < length args \<and> is_default (args ! i)"
    using Cons.prems(3) by simp
  have r: "remove_in_rows i sp (map ImplicitRowExpr argss)
         = Inr (map ImplicitRowExpr (map (del_at i) argss))"
    by (rule remove_in_rows_all_default[OF i_rows])
  have p1: "sorted_wrt (>) is" using Cons.prems(1) by simp
  have p2: "\<forall>j\<in>set is. j < length (del_at i ecs)"
    using lt i_ecs by (auto simp: length_del_at)
  have p3: "\<forall>j\<in>set is. \<forall>args\<in>set (map (del_at i) argss).
              j < length args \<and> is_default (args ! j)"
  proof (intro ballI)
    fix j args assume j: "j \<in> set is" and a: "args \<in> set (map (del_at i) argss)"
    then obtain a0 where a0: "a0 \<in> set argss" and e: "args = del_at i a0" by auto
    from j lt have ji: "j < i" by simp
    from a0 i_rows have ia: "i < length a0" by simp
    from Cons.prems(3) j a0 have "is_default (a0 ! j)" by simp
    with ji ia e show "j < length args \<and> is_default (args ! j)"
      by (simp add: del_at_nth_below length_del_at)
  qed
  have ih: "remove_defaults is sp (del_at i ecs) (map ImplicitRowExpr (map (del_at i) argss))
       = Inr (nths (del_at i ecs) (- set is),
              map ImplicitRowExpr (map (\<lambda>args. nths args (- set is)) (map (del_at i) argss)))"
    by (rule Cons.IH[OF p1 p2 p3])
  have e1: "nths (del_at i ecs) (- set is) = nths ecs (- set (i # is))"
    using nths_del_at[OF i_ecs lt] by simp
  have e2: "map (\<lambda>args. nths args (- set is)) (map (del_at i) argss)
          = map (\<lambda>args. nths args (- set (i # is))) argss"
    using i_rows lt by (auto simp: nths_del_at)
  show ?case using i_ecs r ih e1 e2 by simp
qed

text \<open>
  The same loop fails with the unsupported-feature error as soon as some row does not
  hold \<open>DEFAULT\<close> at one of the indices.
\<close>

lemma remove_defaults_mixed:
  assumes "sorted_wrt (>) is"
    and "\<forall>i\<in>set is. i < length ecs"
    and "\<forall>i\<in>set is. \<forall>args\<in>set argss. i < length args"
    and "\<exists>i\<in>set is. \<exists>args\<in>set argss. \<not> is_default (args ! i)"
  shows "remove_defaults is sp ecs (map ImplicitRowExpr argss) = Inl (default_error sp)"
  using assms
proof (induction "is" arbitrary: ecs argss)
  case Nil
  then show ?case by simp
next
  case (Cons i "is")
  have lt: "\<forall>j\<in>set is. j < i" using Cons.prems(1) by auto
  have i_ecs: "i < length ecs" using Cons.prems(2) by simp
  have i_len: "\<forall>args\<in>set argss. i < length args" using Cons.prems(3) by simp
  show ?case
  proof (cases "\<exists>args\<in>set argss. \<not> is_default (args ! i)")
    case True
    from remove_in_rows_not_default[OF i_len True] i_ecs show ?thesis by simp
  next
    case False
    then have all: "\<forall>args\<in>set argss. i < length args \<and> is_default (args ! i)"
      using i_len by auto
    have r: "remove_in_rows i sp (map ImplicitRowExpr argss)
           = Inr (map ImplicitRowExpr (map (del_at i) argss))"
      by (rule remove_in_rows_all_default[OF all])
    have p1: "sorted_wrt (>) is" using Cons.prems(1) by simp
    have p2: "\<forall>j\<in>set is. j < length (del_at i ecs)"
      using lt i_ecs by (auto simp: length_del_at)
    have p3: "\<forall>j\<in>set is. \<forall>args\<in>set (map (del_at i) argss). j < length args"
    proof (intro ballI)
      fix j args assume j: "j \<in> set is" and a: "args \<in> set (map (del_at i) argss)"
      then obtain a0 where a0: "a0 \<in> set argss" and e: "args = del_at i a0" by auto
      from j lt have "j < i" by simp
      moreover from a0 i_len have "i < length a0" by simp
      ultimately show "j < length args" by (simp add: e length_del_at)
    qed
    from Cons.prems(4) False obtain j a0 where
      j: "j \<in> set is" and a0: "a0 \<in> set argss" and nd: "\<not> is_default (a0 ! j)" by auto
    from j lt a0 i_len have "del_at i a0 ! j = a0 ! j" by (simp add: del_at_nth_below)
    with nd have "\<not> is_default (del_at i a0 ! j)" by simp
    with a0 j have p4: "\<exists>j\<in>set is. \<exists>args\<in>set (map (del_at i) argss). \<not> is_default (args ! j)"
      by (intro bexI[of _ j] bexI[of _ "del_at i a0"]) simp_all
    from Cons.IH[OF p1 p2 p3 p4] r i_ecs show ?thesis by simp
  qed
qed

text \<open>
  The rule for \<open>DEFAULT\<close> where every position at which some row holds \<open>DEFAULT\<close> lies
  within the expected columns and within every row.  For a VALUES list with at least one
  row, and with \<open>D\<close> the positions at which some row holds \<open>DEFAULT\<close>: if some row does
  not hold \<open>DEFAULT\<close> at a position of \<open>D\<close>, the normalizer raises the query error
  classified as feature-not-supported; if every row holds \<open>DEFAULT\<close> at every position
  of \<open>D\<close> (and the VALUES query has no CTEs of its own, which the normalizer asserts), it
  returns the expected columns outside \<open>D\<close> and, in every row, the values at the
  positions outside \<open>D\<close>, in their order.  The rows need not be as long as the list of
  expected columns.
\<close>

lemma values_default_in_range:
  assumes q: "q = SelectStmt cs po (map ImplicitRowExpr argss) l t f sp"
    and ne: "argss \<noteq> []"
    and D: "D = {i. \<exists>args\<in>set argss. i < length args \<and> is_default (args ! i)}"
    and in_ecs: "\<forall>i\<in>D. i < length ecs"
    and in_rows: "\<forall>i\<in>D. \<forall>args\<in>set argss. i < length args"
    and rows': "rows' = map (\<lambda>args. ImplicitRowExpr (nths args (- D))) argss"
  shows "((\<exists>i\<in>D. \<exists>args\<in>set argss. \<not> is_default (args ! i)) \<longrightarrow>
           preprocess_insert_value (Some q) value_ctes ecs =
             Inl (QueryError
                    ''DEFAULT keyword is supported only when used for a column in all rows''
                    sp (Some ERROR_FEATURE_NOT_SUPPORTED)))
       \<and> ((\<forall>i\<in>D. \<forall>args\<in>set argss. is_default (args ! i)) \<and> \<not> nonempty cs \<longrightarrow>
           (\<exists>v q'. preprocess_insert_value (Some q) value_ctes ecs
                      = Inr (v, nths ecs (- D), Some q')
              \<and> sel_values q' = rows'
              \<and> (\<not> is_empty_row_values rows' \<longrightarrow> v = q' \<and> ctes v = value_ctes)
              \<and> (is_empty_row_values rows' \<longrightarrow>
                    v = set_ctes (null_rows_select rows') value_ctes)))"
proof -
  obtain ds where ds: "default_columns (map ImplicitRowExpr argss) = Inr ds"
    and sds: "set ds = D"
    using default_columns_rows[of argss] D by blast
  have srt: "sorted_wrt (>) (removal_order ds)" by (rule removal_order_sorted)
  have sro: "set (removal_order ds) = D" using sds by (simp add: set_removal_order)
  have r_ecs: "\<forall>i\<in>set (removal_order ds). i < length ecs"
    using sro in_ecs by simp
  have r_rows: "\<forall>i\<in>set (removal_order ds). \<forall>args\<in>set argss. i < length args"
    using sro in_rows by simp
  have 1: "(\<exists>i\<in>D. \<exists>args\<in>set argss. \<not> is_default (args ! i)) \<longrightarrow>
           preprocess_insert_value (Some q) value_ctes ecs =
             Inl (QueryError
                    ''DEFAULT keyword is supported only when used for a column in all rows''
                    sp (Some ERROR_FEATURE_NOT_SUPPORTED))"
  proof
    assume "\<exists>i\<in>D. \<exists>args\<in>set argss. \<not> is_default (args ! i)"
    then have m: "\<exists>i\<in>set (removal_order ds). \<exists>args\<in>set argss. \<not> is_default (args ! i)"
      using sro by simp
    have "remove_defaults (removal_order ds) sp ecs (map ImplicitRowExpr argss)
            = Inl (default_error sp)"
      by (rule remove_defaults_mixed[OF srt r_ecs r_rows m])
    then show "preprocess_insert_value (Some q) value_ctes ecs =
             Inl (QueryError
                    ''DEFAULT keyword is supported only when used for a column in all rows''
                    sp (Some ERROR_FEATURE_NOT_SUPPORTED))"
      using ds ne by (simp add: q default_error_def)
  qed
  have 2: "(\<forall>i\<in>D. \<forall>args\<in>set argss. is_default (args ! i)) \<and> \<not> nonempty cs \<longrightarrow>
           (\<exists>v q'. preprocess_insert_value (Some q) value_ctes ecs
                      = Inr (v, nths ecs (- D), Some q')
              \<and> sel_values q' = rows'
              \<and> (\<not> is_empty_row_values rows' \<longrightarrow> v = q' \<and> ctes v = value_ctes)
              \<and> (is_empty_row_values rows' \<longrightarrow>
                    v = set_ctes (null_rows_select rows') value_ctes))"
  proof
    assume h: "(\<forall>i\<in>D. \<forall>args\<in>set argss. is_default (args ! i)) \<and> \<not> nonempty cs"
    then have a: "\<forall>i\<in>set (removal_order ds). \<forall>args\<in>set argss.
                    i < length args \<and> is_default (args ! i)"
      using sro r_rows by simp
    have rd: "remove_defaults (removal_order ds) sp ecs (map ImplicitRowExpr argss)
            = Inr (nths ecs (- D), rows')"
      using remove_defaults_all_default[OF srt r_ecs a, of sp] sro rows' by simp
    show "\<exists>v q'. preprocess_insert_value (Some q) value_ctes ecs
                      = Inr (v, nths ecs (- D), Some q')
              \<and> sel_values q' = rows'
              \<and> (\<not> is_empty_row_values rows' \<longrightarrow> v = q' \<and> ctes v = value_ctes)
              \<and> (is_empty_row_values rows' \<longrightarrow>
                    v = set_ctes (null_rows_select rows') value_ctes)"
      using ds ne rd h
      by (cases "is_empty_row_values rows'")
        (simp_all add: q attach_ctes_def null_rows_select_def)
  qed
  from 1 2 show ?thesis by simp
qed

text \<open>
  The rule at \<open>VALUES ('Up', DEFAULT), ('Cars', 'x')\<close> and at
  \<open>VALUES ('Up', DEFAULT), ('Cars', DEFAULT)\<close> for the columns \<open>title\<close>,
  \<open>director_id\<close>.
\<close>

lemma values_default_in_range_example:
  "preprocess_insert_value
     (Some (SelectStmt None [] (map ImplicitRowExpr rows_mixed_default) None [] [] (Some 27)))
     None [title_column, director_column]
   = Inl (QueryError
            ''DEFAULT keyword is supported only when used for a column in all rows''
            (Some 27) (Some ERROR_FEATURE_NOT_SUPPORTED))
   \<and> (\<exists>v q'. preprocess_insert_value
         (Some (SelectStmt None [] (map ImplicitRowExpr rows_all_default) None [] [] (Some 27)))
         None [title_column, director_column]
       = Inr (v, [title_column], Some q')
       \<and> sel_values q' =
           [ImplicitRowExpr [StringConstant ''Up''], ImplicitRowExpr [StringConstant ''Cars'']])"
proof -
  have Dm: "{i. \<exists>args\<in>set rows_mixed_default. i < length args \<and> is_default (args ! i)} = {1}"
    by (auto simp: rows_mixed_default_def is_default_def less_Suc_eq)
  have Da: "{i. \<exists>args\<in>set rows_all_default. i < length args \<and> is_default (args ! i)} = {1}"
    by (auto simp: rows_all_default_def is_default_def less_Suc_eq)
  have n: "\<And>a b. nths [a, b] (- {Suc 0}) = [a]"
    by (simp add: nths_Cons)
  have nem: "rows_mixed_default \<noteq> []" and nea: "rows_all_default \<noteq> []"
    by (simp_all add: rows_mixed_default_def rows_all_default_def)
  have em: "\<forall>i\<in>{i. \<exists>args\<in>set rows_mixed_default. i < length args \<and> is_default (args ! i)}.
              i < length [title_column, director_column]"
    unfolding Dm by simp
  have ea: "\<forall>i\<in>{i. \<exists>args\<in>set rows_all_default. i < length args \<and> is_default (args ! i)}.
              i < length [title_column, director_column]"
    unfolding Da by simp
  have rm: "\<forall>i\<in>{i. \<exists>args\<in>set rows_mixed_default. i < length args \<and> is_default (args ! i)}.
              \<forall>args\<in>set rows_mixed_default. i < length args"
    unfolding Dm by (simp add: rows_mixed_default_def)
  have ra: "\<forall>i\<in>{i. \<exists>args\<in>set rows_all_default. i < length args \<and> is_default (args ! i)}.
              \<forall>args\<in>set rows_all_default. i < length args"
    unfolding Da by (simp add: rows_all_default_def)
  note Tm = values_default_in_range
      [where argss = rows_mixed_default and ecs = "[title_column, director_column]"
         and cs = None and po = "[]" and l = None and t = "[]" and f = "[]"
         and sp = "Some 27" and value_ctes = None, OF refl nem refl em rm refl]
  note Ta = values_default_in_range
      [where argss = rows_all_default and ecs = "[title_column, director_column]"
         and cs = None and po = "[]" and l = None and t = "[]" and f = "[]"
         and sp = "Some 27" and value_ctes = None, OF refl nea refl ea ra refl]
  have mixed: "\<exists>i\<in>{i. \<exists>args\<in>set rows_mixed_default. i < length args \<and> is_default (args ! i)}.
                 \<exists>args\<in>set rows_mixed_default. \<not> is_default (args ! i)"
    unfolding Dm by (simp add: rows_mixed_default_def is_default_def)
  have alld: "(\<forall>i\<in>{i. \<exists>args\<in>set rows_all_default. i < length args \<and> is_default (args ! i)}.
                 \<forall>args\<in>set rows_all_default. is_default (args ! i)) \<and> \<not> nonempty None"
    unfolding Da by (simp add: rows_all_default_def is_default_def)
  from Tm mixed have m: "preprocess_insert_value
     (Some (SelectStmt None [] (map ImplicitRowExpr rows_mixed_default) None [] [] (Some 27)))
     None [title_column, director_column]
   = Inl (QueryError
            ''DEFAULT keyword is supported only when used for a column in all rows''
            (Some 27) (Some ERROR_FEATURE_NOT_SUPPORTED))"
    by blast
  from Ta alld obtain v q' where
    r: "preprocess_insert_value
         (Some (SelectStmt None [] (map ImplicitRowExpr rows_all_default) None [] [] (Some 27)))
         None [title_column, director_column]
       = Inr (v, nths [title_column, director_column]
                   (- {i. \<exists>args\<in>set rows_all_default. i < length args \<and> is_default (args ! i)}),
              Some q')"
    and sv: "sel_values q' =
       map (\<lambda>args. ImplicitRowExpr
              (nths args (- {i. \<exists>args\<in>set rows_all_default. i < length args \<and> is_default (args ! i)})))
         rows_all_default"
    by blast
  have e1: "nths [title_column, director_column]
              (- {i. \<exists>args\<in>set rows_all_default. i < length args \<and> is_default (args ! i)})
            = [title_column]"
    unfolding Da by (simp add: n)
  have e2: "map (\<lambda>args. ImplicitRowExpr
              (nths args (- {i. \<exists>args\<in>set rows_all_default. i < length args \<and> is_default (args ! i)})))
         rows_all_default
       = [ImplicitRowExpr [StringConstant ''Up''], ImplicitRowExpr [StringConstant ''Cars'']]"
    unfolding Da by (simp add: rows_all_default_def n)
  from r sv have a: "\<exists>v q'. preprocess_insert_value
         (Some (SelectStmt None [] (map ImplicitRowExpr rows_all_default) None [] [] (Some 27)))
         None [title_column, director_column]
       = Inr (v, [title_column], Some q')
       \<and> sel_values q' =
           [ImplicitRowExpr [StringConstant ''Up''], ImplicitRowExpr [StringConstant ''Cars'']]"
    unfolding e1 e2 by blast
  from m a show ?thesis by (rule conjI)
qed

text \<open>
  The rule at \<open>VALUES (DEFAULT, 'a'), ('Cars', 'b')\<close> for the one column \<open>title\<close>: the
  rows are wider than the expected columns, the position of \<open>DEFAULT\<close> lies within them.
\<close>

lemma values_default_wide_row_example:
  "preprocess_insert_value
     (Some (SelectStmt None []
        [ImplicitRowExpr [Keyword ''DEFAULT'', StringConstant ''a''],
         ImplicitRowExpr [StringConstant ''Cars'', StringConstant ''b'']]
        None [] [] (Some 27)))
     None [title_column]
   = Inl (QueryError
            ''DEFAULT keyword is supported only when used for a column in all rows''
            (Some 27) (Some ERROR_FEATURE_NOT_SUPPORTED))"
proof -
  define argss where
    "argss = [[Keyword ''DEFAULT'', StringConstant ''a''],
              [StringConstant ''Cars'', StringConstant ''b'']]"
  have D: "{i. \<exists>args\<in>set argss. i < length args \<and> is_default (args ! i)} = {0}"
    by (auto simp: argss_def is_default_def less_Suc_eq)
  have ne: "argss \<noteq> []" by (simp add: argss_def)
  have e: "\<forall>i\<in>{i. \<exists>args\<in>set argss. i < length args \<and> is_default (args ! i)}.
             i < length [title_column]"
    unfolding D by simp
  have r: "\<forall>i\<in>{i. \<exists>args\<in>set argss. i < length args \<and> is_default (args ! i)}.
             \<forall>args\<in>set argss. i < length args"
    unfolding D by (simp add: argss_def)
  note T = values_default_in_range
      [where argss = argss and ecs = "[title_column]"
         and cs = None and po = "[]" and l = None and t = "[]" and f = "[]"
         and sp = "Some 27" and value_ctes = None, OF refl ne refl e r refl]
  have mixed: "\<exists>i\<in>{i. \<exists>args\<in>set argss. i < length args \<and> is_default (args ! i)}.
                 \<exists>args\<in>set argss. \<not> is_default (args ! i)"
    unfolding D by (simp add: argss_def is_default_def)
  from T mixed have "preprocess_insert_value
     (Some (SelectStmt None [] (map ImplicitRowExpr argss) None [] [] (Some 27)))
     None [title_column]
   = Inl (QueryError
            ''DEFAULT keyword is supported only when used for a column in all rows''
            (Some 27) (Some ERROR_FEATURE_NOT_SUPPORTED))"
    by blast
  then show ?thesis by (simp add: argss_def)
qed

text \<open>
  The synthetic statement of an insert into an object type is built from the expected
  columns the normalizer returns: one value column and one shape element per column, in
  their order, named by the pointer of the column.
\<close>

lemma get_pointer_for_column_object:
  "get_pointer_for_column col (ObjectType n ptrs) = Inr (ptr, ptr_name, is_link)
   \<Longrightarrow> ptr_name = column_ptr_name col \<and> is_link = endswith_id (col_name col)"
  by (auto simp: column_ptr_name_def split: if_splits option.splits)

lemma assigned_ptr_element:
  "construct_insert_element_for_ptr source_ql ptr_name ptr is_link = Inr el
   \<Longrightarrow> assigned_ptr el = ptr_name"
  by (auto simp: construct_insert_element_for_ptr_def split: if_splits option.splits)

lemma object_columns_assignments:
  "object_columns (ObjectType n ptrs) value_id value_ql ecols (vcs, po, sh)
     = Inr (vcs', po', sh')
   \<Longrightarrow> vcs' = vcs @ map (\<lambda>col. (column_ptr_name col, endswith_id (col_name col))) ecols
     \<and> map assigned_ptr sh' = map assigned_ptr sh @ map column_ptr_name ecols"
proof (induction ecols arbitrary: vcs po sh)
  case Nil
  then show ?case by simp
next
  case (Cons col rest)
  show ?case
  proof (cases "get_pointer_for_column col (ObjectType n ptrs)")
    case (Inl e)
    with Cons.prems show ?thesis by (simp del: get_pointer_for_column.simps)
  next
    case (Inr found)
    obtain ptr ptr_name is_link where f: "found = (ptr, ptr_name, is_link)"
      by (cases found) auto
    note g = Inr[unfolded f]
    show ?thesis
    proof (cases "construct_insert_element_for_ptr value_ql ptr_name ptr is_link")
      case (Inl e)
      with Cons.prems g show ?thesis
        by (simp del: get_pointer_for_column.simps add: Let_def)
    next
      case (Inr el)
      with Cons.prems g obtain po0 where
        r: "object_columns (ObjectType n ptrs) value_id value_ql rest
              (vcs @ [(ptr_name, is_link)], po0, sh @ [el]) = Inr (vcs', po', sh')"
        by (simp del: get_pointer_for_column.simps add: Let_def)
      from Cons.IH[OF r] get_pointer_for_column_object[OF g] assigned_ptr_element[OF Inr]
      show ?thesis by simp
    qed
  qed
qed

lemma preprocess_insert_object_stmt_columns:
  assumes pv: "preprocess_insert_value (select_stmt stmt) (ctes stmt) ecs = Inr (v, ecs', s')"
    and res: "preprocess_insert_object_stmt mk stmt sub sub_table ecs c = Inr (res, c')"
  shows "\<exists>value_id value_ql po1.
           object_columns sub value_id value_ql ecs' ([], [], [])
             = Inr (value_columns (early_result res), po1, insert_shape_of (ql_stmt res))"
proof -
  define value_id where "value_id = from_type (mk ''ins_val'' (alias_counter c))"
  define value_ql where
    "value_ql = (if has_at_most_one_row s' then IRAnchor (mk ''ins_val'' (alias_counter c))
                 else ObjectRef (mk ''ins_iter'' (Suc (alias_counter c))))"
  show ?thesis
  proof (cases "object_columns sub value_id value_ql ecs' ([], [], [])")
    case (Inl e)
    with res pv show ?thesis
      by (simp add: preprocess_insert_object_stmt_def Let_def alias_get_def
            value_id_def value_ql_def cong: if_cong)
  next
    case (Inr r)
    obtain vcs po1 sh where r: "r = (vcs, po1, sh)" by (cases r) auto
    from res pv Inr[unfolded r] have "value_columns (early_result res) = vcs
        \<and> insert_shape_of (ql_stmt res) = sh"
      by (auto simp: preprocess_insert_object_stmt_def Let_def alias_get_def
            value_id_def value_ql_def cong: if_cong split: sum.splits if_splits)
    with Inr[unfolded r] show ?thesis by auto
  qed
qed

text \<open>
  So where every row holds \<open>DEFAULT\<close> at every position of \<open>D\<close>, and these positions lie
  within the expected columns, the value columns and the assignments of the synthetic
  statement are those of the expected columns outside \<open>D\<close>: no column of \<open>D\<close> is
  assigned.
\<close>

lemma values_default_statement:
  assumes s: "select_stmt stmt = Some q"
    and q: "q = SelectStmt cs po (map ImplicitRowExpr argss) l t f sp"
    and ne: "argss \<noteq> []"
    and D: "D = {i. \<exists>args\<in>set argss. i < length args \<and> is_default (args ! i)}"
    and in_ecs: "\<forall>i\<in>D. i < length ecs"
    and alld: "\<forall>i\<in>D. \<forall>args\<in>set argss. i < length args \<and> is_default (args ! i)"
    and no_ctes: "\<not> nonempty cs"
    and res: "preprocess_insert_object_stmt mk stmt (ObjectType n ptrs) sub_table ecs c
                = Inr (res, c')"
  shows "value_columns (early_result res)
           = map (\<lambda>col. (column_ptr_name col, endswith_id (col_name col))) (nths ecs (- D))
       \<and> map assigned_ptr (insert_shape_of (ql_stmt res))
           = map column_ptr_name (nths ecs (- D))"
proof -
  have in_rows: "\<forall>i\<in>D. \<forall>args\<in>set argss. i < length args" using alld by simp
  have ad: "(\<forall>i\<in>D. \<forall>args\<in>set argss. is_default (args ! i)) \<and> \<not> nonempty cs"
    using alld no_ctes by simp
  from values_default_in_range[OF q ne D in_ecs in_rows refl, of "ctes stmt"] ad
  obtain v q' where
    pv: "preprocess_insert_value (Some q) (ctes stmt) ecs = Inr (v, nths ecs (- D), Some q')"
    by blast
  from preprocess_insert_object_stmt_columns[OF pv[folded s] res]
  obtain value_id value_ql po1 where
    oc: "object_columns (ObjectType n ptrs) value_id value_ql (nths ecs (- D)) ([], [], [])
           = Inr (value_columns (early_result res), po1, insert_shape_of (ql_stmt res))"
    by blast
  from object_columns_assignments[OF oc] show ?thesis by simp
qed

text \<open>
  At \<open>INSERT INTO "Movie" (title, director_id) VALUES ('Up', DEFAULT), ('Cars', DEFAULT)\<close>
  the synthetic statement assigns \<open>title\<close> only, and the value relation holds the rows
  \<open>('Up')\<close>, \<open>('Cars')\<close>.
\<close>

lemma values_default_statement_example:
  "\<exists>res c'. preprocess_insert_stmt demo_ext insert_movie_defaults demo_ctx = Inr (res, c')
      \<and> value_columns (early_result res) = [(''title'', False)]
      \<and> map assigned_ptr (insert_shape_of (ql_stmt res)) = [''title'']
      \<and> sel_values (value_relation_input (early_result res))
          = [ImplicitRowExpr [StringConstant ''Up''], ImplicitRowExpr [StringConstant ''Cars'']]"
  by (simp add: insert_movie_defaults_def rows_all_default_def
        demo_ext_def demo_ctx_def movie_table_def
        movie_schema_def movie_type_def insert_col_names_def pull_columns_from_table_def
        col_map_of_def preprocess_insert_stmt_def preprocess_insert_object_stmt_def
        is_default_def removal_order_def attach_ctes_def alias_get_def endswith_id_def
        construct_insert_element_for_ptr_def Let_def get_ptr_id_def from_type_def
        path_extend_def del_at_def)

text \<open>
  The statement \<open>INSERT INTO "Movie" (title) VALUES ('Up', 'y'), ('Cars', 'x')\<close> through
  \<open>compile_dml\<close> and \<open>resolve_InsertStmt\<close>, where the value relation resolves to a table
  of two columns.
\<close>

lemma wide_plain_preprocessed:
  "\<exists>p0 c1. preprocess_all wide_ext (collect_dml_stmts (Query insert_movie_wide_plain)) demo_ctx
              = Inr ([p0], c1)
      \<and> subject_columns p0 = []
      \<and> node_id (pp_input p0) = 6
      \<and> value_columns (early_result p0) = [(''title'', False)]
      \<and> value_relation_input (early_result p0) = values_wide_plain
      \<and> schema c1 = movie_schema \<and> subquery_depth c1 = 0"
  by (simp add: insert_movie_wide_plain_def values_wide_plain_def wide_ext_def
        demo_ext_def demo_ctx_def movie_table_def
        movie_schema_def movie_type_def insert_col_names_def pull_columns_from_table_def
        col_map_of_def preprocess_insert_stmt_def preprocess_insert_object_stmt_def
        is_default_def removal_order_def attach_ctes_def alias_get_def endswith_id_def
        construct_insert_element_for_ptr_def Let_def get_ptr_id_def from_type_def
        path_extend_def)

lemma wide_plain_compile:
  assumes "subject_columns p0 = []"
  shows "\<exists>cd remaining. compile_preprocessed_dml wide_ext [p0]
            = Inr ([(node_id (pp_input p0), cd)], remaining)
          \<and> value_columns cd = value_columns (early_result p0)
          \<and> value_relation_input cd = value_relation_input (early_result p0)"
  using assms
  by (simp add: compile_preprocessed_dml_def compile_merged_def wide_ext_def demo_ext_def
        demo_ir_def merge_and_prepare_external_rels_def demo_sql_def demo_ctes_def
        demo_cte_def Let_def upt_rec)

lemma wide_plain_column_count:
  assumes k: "map_of (ctx_compiled_dml c) 6 = Some cd"
    and vc: "value_columns cd = [(''title'', False)]"
    and vr: "value_relation_input cd = values_wide_plain"
    and d: "subquery_depth c = 0"
  shows "resolve_InsertStmt wide_ext insert_movie_wide_plain c
           = Inl (QueryError ''INSERT expected 1 columns, but got 2 (expecting title)''
                    (Some 27) None)"
  using assms
  by (simp add: resolve_InsertStmt_def insert_movie_wide_plain_def wide_ext_def demo_ext_def
        two_column_table_def column_count_error_def values_wide_plain_def Let_def)

text \<open>
  C3.  At \<open>INSERT INTO "Movie" (title) VALUES ('Up', DEFAULT), ('Cars', 'x')\<close> the first
  row holds \<open>DEFAULT\<close> at position 1 and the second row does not, so by C3 value
  normalization fails with the query error classified as feature-not-supported.  The
  code ends in \<open>IndexError\<close> instead: \<open>del expected_columns[1]\<close> on the list of the one
  column \<open>title\<close> runs before any row is compared, and the error leaves
  \<open>_preprocess_insert_stmt\<close> and \<open>compile_dml\<close> as it is.  The same statement with \<open>'y'\<close>
  in place of \<open>DEFAULT\<close> passes the normalizer with its expected columns unchanged, and
  \<open>resolve_InsertStmt\<close> reports the surplus value with the query error
  \<open>INSERT expected 1 columns, but got 2 (expecting title)\<close>.
\<close>

theorem values_default_index_error:
  "sel_values values_wide = map ImplicitRowExpr rows_mixed_default
   \<and> is_default (rows_mixed_default ! 0 ! 1)
   \<and> \<not> is_default (rows_mixed_default ! 1 ! 1)
   \<and> preprocess_insert_value (Some values_wide) None [title_column] = Inl IndexError
   \<and> preprocess_insert_stmt wide_ext insert_movie_wide demo_ctx = Inl IndexError
   \<and> compile_dml wide_ext (Query insert_movie_wide) demo_ctx = Inl IndexError
   \<and> (\<exists>v s. preprocess_insert_value (Some values_wide_plain) None [title_column]
               = Inr (v, [title_column], s))
   \<and> (\<exists>remaining c'.
         compile_dml wide_ext (Query insert_movie_wide_plain) demo_ctx = Inr (remaining, c')
         \<and> resolve_InsertStmt wide_ext insert_movie_wide_plain c'
             = Inl (QueryError ''INSERT expected 1 columns, but got 2 (expecting title)''
                      (Some 27) None))"
proof -
  have rows: "sel_values values_wide = map ImplicitRowExpr rows_mixed_default
      \<and> is_default (rows_mixed_default ! 0 ! 1) \<and> \<not> is_default (rows_mixed_default ! 1 ! 1)"
    by (simp add: values_wide_def rows_mixed_default_def is_default_def)
  have v: "preprocess_insert_value (Some values_wide) None [title_column] = Inl IndexError"
    by (simp add: values_wide_def title_column_def is_default_def removal_order_def)
  have p: "preprocess_insert_stmt wide_ext insert_movie_wide demo_ctx = Inl IndexError"
    by (simp add: values_wide_def title_column_def is_default_def removal_order_def
          insert_movie_wide_def wide_ext_def demo_ext_def demo_ctx_def movie_table_def
          movie_schema_def movie_type_def insert_col_names_def pull_columns_from_table_def
          col_map_of_def preprocess_insert_stmt_def preprocess_insert_object_stmt_def)
  have cw: "collect_dml_stmts (Query insert_movie_wide) = [insert_movie_wide]"
    by (simp add: insert_movie_wide_def)
  have c: "compile_dml wide_ext (Query insert_movie_wide) demo_ctx = Inl IndexError"
    unfolding compile_dml_def cw using p by simp
  have vp: "\<exists>v s. preprocess_insert_value (Some values_wide_plain) None [title_column]
               = Inr (v, [title_column], s)"
    by (simp add: values_wide_plain_def title_column_def is_default_def removal_order_def
          attach_ctes_def)
  from wide_plain_preprocessed obtain p0 c1 where
    pa: "preprocess_all wide_ext (collect_dml_stmts (Query insert_movie_wide_plain)) demo_ctx
           = Inr ([p0], c1)"
    and sc: "subject_columns p0 = []" and n: "node_id (pp_input p0) = 6"
    and vc: "value_columns (early_result p0) = [(''title'', False)]"
    and vr: "value_relation_input (early_result p0) = values_wide_plain"
    and d: "subquery_depth c1 = 0"
    by blast
  from wide_plain_compile[OF sc] n obtain cd remaining where
    cp: "compile_preprocessed_dml wide_ext [p0] = Inr ([(6, cd)], remaining)"
    and vc': "value_columns cd = value_columns (early_result p0)"
    and vr': "value_relation_input cd = value_relation_input (early_result p0)"
    by auto
  have cs: "collect_dml_stmts (Query insert_movie_wide_plain) = [insert_movie_wide_plain]"
    by (simp add: insert_movie_wide_plain_def)
  have cd: "compile_dml wide_ext (Query insert_movie_wide_plain) demo_ctx
              = Inr (remaining, c1\<lparr>ctx_compiled_dml := [(6, cd)]\<rparr>)"
    unfolding compile_dml_def using pa[unfolded cs] cp unfolding cs by simp
  have r: "resolve_InsertStmt wide_ext insert_movie_wide_plain
             (c1\<lparr>ctx_compiled_dml := [(6, cd)]\<rparr>)
           = Inl (QueryError ''INSERT expected 1 columns, but got 2 (expecting title)''
                    (Some 27) None)"
  proof (rule wide_plain_column_count[where cd = cd])
    show "map_of (ctx_compiled_dml (c1\<lparr>ctx_compiled_dml := [(6, cd)]\<rparr>)) 6 = Some cd"
      by simp
    show "value_columns cd = [(''title'', False)]" by (simp only: vc' vc)
    show "value_relation_input cd = values_wide_plain" by (simp only: vr' vr)
    show "subquery_depth (c1\<lparr>ctx_compiled_dml := [(6, cd)]\<rparr>) = 0" using d by simp
  qed
  from cd r have s: "\<exists>remaining c'.
         compile_dml wide_ext (Query insert_movie_wide_plain) demo_ctx = Inr (remaining, c')
         \<and> resolve_InsertStmt wide_ext insert_movie_wide_plain c'
             = Inl (QueryError ''INSERT expected 1 columns, but got 2 (expecting title)''
                      (Some 27) None)"
    by (intro exI conjI)
  from rows v p c vp s show ?thesis by simp
qed

subsection \<open>Normalizing a normalized value relation\<close>

lemma default_columns_implicit_rows:
  "default_columns rows = Inr ds \<Longrightarrow> \<exists>argss. rows = map ImplicitRowExpr argss"
proof (induction rows arbitrary: ds)
  case Nil
  show ?case by simp
next
  case (Cons row rows)
  from Cons.prems obtain args ds' where
    a: "row_args row = Inr args" and d: "default_columns rows = Inr ds'"
    by (auto split: sum.splits)
  from a have r: "row = ImplicitRowExpr args" by (cases row) simp_all
  from Cons.IH[OF d] obtain argss where "rows = map ImplicitRowExpr argss" by blast
  with r have "row # rows = map ImplicitRowExpr (args # argss)" by simp
  then show ?case by (rule exI)
qed

lemma remove_in_rows_success:
  "remove_in_rows i sp (map ImplicitRowExpr argss) = Inr rows' \<Longrightarrow>
   \<forall>args\<in>set argss. i < length args \<and> is_default (args ! i)"
  by (induction argss arbitrary: rows') (auto split: sum.splits if_splits)

lemma remove_defaults_success:
  assumes "remove_defaults is sp ecs (map ImplicitRowExpr argss) = Inr (ecs', rows')"
    and "sorted_wrt (>) is"
  shows "\<forall>i\<in>set is. i < length ecs \<and> (\<forall>args\<in>set argss. i < length args \<and> is_default (args ! i))"
  using assms
proof (induction "is" arbitrary: ecs argss)
  case Nil
  show ?case by simp
next
  case (Cons i "is")
  have lt: "\<forall>j\<in>set is. j < i" using Cons.prems(2) by auto
  from Cons.prems(1) obtain rows1 where
    i_ecs: "i < length ecs" and
    r: "remove_in_rows i sp (map ImplicitRowExpr argss) = Inr rows1" and
    d: "remove_defaults is sp (del_at i ecs) rows1 = Inr (ecs', rows')"
    by (auto split: sum.splits if_splits)
  have all: "\<forall>args\<in>set argss. i < length args \<and> is_default (args ! i)"
    by (rule remove_in_rows_success[OF r])
  have rows1: "rows1 = map ImplicitRowExpr (map (del_at i) argss)"
    using remove_in_rows_all_default[OF all, of sp] r by simp
  have p1: "sorted_wrt (>) is" using Cons.prems(2) by simp
  have ih: "\<forall>j\<in>set is. j < length (del_at i ecs)
              \<and> (\<forall>args\<in>set (map (del_at i) argss). j < length args \<and> is_default (args ! j))"
    by (rule Cons.IH[OF d[unfolded rows1] p1])
  have "\<forall>j\<in>set is. j < length ecs \<and> (\<forall>args\<in>set argss. j < length args \<and> is_default (args ! j))"
  proof (intro ballI conjI)
    fix j assume j: "j \<in> set is"
    with lt have ji: "j < i" by simp
    with i_ecs show "j < length ecs" by simp
    fix args assume a: "args \<in> set argss"
    with all have ia: "i < length args" by simp
    with ji show "j < length args" by simp
    from ih j a have "is_default (del_at i args ! j)" by simp
    with ji ia show "is_default (args ! j)" by (simp add: del_at_nth_below)
  qed
  with i_ecs all show ?case by simp
qed

lemma no_default_left:
  assumes "D = {i. \<exists>args\<in>set argss. i < length args \<and> is_default (args ! i)}"
  shows "{i. \<exists>args\<in>set (map (\<lambda>args. nths args (- D)) argss).
               i < length args \<and> is_default (args ! i)} = {}"
proof -
  have "\<not> is_default (nths a (- D) ! i)" if a: "a \<in> set argss" and i: "i < length (nths a (- D))"
    for a i
  proof
    assume d: "is_default (nths a (- D) ! i)"
    from i have "nths a (- D) ! i \<in> set (nths a (- D))" by (rule nth_mem)
    then obtain j where j: "j < length a" "j \<notin> D" and e: "nths a (- D) ! i = a ! j"
      by (auto simp: set_nths)
    from d e j(1) a have "j \<in> D" unfolding assms by auto
    with j(2) show False by simp
  qed
  then show ?thesis by auto
qed

text \<open>
  After a successful pass over a VALUES list no row holds \<open>DEFAULT\<close> any more.
\<close>

lemma values_pass_leaves_no_default:
  assumes dc: "default_columns rows = Inr ds"
    and rd: "remove_defaults (removal_order ds) sp ecs rows = Inr (ecs', rows')"
  shows "default_columns rows' = Inr []"
proof -
  from default_columns_implicit_rows[OF dc] obtain argss where
    rows: "rows = map ImplicitRowExpr argss" by blast
  define D where "D = {i. \<exists>args\<in>set argss. i < length args \<and> is_default (args ! i)}"
  from default_columns_rows[of argss] dc rows have sds: "set ds = D"
    unfolding D_def by simp
  have srt: "sorted_wrt (>) (removal_order ds)" by (rule removal_order_sorted)
  have sro: "set (removal_order ds) = D" using sds by (simp add: set_removal_order)
  from remove_defaults_success[OF rd[unfolded rows] srt]
  have a: "\<forall>i\<in>set (removal_order ds). i < length ecs"
    and b: "\<forall>i\<in>set (removal_order ds). \<forall>args\<in>set argss. i < length args \<and> is_default (args ! i)"
    by simp_all
  from remove_defaults_all_default[OF srt a b, of sp] rd rows sro
  have rows': "rows' = map ImplicitRowExpr (map (\<lambda>args. nths args (- D)) argss)" by simp
  from default_columns_rows[of "map (\<lambda>args. nths args (- D)) argss"] obtain ds' where
    d': "default_columns rows' = Inr ds'" and
    s': "set ds' = {i. \<exists>args\<in>set (map (\<lambda>args. nths args (- D)) argss).
                         i < length args \<and> is_default (args ! i)}"
    unfolding rows' by blast
  have "set ds' = {}"
    unfolding s' by (rule no_default_left[OF D_def])
  then have "ds' = []" by simp
  with d' show ?thesis by simp
qed

lemma set_values_same: "is_SelectStmt v \<Longrightarrow> set_values v (sel_values v) = v"
  by (cases v) simp_all

lemma set_ctes_props:
  "ctes (set_ctes v cs) = cs"
  "is_SelectStmt (set_ctes v cs) = is_SelectStmt v"
  "is_SelectStmt v \<Longrightarrow> sel_values (set_ctes v cs) = sel_values v"
  "set_ctes (set_ctes v cs) cs' = set_ctes v cs'"
  by (cases v; simp)+

lemma set_values_props:
  "is_SelectStmt (set_values v rows) = is_SelectStmt v"
  "is_SelectStmt v \<Longrightarrow> sel_values (set_values v rows) = rows"
  "ctes (set_values v rows) = ctes v"
  by (cases v; simp)+

text \<open>What a successful first application returns.\<close>

lemma first_application:
  assumes "preprocess_insert_value q value_ctes ecs = Inr (v, ecs', q')"
  shows "(q = None \<and> v = SelectStmt None [] [] None [] [] None)
       \<or> (q \<noteq> None \<and> ctes v = value_ctes)"
    and "is_SelectStmt v \<longrightarrow>
           default_columns (sel_values v) = Inr [] \<and> \<not> is_empty_row_values (sel_values v)"
proof -
  show "(q = None \<and> v = SelectStmt None [] [] None [] [] None)
       \<or> (q \<noteq> None \<and> ctes v = value_ctes)"
    using assms
    by (cases q)
      (auto simp: attach_ctes_def set_ctes_props split: sum.splits if_splits prod.splits)
  show "is_SelectStmt v \<longrightarrow>
           default_columns (sel_values v) = Inr [] \<and> \<not> is_empty_row_values (sel_values v)"
  proof (cases q)
    case None
    with assms show ?thesis by auto
  next
    case (Some vq)
    show ?thesis
    proof (cases "is_SelectStmt vq \<and> sel_values vq \<noteq> []")
      case False
      with assms Some have v: "v = set_ctes vq value_ctes"
        by (auto simp: attach_ctes_def split: sum.splits if_splits)
      show ?thesis
      proof
        assume "is_SelectStmt v"
        with v have s: "is_SelectStmt vq" by (simp add: set_ctes_props)
        with False have "sel_values vq = []" by simp
        with s v show "default_columns (sel_values v) = Inr []
            \<and> \<not> is_empty_row_values (sel_values v)"
          by (simp add: set_ctes_props)
      qed
    next
      case True
      with assms Some obtain ds ecs1 rows1 where
        dc: "default_columns (sel_values vq) = Inr ds" and
        rd: "remove_defaults (removal_order ds) (q_span vq) ecs (sel_values vq)
               = Inr (ecs1, rows1)"
        by (auto split: sum.splits if_splits)
      have nd: "default_columns rows1 = Inr []"
        by (rule values_pass_leaves_no_default[OF dc rd])
      show ?thesis
      proof (cases "is_empty_row_values rows1")
        case e: True
        with assms Some True dc rd have "v = set_ctes (null_rows_select rows1) value_ctes"
          by (auto simp: attach_ctes_def split: sum.splits if_splits)
        then show ?thesis by (simp add: null_rows_select_def)
      next
        case e: False
        with assms Some True dc rd have "v = set_ctes (set_values vq rows1) value_ctes"
          by (auto simp: attach_ctes_def split: sum.splits if_splits)
        with True e nd show ?thesis by (simp add: set_ctes_props set_values_props)
      qed
    qed
  qed
qed

text \<open>
  On a value relation without \<open>DEFAULT\<close> and without empty rows the normalizer only
  checks and sets the CTEs.
\<close>

lemma second_application:
  assumes "is_SelectStmt v \<longrightarrow>
             default_columns (sel_values v) = Inr [] \<and> \<not> is_empty_row_values (sel_values v)"
  shows "preprocess_insert_value (Some v) value_ctes ecs =
           (case attach_ctes v value_ctes of
              Inl e \<Rightarrow> Inl e
            | Inr x \<Rightarrow> Inr (x, ecs, Some x))"
  using assms
  by (cases "is_SelectStmt v \<and> sel_values v \<noteq> []")
    (auto simp: removal_order_def set_values_same)

text \<open>
  C8, as amended.  After a successful application of the normalizer: with an absent or
  empty CTE list a second application, to the value relation and expected columns
  returned and with the same CTE list, succeeds and returns them again (the value
  relation with the CTE list given, which is the one it has unless the first row source
  was absent); a returned \<open>SelectStmt\<close> holds no \<open>DEFAULT\<close> and is not a list of empty
  rows.  With a non-empty CTE list and a row source, the second application fails the
  assertion that the value query has no CTEs.
\<close>

theorem normalizer_second_application:
  assumes first: "preprocess_insert_value q value_ctes ecs = Inr (v, ecs', q')"
  shows "(\<not> nonempty value_ctes \<longrightarrow>
            preprocess_insert_value (Some v) value_ctes ecs'
              = Inr (set_ctes v value_ctes, ecs', Some (set_ctes v value_ctes))
            \<and> (q \<noteq> None \<or> value_ctes = None \<longrightarrow> set_ctes v value_ctes = v))
       \<and> (nonempty value_ctes \<and> q \<noteq> None \<longrightarrow>
            preprocess_insert_value (Some v) value_ctes ecs' = Inl (AssertionError []))
       \<and> (is_SelectStmt v \<longrightarrow>
            default_columns (sel_values v) = Inr [] \<and> \<not> is_empty_row_values (sel_values v))"
proof -
  note shape = first_application(1)[OF first]
  note clean = first_application(2)[OF first]
  note second = second_application[OF clean, of value_ctes ecs']
  have same: "ctes v = cs \<Longrightarrow> set_ctes v cs = v" for cs by (cases v) auto
  have 1: "\<not> nonempty value_ctes \<longrightarrow>
            preprocess_insert_value (Some v) value_ctes ecs'
              = Inr (set_ctes v value_ctes, ecs', Some (set_ctes v value_ctes))
            \<and> (q \<noteq> None \<or> value_ctes = None \<longrightarrow> set_ctes v value_ctes = v)"
    using shape second by (auto simp: attach_ctes_def same)
  have 2: "nonempty value_ctes \<and> q \<noteq> None \<longrightarrow>
            preprocess_insert_value (Some v) value_ctes ecs' = Inl (AssertionError [])"
    using shape second by (auto simp: attach_ctes_def)
  from 1 2 clean show ?thesis by simp
qed

text \<open>C8 as amended, at \<open>VALUES ('Up', DEFAULT), ('Cars', DEFAULT)\<close> without CTEs.\<close>

theorem normalizer_second_application_witness:
  "\<exists>v q'. preprocess_insert_value
       (Some (SelectStmt None [] (map ImplicitRowExpr rows_all_default) None [] [] (Some 27)))
       None [title_column, director_column]
     = Inr (v, [title_column], q')
     \<and> preprocess_insert_value (Some v) None [title_column] = Inr (v, [title_column], Some v)
     \<and> default_columns (sel_values v) = Inr []"
proof -
  have "\<exists>v q'. preprocess_insert_value
       (Some (SelectStmt None [] (map ImplicitRowExpr rows_all_default) None [] [] (Some 27)))
       None [title_column, director_column]
     = Inr (v, [title_column], q') \<and> is_SelectStmt v"
    by (simp add: rows_all_default_def is_default_def removal_order_def del_at_def
          attach_ctes_def)
  then obtain v q' where
    f: "preprocess_insert_value
       (Some (SelectStmt None [] (map ImplicitRowExpr rows_all_default) None [] [] (Some 27)))
       None [title_column, director_column]
     = Inr (v, [title_column], q')" and s: "is_SelectStmt v"
    by blast
  from normalizer_second_application[OF f] s
  have "preprocess_insert_value (Some v) None [title_column] = Inr (v, [title_column], Some v)
     \<and> default_columns (sel_values v) = Inr []"
    by simp
  with f show ?thesis by blast
qed

text \<open>
  The claim as stated fails at the row source \<open>VALUES ('Up')\<close> with a CTE list of one
  CTE: the first application attaches the CTE, the second raises the assertion error.
\<close>

theorem normalizer_idempotent_counterexample:
  "preprocess_insert_value (Some values_one) (Some one_cte) [title_column]
     = Inr (set_ctes values_one (Some one_cte), [title_column],
            Some (set_ctes values_one (Some one_cte)))
   \<and> preprocess_insert_value (Some (set_ctes values_one (Some one_cte))) (Some one_cte)
         [title_column]
     = Inl (AssertionError [])"
  by (simp add: values_one_def one_cte_def is_default_def removal_order_def attach_ctes_def)

subsection \<open>The output namespace for RETURNING\<close>

lemma map_of_dict_set: "map_of (dict_set d k v) = (map_of d)(k \<mapsto> v)"
  by (induction d) auto

lemma keys_dict_set: "fst ` set (dict_set d k v) = insert k (fst ` set d)"
proof -
  have "fst ` set (dict_set d k v) = dom (map_of (dict_set d k v))"
    by (simp add: dom_map_of_conv_image_fst)
  also have "\<dots> = insert k (dom (map_of d))"
    by (simp add: map_of_dict_set)
  also have "\<dots> = insert k (fst ` set d)"
    by (simp add: dom_map_of_conv_image_fst)
  finally show ?thesis .
qed

lemma resolve_output_order:
  "resolve_output m p =
     (if p = ''source'' \<or> p = ''target'' then Some (ColumnRef [p] False)
      else (case m (p, SERIALIZED) of
              Some e \<Rightarrow> Some e
            | None \<Rightarrow> (case m (p, VALUE) of Some e \<Rightarrow> Some e | None \<Rightarrow> m (p, IDENTITY))))"
  by (auto simp: resolve_output_def Let_def split: option.splits)

lemma build_output_namespace_resolved:
  "\<forall>p\<in>snd ` set scs. resolve_output m p \<noteq> None \<Longrightarrow>
   \<exists>ns. build_output_namespace m scs ns0 = Inr ns
      \<and> (\<forall>col. map_of ns col =
            (case map_of (rev scs) col of
               Some p \<Rightarrow> resolve_output m p
             | None \<Rightarrow> map_of ns0 col))
      \<and> fst ` set ns = fst ` set ns0 \<union> fst ` set scs"
proof (induction scs arbitrary: ns0)
  case Nil
  show ?case by simp
next
  case (Cons a scs)
  obtain c p where a: "a = (c, p)" by (cases a)
  from Cons.prems a obtain val where val: "resolve_output m p = Some val" by auto
  from Cons.prems have "\<forall>p\<in>snd ` set scs. resolve_output m p \<noteq> None" by simp
  from Cons.IH[OF this, of "dict_set ns0 c val"] obtain ns where
    b: "build_output_namespace m scs (dict_set ns0 c val) = Inr ns" and
    l: "\<forall>col. map_of ns col =
            (case map_of (rev scs) col of
               Some p \<Rightarrow> resolve_output m p
             | None \<Rightarrow> map_of (dict_set ns0 c val) col)" and
    k: "fst ` set ns = fst ` set (dict_set ns0 c val) \<union> fst ` set scs"
    by auto
  have 1: "build_output_namespace m (a # scs) ns0 = Inr ns"
    using a val b by simp
  have 2: "\<forall>col. map_of ns col =
            (case map_of (rev (a # scs)) col of
               Some p \<Rightarrow> resolve_output m p
             | None \<Rightarrow> map_of ns0 col)"
    using l a val by (auto simp: map_of_dict_set map_add_def split: option.splits)
  have 3: "fst ` set ns = fst ` set ns0 \<union> fst ` set (a # scs)"
    using k a by (auto simp: keys_dict_set)
  from 1 2 3 show ?case by blast
qed

lemma build_output_namespace_unresolved:
  "\<forall>q\<in>snd ` set pre. resolve_output m q \<noteq> None \<Longrightarrow> resolve_output m p = None \<Longrightarrow>
   build_output_namespace m (pre @ (c, p) # post) ns0 =
     Inl (AssertionError (p @ '' was in shape, but not in path_namespace''))"
proof (induction pre arbitrary: ns0)
  case Nil
  then show ?case by simp
next
  case (Cons a pre)
  obtain c' p' where a: "a = (c', p')" by (cases a)
  from Cons.prems a obtain val where val: "resolve_output m p' = Some val" by auto
  from Cons.prems have "\<forall>q\<in>snd ` set pre. resolve_output m q \<noteq> None" by simp
  from Cons.IH[OF this Cons.prems(2), of "dict_set ns0 c' val"] a val show ?case by simp
qed

text \<open>
  C2, as amended.  For a statement whose run of CTEs is \<open>stmt_ctes\<close>, with \<open>m\<close> the
  pointer map of the path outputs of the last of them: the expression found for a
  pointer name is the literal column reference to that name when the name is
  \<open>source\<close> or \<open>target\<close>, whatever the map holds, and otherwise the first entry
  present among the aspects serialized, value, identity.  When every pointer name
  recorded resolves, the output namespace maps each column name recorded to the
  expression of its pointer name, and the loop goes on with the entry holding that
  namespace; when one does not, the loop ends in an assertion error that names it.
\<close>

theorem returning_output_namespace:
  assumes run: "take_stmt_ctes node remaining False [] = (stmt_ctes, remaining')"
    and ne: "stmt_ctes \<noteq> []"
    and m: "m = ptr_map_of (path_outputs (cte_query (last stmt_ctes)))"
  shows "(\<forall>p. resolve_output m p =
            (if p = ''source'' \<or> p = ''target'' then Some (ColumnRef [p] False)
             else (case m (p, SERIALIZED) of
                     Some e \<Rightarrow> Some e
                   | None \<Rightarrow>
                       (case m (p, VALUE) of Some e \<Rightarrow> Some e | None \<Rightarrow> m (p, IDENTITY)))))
       \<and> ((\<forall>p\<in>snd ` set (subject_columns stmt). resolve_output m p \<noteq> None) \<longrightarrow>
            (\<exists>ns. build_output_namespace m (subject_columns stmt) [] = Inr ns
               \<and> (\<forall>col p. map_of (rev (subject_columns stmt)) col = Some p \<longrightarrow>
                     map_of ns col = resolve_output m p)
               \<and> fst ` set ns = fst ` set (subject_columns stmt)
               \<and> partition_ctes ((stmt, node) # rest) remaining result =
                   partition_ctes rest remaining'
                     (dict_set result (node_id (pp_input stmt))
                        \<lparr>value_cte_name = value_cte_name (early_result stmt),
                         value_relation_input = value_relation_input (early_result stmt),
                         value_columns = value_columns (early_result stmt),
                         value_iterator_name = value_iterator_name (early_result stmt),
                         output_ctes = stmt_ctes,
                         output_relation_name = cte_name (last stmt_ctes),
                         output_namespace = ns\<rparr>)))
       \<and> (subject_columns stmt = pre @ (c, p) # post
            \<and> (\<forall>q\<in>snd ` set pre. resolve_output m q \<noteq> None)
            \<and> resolve_output m p = None \<longrightarrow>
            partition_ctes ((stmt, node) # rest) remaining result =
              Inl (AssertionError (p @ '' was in shape, but not in path_namespace'')))"
proof (intro conjI impI allI)
  fix p
  show "resolve_output m p =
            (if p = ''source'' \<or> p = ''target'' then Some (ColumnRef [p] False)
             else (case m (p, SERIALIZED) of
                     Some e \<Rightarrow> Some e
                   | None \<Rightarrow>
                       (case m (p, VALUE) of Some e \<Rightarrow> Some e | None \<Rightarrow> m (p, IDENTITY))))"
    by (rule resolve_output_order)
next
  assume h: "\<forall>p\<in>snd ` set (subject_columns stmt). resolve_output m p \<noteq> None"
  from build_output_namespace_resolved[OF h, of "[]"] obtain ns where
    b: "build_output_namespace m (subject_columns stmt) [] = Inr ns" and
    l: "\<forall>col. map_of ns col =
            (case map_of (rev (subject_columns stmt)) col of
               Some p \<Rightarrow> resolve_output m p
             | None \<Rightarrow> map_of [] col)" and
    k: "fst ` set ns = fst ` set [] \<union> fst ` set (subject_columns stmt)"
    by auto
  have l': "\<forall>col p. map_of (rev (subject_columns stmt)) col = Some p \<longrightarrow>
              map_of ns col = resolve_output m p"
    using l by simp
  have k': "fst ` set ns = fst ` set (subject_columns stmt)" using k by simp
  have p: "partition_ctes ((stmt, node) # rest) remaining result =
                   partition_ctes rest remaining'
                     (dict_set result (node_id (pp_input stmt))
                        \<lparr>value_cte_name = value_cte_name (early_result stmt),
                         value_relation_input = value_relation_input (early_result stmt),
                         value_columns = value_columns (early_result stmt),
                         value_iterator_name = value_iterator_name (early_result stmt),
                         output_ctes = stmt_ctes,
                         output_relation_name = cte_name (last stmt_ctes),
                         output_namespace = ns\<rparr>)"
    using run ne b by (simp add: m)
  from b l' k' p
  show "\<exists>ns. build_output_namespace m (subject_columns stmt) [] = Inr ns
               \<and> (\<forall>col p. map_of (rev (subject_columns stmt)) col = Some p \<longrightarrow>
                     map_of ns col = resolve_output m p)
               \<and> fst ` set ns = fst ` set (subject_columns stmt)
               \<and> partition_ctes ((stmt, node) # rest) remaining result =
                   partition_ctes rest remaining'
                     (dict_set result (node_id (pp_input stmt))
                        \<lparr>value_cte_name = value_cte_name (early_result stmt),
                         value_relation_input = value_relation_input (early_result stmt),
                         value_columns = value_columns (early_result stmt),
                         value_iterator_name = value_iterator_name (early_result stmt),
                         output_ctes = stmt_ctes,
                         output_relation_name = cte_name (last stmt_ctes),
                         output_namespace = ns\<rparr>)"
    by blast
next
  assume h: "subject_columns stmt = pre @ (c, p) # post
            \<and> (\<forall>q\<in>snd ` set pre. resolve_output m q \<noteq> None)
            \<and> resolve_output m p = None"
  then have "build_output_namespace m (subject_columns stmt) [] =
     Inl (AssertionError (p @ '' was in shape, but not in path_namespace''))"
    using build_output_namespace_unresolved[of pre m p c post "[]"] by simp
  then show "partition_ctes ((stmt, node) # rest) remaining result =
              Inl (AssertionError (p @ '' was in shape, but not in path_namespace''))"
    using run ne by (simp add: m)
qed

lemma returning_pp_columns:
  "subject_columns returning_pp =
     [(''source'', ''source''), (''target'', ''target''), (''role'', ''role'')]
   \<and> node_id (pp_input returning_pp) = 5"
  by (simp add: returning_pp_def insert_actors_returning_def demo_ext_def demo_ctx_def
        actors_table_def actors_link_def movie_schema_def insert_col_names_def
        pull_columns_from_table_def col_map_of_def preprocess_insert_stmt_def
        preprocess_insert_pointer_stmt_def is_default_def removal_order_def attach_ctes_def
        alias_get_def Let_def endswith_id_def)

lemma link_cte_ptr_map:
  "ptr_map_of (path_outputs (cte_query link_cte)) =
     [(''target'', VALUE) \<mapsto> ColumnRef [''target_value''] False,
      (''role'', VALUE) \<mapsto> ColumnRef [''role_value''] False]"
  by (simp add: link_cte_def ptr_map_of_def rptr_name_def)

text \<open>
  C2 as amended, at a statement recording \<open>source\<close>, \<open>target\<close> and \<open>role\<close> and at one
  recording \<open>title\<close>, which the final CTE does not provide.
\<close>

theorem returning_output_namespace_witness:
  "(\<exists>d. partition_ctes [(returning_pp, 10)] [link_cte] [] = Inr ([(5, d)], [])
      \<and> output_namespace d =
          [(''source'', ColumnRef [''source''] False),
           (''target'', ColumnRef [''target''] False),
           (''role'', ColumnRef [''role_value''] False)])
   \<and> partition_ctes [(returning_pp\<lparr>subject_columns := [(''title'', ''title'')]\<rparr>, 10)]
         [link_cte] []
     = Inl (AssertionError ''title was in shape, but not in path_namespace'')"
proof -
  have run: "take_stmt_ctes 10 [link_cte] False [] = ([link_cte], [])"
    by (simp add: link_cte_def)
  have ne: "[link_cte] \<noteq> []" by simp
  note T = returning_output_namespace[OF run ne refl]
  let ?m = "ptr_map_of (path_outputs (cte_query (last [link_cte])))"
  have m: "?m = [(''target'', VALUE) \<mapsto> ColumnRef [''target_value''] False,
                 (''role'', VALUE) \<mapsto> ColumnRef [''role_value''] False]"
    using link_cte_ptr_map by simp
  have r1: "\<forall>p\<in>snd ` set (subject_columns returning_pp). resolve_output ?m p \<noteq> None"
    unfolding m by (simp add: returning_pp_columns resolve_output_def)
  have b: "build_output_namespace ?m (subject_columns returning_pp) [] =
        Inr [(''source'', ColumnRef [''source''] False),
             (''target'', ColumnRef [''target''] False),
             (''role'', ColumnRef [''role_value''] False)]"
    unfolding m by (simp add: returning_pp_columns resolve_output_def)
  note T1 = T[where stmt = returning_pp and rest = "[]" and result = "[]",
              THEN conjunct2, THEN conjunct1, THEN mp, OF r1]
  from T1 obtain ns where
    bn: "build_output_namespace ?m (subject_columns returning_pp) [] = Inr ns" and
    p: "partition_ctes [(returning_pp, 10)] [link_cte] [] =
          partition_ctes [] []
            (dict_set [] (node_id (pp_input returning_pp))
               \<lparr>value_cte_name = value_cte_name (early_result returning_pp),
                value_relation_input = value_relation_input (early_result returning_pp),
                value_columns = value_columns (early_result returning_pp),
                value_iterator_name = value_iterator_name (early_result returning_pp),
                output_ctes = [link_cte],
                output_relation_name = cte_name (last [link_cte]),
                output_namespace = ns\<rparr>)"
    by blast
  from bn b have ns: "ns = [(''source'', ColumnRef [''source''] False),
             (''target'', ColumnRef [''target''] False),
             (''role'', ColumnRef [''role_value''] False)]"
    by simp
  have first: "\<exists>d. partition_ctes [(returning_pp, 10)] [link_cte] [] = Inr ([(5, d)], [])
      \<and> output_namespace d =
          [(''source'', ColumnRef [''source''] False),
           (''target'', ColumnRef [''target''] False),
           (''role'', ColumnRef [''role_value''] False)]"
    unfolding p ns by (simp add: returning_pp_columns)
  have r2: "subject_columns (returning_pp\<lparr>subject_columns := [(''title'', ''title'')]\<rparr>)
              = [] @ (''title'', ''title'') # []
            \<and> (\<forall>q\<in>snd ` set []. resolve_output ?m q \<noteq> None)
            \<and> resolve_output ?m ''title'' = None"
    unfolding m by (simp add: resolve_output_def)
  note T2 = T[where stmt = "returning_pp\<lparr>subject_columns := [(''title'', ''title'')]\<rparr>"
                and pre = "[]" and c = "''title''" and p = "''title''" and post = "[]"
                and rest = "[]" and result = "[]",
              THEN conjunct2, THEN conjunct2, THEN mp, OF r2]
  from T2
  have second: "partition_ctes
         [(returning_pp\<lparr>subject_columns := [(''title'', ''title'')]\<rparr>, 10)] [link_cte] []
     = Inl (AssertionError ''title was in shape, but not in path_namespace'')"
    by simp
  from first second show ?thesis by (rule conjI)
qed

text \<open>
  The claim as stated fails at the statement recording \<open>target\<close>, with a final CTE
  whose path outputs hold a value for a pointer named \<open>target\<close>: the lookup by aspects
  finds that value, and the output namespace holds the literal column reference all the
  same.  The column reference replaces the lookup's result; it is not a fallback.
\<close>

theorem returning_fallback_counterexample:
  "ptr_map_of (path_outputs (cte_query link_cte)) (''target'', SERIALIZED) = None
   \<and> ptr_map_of (path_outputs (cte_query link_cte)) (''target'', VALUE)
       = Some (ColumnRef [''target_value''] False)
   \<and> subject_columns returning_pp =
       [(''source'', ''source''), (''target'', ''target''), (''role'', ''role'')]
   \<and> build_output_namespace (ptr_map_of (path_outputs (cte_query link_cte)))
         (subject_columns returning_pp) []
       = Inr [(''source'', ColumnRef [''source''] False),
              (''target'', ColumnRef [''target''] False),
              (''role'', ColumnRef [''role_value''] False)]"
  unfolding link_cte_ptr_map
  by (simp add: returning_pp_columns resolve_output_def)

subsection \<open>The partition of the compiled CTEs\<close>

text \<open>The inner loop, for any state of its flag and accumulator.\<close>

lemma take_stmt_ctes_runs:
  "take_stmt_ctes node cs found acc =
     (if found
      then (acc @ takeWhile (\<lambda>c. for_dml_stmt c = Some node) cs,
            dropWhile (\<lambda>c. for_dml_stmt c = Some node) cs)
      else (acc @ takeWhile (\<lambda>c. for_dml_stmt c \<noteq> Some node) cs
                @ takeWhile (\<lambda>c. for_dml_stmt c = Some node)
                    (dropWhile (\<lambda>c. for_dml_stmt c \<noteq> Some node) cs),
            dropWhile (\<lambda>c. for_dml_stmt c = Some node)
              (dropWhile (\<lambda>c. for_dml_stmt c \<noteq> Some node) cs)))"
  by (induction cs arbitrary: found acc) (auto simp: Let_def)

lemma takeWhile_first: "xs \<noteq> [] \<Longrightarrow> P (hd xs) \<Longrightarrow> \<exists>c\<in>set (takeWhile P xs). P c"
  by (cases xs) auto

lemma take_stmt_ctes_run:
  assumes "take_stmt_ctes node cs False [] = (g, r)"
  shows "g @ r = cs"
    and "g = takeWhile (\<lambda>c. for_dml_stmt c \<noteq> Some node) cs
             @ takeWhile (\<lambda>c. for_dml_stmt c = Some node)
                 (dropWhile (\<lambda>c. for_dml_stmt c \<noteq> Some node) cs)"
    and "r \<noteq> [] \<longrightarrow> for_dml_stmt (hd r) \<noteq> Some node \<and> (\<exists>c\<in>set g. for_dml_stmt c = Some node)"
proof -
  let ?N = "\<lambda>c. for_dml_stmt c \<noteq> Some node" and ?M = "\<lambda>c. for_dml_stmt c = Some node"
  from assms have g: "g = takeWhile ?N cs @ takeWhile ?M (dropWhile ?N cs)"
    and r: "r = dropWhile ?M (dropWhile ?N cs)"
    by (simp_all add: take_stmt_ctes_runs)
  show "g = takeWhile ?N cs @ takeWhile ?M (dropWhile ?N cs)" by (rule g)
  have "takeWhile ?N cs @ (takeWhile ?M (dropWhile ?N cs) @ dropWhile ?M (dropWhile ?N cs)) = cs"
    by (simp only: takeWhile_dropWhile_id)
  then show "g @ r = cs" using g r by simp
  show "r \<noteq> [] \<longrightarrow> for_dml_stmt (hd r) \<noteq> Some node \<and> (\<exists>c\<in>set g. for_dml_stmt c = Some node)"
  proof
    assume ne: "r \<noteq> []"
    then have h: "\<not> ?M (hd r)" unfolding r by (rule hd_dropWhile)
    have d: "dropWhile ?N cs \<noteq> []"
      using ne r by (rule_tac notI) simp
    then have m: "\<not> ?N (hd (dropWhile ?N cs))" by (rule hd_dropWhile)
    then have "?M (hd (dropWhile ?N cs))" by simp
    with d have "\<exists>c\<in>set (takeWhile ?M (dropWhile ?N cs)). ?M c"
      by (rule takeWhile_first)
    then have "\<exists>c\<in>set g. ?M c" unfolding g by auto
    with h show "for_dml_stmt (hd r) \<noteq> Some node \<and> (\<exists>c\<in>set g. for_dml_stmt c = Some node)"
      by simp
  qed
qed

lemma cte_runs_concat: "cte_runs nodes cs = (groups, leftover) \<Longrightarrow> concat groups @ leftover = cs"
proof (induction nodes arbitrary: cs groups leftover)
  case Nil
  then show ?case by simp
next
  case (Cons node nodes)
  let ?N = "\<lambda>c. for_dml_stmt c \<noteq> Some node" and ?M = "\<lambda>c. for_dml_stmt c = Some node"
  obtain gs l where rec: "cte_runs nodes (dropWhile ?M (dropWhile ?N cs)) = (gs, l)"
    by (cases "cte_runs nodes (dropWhile ?M (dropWhile ?N cs))")
  from Cons.prems rec have g: "groups = (takeWhile ?N cs @ takeWhile ?M (dropWhile ?N cs)) # gs"
    and l: "leftover = l"
    by (simp_all add: Let_def)
  from Cons.IH[OF rec] have "concat gs @ l = dropWhile ?M (dropWhile ?N cs)" .
  then have "concat groups @ leftover
        = takeWhile ?N cs @ (takeWhile ?M (dropWhile ?N cs) @ dropWhile ?M (dropWhile ?N cs))"
    using g l by simp
  also have "\<dots> = cs" by (simp only: takeWhile_dropWhile_id)
  finally show ?case .
qed

lemma dict_set_new: "k \<notin> fst ` set d \<Longrightarrow> dict_set d k v = d @ [(k, v)]"
  by (induction d) auto

text \<open>The loop over the statements, from any state of \<open>result\<close>.\<close>

lemma partition_ctes_runs:
  assumes "partition_ctes pairs remaining result0 = Inr (result, leftover)"
    and "distinct (map (\<lambda>(stmt, node). node_id (pp_input stmt)) pairs)"
    and "set (map (\<lambda>(stmt, node). node_id (pp_input stmt)) pairs) \<inter> fst ` set result0 = {}"
  shows "\<exists>entries. result = result0 @ entries
           \<and> map fst entries = map (\<lambda>(stmt, node). node_id (pp_input stmt)) pairs
           \<and> (map (\<lambda>(k, d). output_ctes d) entries, leftover) = cte_runs (map snd pairs) remaining
           \<and> (\<forall>(k, d)\<in>set entries. output_ctes d \<noteq> []
                 \<and> output_relation_name d = cte_name (last (output_ctes d)))"
  using assms
proof (induction pairs arbitrary: remaining result0)
  case Nil
  then show ?case by simp
next
  case (Cons a pairs)
  obtain stmt node where a: "a = (stmt, node)" by (cases a)
  let ?N = "\<lambda>c. for_dml_stmt c \<noteq> Some node" and ?M = "\<lambda>c. for_dml_stmt c = Some node"
  let ?g = "takeWhile ?N remaining @ takeWhile ?M (dropWhile ?N remaining)"
  let ?r = "dropWhile ?M (dropWhile ?N remaining)"
  let ?k = "node_id (pp_input stmt)"
  have run: "take_stmt_ctes node remaining False [] = (?g, ?r)"
    by (simp add: take_stmt_ctes_runs)
  from Cons.prems(1) a run obtain ns where
    ne: "?g \<noteq> []" and
    rec: "partition_ctes pairs ?r
            (dict_set result0 ?k
               \<lparr>value_cte_name = value_cte_name (early_result stmt),
                value_relation_input = value_relation_input (early_result stmt),
                value_columns = value_columns (early_result stmt),
                value_iterator_name = value_iterator_name (early_result stmt),
                output_ctes = ?g,
                output_relation_name = cte_name (last ?g),
                output_namespace = ns\<rparr>) = Inr (result, leftover)"
    by (auto split: sum.splits if_splits)
  let ?d = "\<lparr>value_cte_name = value_cte_name (early_result stmt),
                value_relation_input = value_relation_input (early_result stmt),
                value_columns = value_columns (early_result stmt),
                value_iterator_name = value_iterator_name (early_result stmt),
                output_ctes = ?g,
                output_relation_name = cte_name (last ?g),
                output_namespace = ns\<rparr>"
  from Cons.prems(3) a have new: "?k \<notin> fst ` set result0" by auto
  then have ds: "dict_set result0 ?k ?d = result0 @ [(?k, ?d)]" by (rule dict_set_new)
  have p2: "distinct (map (\<lambda>(stmt, node). node_id (pp_input stmt)) pairs)"
    using Cons.prems(2) by simp
  have p3: "set (map (\<lambda>(stmt, node). node_id (pp_input stmt)) pairs)
              \<inter> fst ` set (result0 @ [(?k, ?d)]) = {}"
    using Cons.prems(2,3) a by auto
  from Cons.IH[OF rec[unfolded ds] p2 p3] obtain entries where
    e1: "result = (result0 @ [(?k, ?d)]) @ entries" and
    e2: "map fst entries = map (\<lambda>(stmt, node). node_id (pp_input stmt)) pairs" and
    e3: "(map (\<lambda>(k, d). output_ctes d) entries, leftover) = cte_runs (map snd pairs) ?r" and
    e4: "\<forall>(k, d)\<in>set entries. output_ctes d \<noteq> []
                 \<and> output_relation_name d = cte_name (last (output_ctes d))"
    by auto
  have 1: "result = result0 @ ((?k, ?d) # entries)" using e1 by simp
  have 2: "map fst ((?k, ?d) # entries)
         = map (\<lambda>(stmt, node). node_id (pp_input stmt)) (a # pairs)"
    using e2 a by simp
  have 3: "(map (\<lambda>(k, d). output_ctes d) ((?k, ?d) # entries), leftover)
         = cte_runs (map snd (a # pairs)) remaining"
    using e3[symmetric] a by (simp add: Let_def)
  have 4: "\<forall>(k, d)\<in>set ((?k, ?d) # entries). output_ctes d \<noteq> []
                 \<and> output_relation_name d = cte_name (last (output_ctes d))"
    using e4 ne by simp
  from 1 2 3 4 show ?case by blast
qed

text \<open>
  C1, as amended.  When the loop of \<open>_compile_preprocessed_dml\<close> completes for
  statements of distinct identity: \<open>result\<close> has one entry per statement, keyed by the
  statement, in statement order; the groups and the leftover are those of \<open>cte_runs\<close>;
  the groups in order, followed by the leftover, are the CTE list (so the groups are
  contiguous, do not overlap and keep the order); every group is non-empty and names its
  last CTE as output relation.  For each statement the inner loop takes the CTEs before
  the first one that carries the statement's node and the maximal run of those that
  carry it: if a CTE is left, the first one left does not carry the node (it belongs to
  another statement or to none) and the group holds a CTE that does.
\<close>

theorem cte_partition:
  assumes ok: "partition_ctes pairs compiled [] = Inr (result, leftover)"
    and ids: "distinct (map (\<lambda>(stmt, node). node_id (pp_input stmt)) pairs)"
  shows "map fst result = map (\<lambda>(stmt, node). node_id (pp_input stmt)) pairs
       \<and> (map (\<lambda>(k, d). output_ctes d) result, leftover) = cte_runs (map snd pairs) compiled
       \<and> concat (map (\<lambda>(k, d). output_ctes d) result) @ leftover = compiled
       \<and> (\<forall>(k, d)\<in>set result. output_ctes d \<noteq> []
             \<and> output_relation_name d = cte_name (last (output_ctes d)))
       \<and> (\<forall>node cs g r. take_stmt_ctes node cs False [] = (g, r) \<longrightarrow>
             g @ r = cs
             \<and> g = takeWhile (\<lambda>c. for_dml_stmt c \<noteq> Some node) cs
                   @ takeWhile (\<lambda>c. for_dml_stmt c = Some node)
                       (dropWhile (\<lambda>c. for_dml_stmt c \<noteq> Some node) cs)
             \<and> (r \<noteq> [] \<longrightarrow>
                  for_dml_stmt (hd r) \<noteq> Some node \<and> (\<exists>c\<in>set g. for_dml_stmt c = Some node)))"
proof -
  from partition_ctes_runs[OF ok ids] obtain entries where
    e1: "result = entries" and
    e2: "map fst entries = map (\<lambda>(stmt, node). node_id (pp_input stmt)) pairs" and
    e3: "(map (\<lambda>(k, d). output_ctes d) entries, leftover) = cte_runs (map snd pairs) compiled" and
    e4: "\<forall>(k, d)\<in>set entries. output_ctes d \<noteq> []
                 \<and> output_relation_name d = cte_name (last (output_ctes d))"
    by auto
  have c: "concat (map (\<lambda>(k, d). output_ctes d) result) @ leftover = compiled"
    using cte_runs_concat[OF e3[symmetric]] e1 by simp
  have run: "\<forall>node cs g r. take_stmt_ctes node cs False [] = (g, r) \<longrightarrow>
             g @ r = cs
             \<and> g = takeWhile (\<lambda>c. for_dml_stmt c \<noteq> Some node) cs
                   @ takeWhile (\<lambda>c. for_dml_stmt c = Some node)
                       (dropWhile (\<lambda>c. for_dml_stmt c \<noteq> Some node) cs)
             \<and> (r \<noteq> [] \<longrightarrow>
                  for_dml_stmt (hd r) \<noteq> Some node \<and> (\<exists>c\<in>set g. for_dml_stmt c = Some node))"
    using take_stmt_ctes_run by blast
  from e1 e2 e3 e4 c run show ?thesis by simp
qed

lemma movie_pp_facts:
  "node_id (pp_input movie_one_pp) = 2 \<and> subject_columns movie_one_pp = []
   \<and> node_id (pp_input movie_two_pp) = 3 \<and> subject_columns movie_two_pp = []"
  by (simp add: movie_one_pp_def movie_two_pp_def insert_movie_one_def insert_movie_two_def
        demo_ext_def demo_ctx_def movie_table_def
        movie_schema_def movie_type_def insert_col_names_def pull_columns_from_table_def
        col_map_of_def preprocess_insert_stmt_def preprocess_insert_object_stmt_def
        is_default_def removal_order_def attach_ctes_def alias_get_def endswith_id_def
        construct_insert_element_for_ptr_def Let_def get_ptr_id_def from_type_def
        path_extend_def)

lemma demo_partition:
  "partition_ctes [(movie_one_pp, 10), (movie_two_pp, 11)] demo_ctes [] =
     Inr ([(2, \<lparr>value_cte_name = value_cte_name (early_result movie_one_pp),
                 value_relation_input = value_relation_input (early_result movie_one_pp),
                 value_columns = value_columns (early_result movie_one_pp),
                 value_iterator_name = value_iterator_name (early_result movie_one_pp),
                 output_ctes = [demo_cte ''ins_contents'' (Some 10), demo_cte ''ins'' (Some 10)],
                 output_relation_name = ''ins'',
                 output_namespace = []\<rparr>),
           (3, \<lparr>value_cte_name = value_cte_name (early_result movie_two_pp),
                 value_relation_input = value_relation_input (early_result movie_two_pp),
                 value_columns = value_columns (early_result movie_two_pp),
                 value_iterator_name = value_iterator_name (early_result movie_two_pp),
                 output_ctes = [demo_cte ''trigger'' None, demo_cte ''ins2'' (Some 11)],
                 output_relation_name = ''ins2'',
                 output_namespace = []\<rparr>)],
          [demo_cte ''after_all'' None])"
  by (simp add: movie_pp_facts demo_ctes_def demo_cte_def)

text \<open>
  C1 as amended, at two statements with nodes 10 and 11 and the CTE list
  \<open>ins_contents\<close>, \<open>ins\<close> (node 10), \<open>trigger\<close> (none), \<open>ins2\<close> (node 11),
  \<open>after_all\<close> (none).
\<close>

theorem cte_partition_witness:
  "\<exists>result leftover.
     partition_ctes [(movie_one_pp, 10), (movie_two_pp, 11)] demo_ctes [] = Inr (result, leftover)
     \<and> map fst result = [2, 3]
     \<and> concat (map (\<lambda>(k, d). output_ctes d) result) @ leftover = demo_ctes
     \<and> (map (\<lambda>(k, d). output_ctes d) result, leftover) = cte_runs [10, 11] demo_ctes"
proof -
  from demo_partition obtain result leftover where
    p: "partition_ctes [(movie_one_pp, 10), (movie_two_pp, 11)] demo_ctes [] = Inr (result, leftover)"
    by blast
  have d: "distinct (map (\<lambda>(stmt, node). node_id (pp_input stmt))
             [(movie_one_pp, 10), (movie_two_pp, 11)])"
    by (simp add: movie_pp_facts)
  from cte_partition[OF p d]
  have "map fst result = [2, 3]
     \<and> concat (map (\<lambda>(k, d). output_ctes d) result) @ leftover = demo_ctes
     \<and> (map (\<lambda>(k, d). output_ctes d) result, leftover) = cte_runs [10, 11] demo_ctes"
    by (simp add: movie_pp_facts)
  with p have "partition_ctes [(movie_one_pp, 10), (movie_two_pp, 11)] demo_ctes []
       = Inr (result, leftover)
     \<and> map fst result = [2, 3]
     \<and> concat (map (\<lambda>(k, d). output_ctes d) result) @ leftover = demo_ctes
     \<and> (map (\<lambda>(k, d). output_ctes d) result, leftover) = cte_runs [10, 11] demo_ctes"
    by (rule conjI)
  then show ?thesis by (intro exI)
qed

text \<open>
  The claim as stated fails at that input.  The run of the first statement (node 10)
  ends before \<open>trigger\<close>, a CTE that carries no marker and so matches no statement,
  and \<open>trigger\<close> goes to the second statement; after the second statement's run the
  CTE \<open>after_all\<close>, again of no statement, is left over.  A run does not go on to the
  first CTE that matches a different statement.
\<close>

theorem cte_partition_counterexample:
  "take_stmt_ctes 10 demo_ctes False [] =
     ([demo_cte ''ins_contents'' (Some 10), demo_cte ''ins'' (Some 10)],
      [demo_cte ''trigger'' None, demo_cte ''ins2'' (Some 11), demo_cte ''after_all'' None])
   \<and> for_dml_stmt (demo_cte ''trigger'' None) = None
   \<and> for_dml_stmt (demo_cte ''ins2'' (Some 11)) = Some 11
   \<and> partition_ctes [(movie_one_pp, 10), (movie_two_pp, 11)] demo_ctes [] =
     Inr ([(2, \<lparr>value_cte_name = value_cte_name (early_result movie_one_pp),
                 value_relation_input = value_relation_input (early_result movie_one_pp),
                 value_columns = value_columns (early_result movie_one_pp),
                 value_iterator_name = value_iterator_name (early_result movie_one_pp),
                 output_ctes = [demo_cte ''ins_contents'' (Some 10), demo_cte ''ins'' (Some 10)],
                 output_relation_name = ''ins'',
                 output_namespace = []\<rparr>),
           (3, \<lparr>value_cte_name = value_cte_name (early_result movie_two_pp),
                 value_relation_input = value_relation_input (early_result movie_two_pp),
                 value_columns = value_columns (early_result movie_two_pp),
                 value_iterator_name = value_iterator_name (early_result movie_two_pp),
                 output_ctes = [demo_cte ''trigger'' None, demo_cte ''ins2'' (Some 11)],
                 output_relation_name = ''ins2'',
                 output_namespace = []\<rparr>)],
          [demo_cte ''after_all'' None])"
  using demo_partition by (simp add: demo_ctes_def demo_cte_def)

subsection \<open>One compiled entry per collected statement\<close>

lemma object_stmt_input:
  "preprocess_insert_object_stmt mk s sub tab ecs c = Inr (p, c') \<Longrightarrow> pp_input p = s"
  by (auto simp: preprocess_insert_object_stmt_def alias_get_def Let_def
        split: sum.splits prod.splits if_splits)

lemma pointer_stmt_input:
  "preprocess_insert_pointer_stmt mk s l ptr tab ecs c = Inr (p, c') \<Longrightarrow> pp_input p = s"
  by (auto simp: preprocess_insert_pointer_stmt_def alias_get_def Let_def
        split: sum.splits prod.splits if_splits option.splits)

lemma preprocess_subject_input:
  "preprocess_subject mk s sub tab ecs c = Inr (p, c') \<Longrightarrow> pp_input p = s"
  by (cases sub) (auto dest: object_stmt_input pointer_stmt_input)

lemma preprocess_insert_stmt_input:
  assumes "preprocess_insert_stmt ext s c = Inr (p, c')"
  shows "pp_input p = s"
proof -
  from assms obtain sub tab ecs p0 where
    "preprocess_subject (ext_alias ext) s sub tab ecs c = Inr (p0, c')"
    and "pp_input p = pp_input p0"
    by (auto simp: preprocess_insert_stmt_def split: sum.splits option.splits if_splits)
  then show ?thesis by (simp add: preprocess_subject_input)
qed

lemma preprocess_all_inputs:
  "preprocess_all ext ss c = Inr (ps, c') \<Longrightarrow> map pp_input ps = ss"
proof (induction ss arbitrary: c ps)
  case Nil
  then show ?case by auto
next
  case (Cons s ss)
  from Cons.prems obtain p c1 ps1 where
    a: "preprocess_insert_stmt ext s c = Inr (p, c1)" and
    r: "preprocess_all ext ss c1 = Inr (ps1, c')" and
    e: "ps = p # ps1"
    by (auto split: sum.splits)
  from Cons.IH[OF r] preprocess_insert_stmt_input[OF a] e show ?case by simp
qed

lemma merge_stmts_length:
  "merge_stmts by_name pairs (rels, irs) = Inr (rels', irs') \<Longrightarrow>
   length irs' = length irs + length pairs"
proof (induction pairs arbitrary: rels irs)
  case Nil
  then show ?case by simp
next
  case (Cons a pairs)
  obtain stmt name where a: "a = (stmt, name)" by (cases a)
  from Cons.prems a obtain rels1 node where
    "merge_stmts by_name pairs (rels1, irs @ [node]) = Inr (rels', irs')"
    by (auto split: option.splits sum.splits)
  from Cons.IH[OF this] show ?case by simp
qed

text \<open>
  A successful batch compilation ends in the partition loop, run on the statements
  paired with as many mutating nodes.
\<close>

lemma compile_preprocessed_dml_partition:
  assumes "compile_preprocessed_dml ext stmts = Inr (compiled, remaining)"
  shows "\<exists>ir_stmts cs. length ir_stmts = length stmts
           \<and> partition_ctes (zip stmts ir_stmts) cs [] = Inr (compiled, remaining)"
proof -
  let ?names = "map (\<lambda>index. ''dml_'' @ string_of_nat index) [0..<length stmts]"
  from assms obtain sql_ast ir_stmts where
    cm: "compile_merged ext (merged_ql_stmt stmts ?names)
           (remdups (concat (map ql_singletons stmts)))
           (foldl (\<lambda>d (k, v). dict_set d k v) [] (concat (map ql_anchors stmts)))
           stmts ?names = Inr (Query sql_ast, ir_stmts)" and
    p: "partition_ctes (zip stmts ir_stmts) (opt_list (ctes sql_ast)) [] = Inr (compiled, remaining)"
    by (auto simp: compile_preprocessed_dml_def Let_def
          split: sum.splits prod.splits base.splits if_splits)
  from cm obtain ir_stmt rels where
    "merge_and_prepare_external_rels ir_stmt stmts ?names = Inr (rels, ir_stmts)"
    by (auto simp: compile_merged_def split: sum.splits prod.splits)
  then obtain by_name where
    "merge_stmts by_name (zip stmts ?names) ([], []) = Inr (rels, ir_stmts)"
    by (auto simp: merge_and_prepare_external_rels_def split: ir_statement.splits if_splits)
  from merge_stmts_length[OF this] have "length ir_stmts = length stmts" by simp
  with p show ?thesis by blast
qed

lemma cte_partition_keys:
  assumes "partition_ctes pairs cs [] = Inr (result, leftover)"
    and "distinct (map (\<lambda>(stmt, node). node_id (pp_input stmt)) pairs)"
  shows "map fst result = map (\<lambda>(stmt, node). node_id (pp_input stmt)) pairs"
  using partition_ctes_runs[OF assms] by auto

lemma distinct_one_occurrence:
  "distinct xs \<Longrightarrow> x \<in> set xs \<Longrightarrow> length (filter (\<lambda>k. k = x) xs) = 1"
proof (induction xs)
  case Nil
  then show ?case by simp
next
  case (Cons a xs)
  show ?case
  proof (cases "a = x")
    case True
    with Cons.prems have "x \<notin> set xs" by simp
    then have "filter (\<lambda>k. k = x) xs = []" by (auto simp: filter_empty_conv)
    with True show ?thesis by simp
  next
    case False
    with Cons show ?thesis by simp
  qed
qed

lemma collect_dml_stmts_set:
  "set (collect_dml_stmts (Query q)) =
     {s. is_InsertStmt s \<and> (s = q \<or> s \<in> cte_query ` set (opt_list (ctes q)))}"
  by auto

text \<open>
  C9, as amended.  \<open>_collect_dml_stmts\<close> gathers the INSERT statements among the
  top-level statement and the queries of its immediate CTEs, and no other.  When
  \<open>compile_dml\<close> completes on a statement from which it collects INSERT statements
  of distinct identity, \<open>ctx.compiled_dml\<close> has exactly one entry for each of them,
  keyed by the node, and no other entry; when it collects none, the context is left as
  it was.  A statement resolved at depth 0 or 1 without entry in \<open>ctx.compiled_dml\<close>
  ends in \<open>KeyError\<close>.
\<close>

theorem compiled_dml_entries:
  assumes ok: "compile_dml ext top_stmt c = Inr (remaining, c')"
    and ids: "distinct (map node_id (collect_dml_stmts top_stmt))"
  shows "(\<forall>q. top_stmt = Query q \<longrightarrow>
            set (collect_dml_stmts top_stmt) =
              {s. is_InsertStmt s \<and> (s = q \<or> s \<in> cte_query ` set (opt_list (ctes q)))})
       \<and> (collect_dml_stmts top_stmt \<noteq> [] \<longrightarrow>
            map fst (ctx_compiled_dml c') = map node_id (collect_dml_stmts top_stmt)
            \<and> (\<forall>s\<in>set (collect_dml_stmts top_stmt).
                  length (filter (\<lambda>(k, d). k = node_id s) (ctx_compiled_dml c')) = 1
                  \<and> map_of (ctx_compiled_dml c') (node_id s) \<noteq> None))
       \<and> (collect_dml_stmts top_stmt = [] \<longrightarrow> c' = c \<and> remaining = [])
       \<and> (\<forall>s cx. ins_relation s \<noteq> None \<and> subquery_depth cx < 2
              \<and> map_of (ctx_compiled_dml cx) (node_id s) = None \<longrightarrow>
              resolve_InsertStmt ext s cx = Inl KeyError)"
proof -
  have 1: "\<forall>q. top_stmt = Query q \<longrightarrow>
            set (collect_dml_stmts top_stmt) =
              {s. is_InsertStmt s \<and> (s = q \<or> s \<in> cte_query ` set (opt_list (ctes q)))}"
    using collect_dml_stmts_set by blast
  have 3: "collect_dml_stmts top_stmt = [] \<longrightarrow> c' = c \<and> remaining = []"
    using ok by (auto simp: compile_dml_def)
  have 4: "\<forall>s cx. ins_relation s \<noteq> None \<and> subquery_depth cx < 2
              \<and> map_of (ctx_compiled_dml cx) (node_id s) = None \<longrightarrow>
              resolve_InsertStmt ext s cx = Inl KeyError"
    by (auto simp: resolve_InsertStmt_def)
  have 2: "collect_dml_stmts top_stmt \<noteq> [] \<longrightarrow>
            map fst (ctx_compiled_dml c') = map node_id (collect_dml_stmts top_stmt)
            \<and> (\<forall>s\<in>set (collect_dml_stmts top_stmt).
                  length (filter (\<lambda>(k, d). k = node_id s) (ctx_compiled_dml c')) = 1
                  \<and> map_of (ctx_compiled_dml c') (node_id s) \<noteq> None)"
  proof
    assume ne: "collect_dml_stmts top_stmt \<noteq> []"
    let ?ss = "collect_dml_stmts top_stmt"
    from ok ne obtain stmts c1 compiled where
      pa: "preprocess_all ext ?ss c = Inr (stmts, c1)" and
      cp: "compile_preprocessed_dml ext stmts = Inr (compiled, remaining)" and
      c': "c' = c1\<lparr>ctx_compiled_dml := compiled\<rparr>"
      by (auto simp: compile_dml_def Let_def split: sum.splits prod.splits)
    have inputs: "map pp_input stmts = ?ss" by (rule preprocess_all_inputs[OF pa])
    from compile_preprocessed_dml_partition[OF cp] obtain ir_stmts cs where
      len: "length ir_stmts = length stmts" and
      p: "partition_ctes (zip stmts ir_stmts) cs [] = Inr (compiled, remaining)"
      by blast
    have keys: "map (\<lambda>(stmt, node). node_id (pp_input stmt)) (zip stmts ir_stmts)
              = map node_id ?ss"
    proof -
      have "map (\<lambda>(stmt, node). node_id (pp_input stmt)) (zip stmts ir_stmts)
          = map (\<lambda>stmt. node_id (pp_input stmt)) (map fst (zip stmts ir_stmts))"
        by (simp add: case_prod_unfold)
      also have "\<dots> = map (\<lambda>stmt. node_id (pp_input stmt)) stmts"
        using len by simp
      also have "\<dots> = map node_id (map pp_input stmts)" by simp
      finally show ?thesis using inputs by simp
    qed
    have d: "distinct (map (\<lambda>(stmt, node). node_id (pp_input stmt)) (zip stmts ir_stmts))"
      unfolding keys by (rule ids)
    from cte_partition_keys[OF p d] keys c'
    have k: "map fst (ctx_compiled_dml c') = map node_id ?ss" by simp
    have dk: "distinct (map fst (ctx_compiled_dml c'))" unfolding k by (rule ids)
    have each: "\<forall>s\<in>set ?ss.
                  length (filter (\<lambda>(k, d). k = node_id s) (ctx_compiled_dml c')) = 1
                  \<and> map_of (ctx_compiled_dml c') (node_id s) \<noteq> None"
    proof
      fix s assume s: "s \<in> set ?ss"
      then have m: "node_id s \<in> set (map fst (ctx_compiled_dml c'))" unfolding k by simp
      have f: "map fst (filter (\<lambda>(k, d). k = node_id s) (ctx_compiled_dml c'))
             = filter (\<lambda>k. k = node_id s) (map fst (ctx_compiled_dml c'))"
        by (simp add: filter_map comp_def case_prod_unfold)
      have "length (filter (\<lambda>k. k = node_id s) (map fst (ctx_compiled_dml c'))) = 1"
        by (rule distinct_one_occurrence[OF dk m])
      then have "length (filter (\<lambda>(k, d). k = node_id s) (ctx_compiled_dml c')) = 1"
        using f by (metis length_map)
      moreover have "map_of (ctx_compiled_dml c') (node_id s) \<noteq> None"
        using m by (simp add: map_of_eq_None_iff)
      ultimately show "length (filter (\<lambda>(k, d). k = node_id s) (ctx_compiled_dml c')) = 1
                  \<and> map_of (ctx_compiled_dml c') (node_id s) \<noteq> None"
        by simp
    qed
    from k each show "map fst (ctx_compiled_dml c') = map node_id ?ss
            \<and> (\<forall>s\<in>set ?ss.
                  length (filter (\<lambda>(k, d). k = node_id s) (ctx_compiled_dml c')) = 1
                  \<and> map_of (ctx_compiled_dml c') (node_id s) \<noteq> None)"
      by simp
  qed
  from 1 2 3 4 show ?thesis by simp
qed

lemma two_inserts_preprocessed:
  "\<exists>p0 p1 c1. preprocess_all demo_ext (collect_dml_stmts two_inserts_query) demo_ctx
                 = Inr ([p0, p1], c1)
      \<and> subject_columns p0 = [] \<and> subject_columns p1 = []"
  by (simp add: two_inserts_query_def insert_movie_one_def
        demo_ext_def demo_ctx_def movie_table_def
        movie_schema_def movie_type_def insert_col_names_def pull_columns_from_table_def
        col_map_of_def preprocess_insert_stmt_def preprocess_insert_object_stmt_def
        is_default_def removal_order_def attach_ctes_def alias_get_def endswith_id_def
        construct_insert_element_for_ptr_def Let_def get_ptr_id_def from_type_def
        path_extend_def)

lemma demo_compile:
  assumes "subject_columns p0 = []" and "subject_columns p1 = []"
  shows "\<exists>compiled remaining. compile_preprocessed_dml demo_ext [p0, p1] = Inr (compiled, remaining)"
  using assms
  by (simp add: compile_preprocessed_dml_def compile_merged_def demo_ext_def demo_ir_def
        merge_and_prepare_external_rels_def demo_sql_def demo_ctes_def demo_cte_def Let_def
        upt_rec)

text \<open>
  C9 as amended, at \<open>WITH a AS (INSERT INTO "Movie" (title) VALUES ('Up')) INSERT INTO
  "Movie" (title) VALUES ('Cars'), ('Coco')\<close>.
\<close>

theorem compiled_dml_entries_witness:
  "\<exists>remaining c'. compile_dml demo_ext two_inserts_query demo_ctx = Inr (remaining, c')
     \<and> map fst (ctx_compiled_dml c') = [2, 3]"
proof -
  from two_inserts_preprocessed obtain p0 p1 c1 where
    pa: "preprocess_all demo_ext (collect_dml_stmts two_inserts_query) demo_ctx
           = Inr ([p0, p1], c1)" and
    s0: "subject_columns p0 = []" and s1: "subject_columns p1 = []"
    by blast
  from demo_compile[OF s0 s1] obtain compiled remaining where
    cp: "compile_preprocessed_dml demo_ext [p0, p1] = Inr (compiled, remaining)"
    by blast
  have ne: "collect_dml_stmts two_inserts_query \<noteq> []"
    by (simp add: two_inserts_query_def insert_movie_one_def)
  have ok: "compile_dml demo_ext two_inserts_query demo_ctx
              = Inr (remaining, c1\<lparr>ctx_compiled_dml := compiled\<rparr>)"
    using pa cp ne by (simp add: compile_dml_def)
  have ids: "distinct (map node_id (collect_dml_stmts two_inserts_query))"
    by (simp add: two_inserts_query_def insert_movie_one_def)
  from compiled_dml_entries[OF ok ids] ne
  have "map fst (ctx_compiled_dml (c1\<lparr>ctx_compiled_dml := compiled\<rparr>))
          = map node_id (collect_dml_stmts two_inserts_query)"
    by blast
  then have "map fst (ctx_compiled_dml (c1\<lparr>ctx_compiled_dml := compiled\<rparr>)) = [2, 3]"
    by (simp add: two_inserts_query_def insert_movie_one_def)
  with ok have "compile_dml demo_ext two_inserts_query demo_ctx
              = Inr (remaining, c1\<lparr>ctx_compiled_dml := compiled\<rparr>)
     \<and> map fst (ctx_compiled_dml (c1\<lparr>ctx_compiled_dml := compiled\<rparr>)) = [2, 3]"
    by (rule conjI)
  then show ?thesis by (intro exI)
qed

text \<open>
  The claim as stated fails at \<open>WITH a AS (WITH b AS (INSERT INTO "Movie" (title) VALUES
  ('Up')) SELECT) SELECT\<close>: the INSERT is reachable in the top-level query, nothing is
  collected, \<open>compile_dml\<close> returns without touching the context, and the INSERT has
  no entry.  It is not meant to have one: visited at depth 2, it is rejected.
\<close>

theorem nested_insert_counterexample:
  "insert_movie_one \<in> set (all_insert_stmts nested_insert_query)
   \<and> collect_dml_stmts nested_insert_query = []
   \<and> compile_dml demo_ext nested_insert_query demo_ctx = Inr ([], demo_ctx)
   \<and> map_of (ctx_compiled_dml demo_ctx) (node_id insert_movie_one) = None
   \<and> resolve_InsertStmt demo_ext insert_movie_one (demo_ctx\<lparr>subquery_depth := 2\<rparr>)
       = Inl (QueryError
                ''WITH clause containing a data-modifying statement must be at the top level''
                (Some 0) (Some ERROR_FEATURE_NOT_SUPPORTED))"
  by (simp add: nested_insert_query_def insert_movie_one_def compile_dml_def demo_ctx_def
        resolve_InsertStmt_def dml_depth_error_def)

end
